(* ===== verification/Axe_Prelude.thy ===== *)
theory Axe_Prelude
  imports Main "HOL-Library.Char_ord" "HOL-Library.List_Lexorder" "HOL-Library.Sublist"
begin

text \<open>
  Shared vocabulary of the development: the error values a JavaScript evaluation can
  end in, the \<open>for \<dots> of\<close> loop over a mutable accumulator as a recursive function,
  the array and string built-ins the converter calls (\<open>Array.prototype.join\<close>,
  \<open>String.prototype.replace\<close> with a global one-character pattern), the split of a
  string at a character as the reader of a joined string, and the
  position table of a list, by which the converter's dictionaries from names to
  indices are read. JavaScript strings are modelled as \<open>string\<close> (lists of
  \<open>char\<close>); every operation used by the sources works code unit by code unit, so one
  \<open>char\<close> stands for one code unit. The order on strings is the lexicographic order of
  the code units, which is the order of \<open>Array.prototype.sort\<close> without a comparator.
\<close>

section \<open>Fact collections\<close>

named_theorems js_simps "evaluation rules of the modelled JavaScript built-ins"
named_theorems loop_simps "characteristic equations of the for-of loop combinators"
named_theorems index_simps "facts on position tables of lists"

text \<open>
  Local constants of the sources are kept as \<open>let\<close>; proofs unfold them.
\<close>

declare Let_def [simp]

section \<open>Errors and results\<close>

text \<open>
  The only exception the modelled code can raise is the \<open>TypeError\<close> of reading or
  writing a property of \<open>undefined\<close>; its argument names the expression that was
  \<open>undefined\<close>.
\<close>

datatype error = TypeError string

type_synonym 'a result = "error + 'a"

definition andThen :: "'a result \<Rightarrow> ('a \<Rightarrow> 'b result) \<Rightarrow> 'b result" where
  "andThen r f = (case r of Inl e \<Rightarrow> Inl e | Inr x \<Rightarrow> f x)"

section \<open>Loops\<close>

text \<open>
  \<open>for (const x of xs) body\<close> over a state \<open>s\<close> that the body may change or abandon
  with an exception: the first exception ends the loop.
\<close>

fun forEach :: "('s \<Rightarrow> 'a \<Rightarrow> 's result) \<Rightarrow> 'a list \<Rightarrow> 's \<Rightarrow> 's result" where
  "forEach body [] s = Inr s"
| "forEach body (x # xs) s =
     (case body s x of Inl e \<Rightarrow> Inl e | Inr s' \<Rightarrow> forEach body xs s')"

section \<open>Array and string built-ins\<close>

text \<open>\<open>xs.join(sep)\<close> on an array of strings.\<close>

fun join :: "string \<Rightarrow> string list \<Rightarrow> string" where
  "join sep [] = []"
| "join sep [x] = x"
| "join sep (x # y # ys) = x @ sep @ join sep (y # ys)"

text \<open>
  \<open>s.split(c)\<close> for a separator that is the single character \<open>c\<close>: the reader of
  what \<open>join\<close> writes. The converter does not call it; it states what a consumer of
  the log can recover from a joined string.
\<close>

fun split_on :: "char \<Rightarrow> string \<Rightarrow> string list" where
  "split_on c [] = [[]]"
| "split_on c (d # s) =
     (if d = c then [] # split_on c s
      else (let r = split_on c s in (d # hd r) # tl r))"

text \<open>\<open>s.replace(/c/g, r)\<close> for a pattern that is the single character \<open>c\<close>.\<close>

definition replaceAll :: "char \<Rightarrow> string \<Rightarrow> string \<Rightarrow> string" where
  "replaceAll c r s = concat (map (\<lambda>d. if d = c then r else [d]) s)"

section \<open>Position tables\<close>

text \<open>
  The dictionary that sends each element of a list to its position. For a list without
  duplicates it is what a loop \<open>for i: table[xs[i]] = i\<close> builds.
\<close>

definition index_map :: "'a list \<Rightarrow> ('a \<rightharpoonup> nat)" where
  "index_map xs = map_of (zip xs [0..<length xs])"

text \<open>The elements of a list in the order of their first appearance.\<close>

fun first_seen :: "'a list \<Rightarrow> 'a list" where
  "first_seen [] = []"
| "first_seen (x # xs) = x # first_seen (filter (\<lambda>y. y \<noteq> x) xs)"

section \<open>Lemmas on results\<close>

lemma andThen_simps [simp, loop_simps]:
  "andThen (Inl e) f = Inl e" "andThen (Inr x) f = f x"
  by (simp_all add: andThen_def)

lemma andThen_Inr_iff: "andThen r f = Inr y \<longleftrightarrow> (\<exists>x. r = Inr x \<and> f x = Inr y)"
  by (cases r) simp_all

lemma andThen_Inl_iff:
  "andThen r f = Inl e \<longleftrightarrow> r = Inl e \<or> (\<exists>x. r = Inr x \<and> f x = Inl e)"
  by (cases r) simp_all

lemma andThen_assoc: "andThen (andThen r f) g = andThen r (\<lambda>x. andThen (f x) g)"
  by (cases r) simp_all

section \<open>Lemmas on loops\<close>

lemma forEach_append [loop_simps]:
  "forEach body (xs @ ys) s = andThen (forEach body xs s) (forEach body ys)"
  by (induction xs arbitrary: s) (simp_all split: sum.splits)

text \<open>A body that never raises makes the loop a left fold.\<close>

lemma forEach_foldl:
  assumes "\<And>s x. x \<in> set xs \<Longrightarrow> body s x = Inr (f s x)"
  shows "forEach body xs s = Inr (foldl f s xs)"
  using assms by (induction xs arbitrary: s) simp_all

text \<open>A body that pushes one element per round appends the image of the list.\<close>

lemma forEach_push:
  assumes "\<And>acc x. x \<in> set xs \<Longrightarrow> body acc x = Inr (acc @ [g x])"
  shows "forEach body xs acc = Inr (acc @ map g xs)"
  using assms by (induction xs arbitrary: acc) simp_all

text \<open>A body that appends a block per round appends the concatenation of the blocks.\<close>

lemma forEach_push_many:
  assumes "\<And>acc x. x \<in> set xs \<Longrightarrow> body acc x = Inr (acc @ g x)"
  shows "forEach body xs acc = Inr (acc @ concat (map g xs))"
  using assms by (induction xs arbitrary: acc) simp_all

text \<open>A body that always raises ends a non-empty loop with its exception.\<close>

lemma forEach_raise:
  assumes "\<And>acc. body acc (hd xs) = Inl e" and "xs \<noteq> []"
  shows "forEach body xs acc = Inl e"
  using assms by (cases xs) simp_all

text \<open>A body that either raises or leaves the state alone.\<close>

lemma forEach_guard:
  assumes "\<And>acc x. x \<in> set xs \<Longrightarrow> body acc x = (if P x then Inl e else Inr acc)"
  shows "forEach body xs acc = (if \<exists>x \<in> set xs. P x then Inl e else Inr acc)"
  using assms by (induction xs arbitrary: acc) simp_all

lemma forEach_Nil_iff [loop_simps]: "forEach body [] s = r \<longleftrightarrow> r = Inr s"
  by auto

section \<open>Lemmas on \<open>join\<close> and \<open>replaceAll\<close>\<close>

lemma join_Cons [js_simps]:
  "join sep (x # xs) = (if xs = [] then x else x @ sep @ join sep xs)"
  by (cases xs) simp_all

lemma join_snoc [js_simps]:
  "join sep (xs @ [x]) = (if xs = [] then x else join sep xs @ sep @ x)"
  by (induction sep xs rule: join.induct) simp_all

lemma join_append:
  "xs \<noteq> [] \<Longrightarrow> ys \<noteq> [] \<Longrightarrow> join sep (xs @ ys) = join sep xs @ sep @ join sep ys"
  by (induction sep xs rule: join.induct) (simp_all add: join_Cons)

lemma split_on_not_Nil [simp]: "split_on c s \<noteq> []"
  by (induction s) simp_all

lemma split_on_no_sep [js_simps]: "c \<notin> set x \<Longrightarrow> split_on c x = [x]"
  by (induction x) auto

lemma split_on_append_sep [js_simps]:
  "c \<notin> set x \<Longrightarrow> split_on c (x @ c # s) = x # split_on c s"
  by (induction x) auto

lemma split_on_join:
  assumes "xs \<noteq> []" and "\<forall>x \<in> set xs. c \<notin> set x"
  shows "split_on c (join [c] xs) = xs"
  using assms
  by (induction "[c]" xs rule: join.induct) (simp_all add: split_on_no_sep split_on_append_sep)

lemma join_split_on [js_simps, simp]: "join [c] (split_on c s) = s"
proof (induction s)
  case (Cons d s)
  then show ?case
    by (cases "split_on c s") (auto simp: join_Cons split: if_splits)
qed simp

lemma set_join_subset: "set (join sep xs) \<subseteq> set sep \<union> \<Union> (set ` set xs)"
  by (induction sep xs rule: join.induct) auto

lemma set_join:
  "set (join sep xs) = (if length xs \<le> 1 then {} else set sep) \<union> \<Union> (set ` set xs)"
  by (induction sep xs rule: join.induct) auto

lemma length_join:
  "length (join sep xs) = sum_list (map length xs) + (length xs - 1) * length sep"
  by (induction sep xs rule: join.induct) simp_all

lemma join_not_mem:
  assumes "c \<notin> set sep" and "\<And>x. x \<in> set xs \<Longrightarrow> c \<notin> set x"
  shows "c \<notin> set (join sep xs)"
  using assms set_join_subset [of sep xs] by auto

lemma sublist_join: "x \<in> set xs \<Longrightarrow> sublist x (join sep xs)"
proof (induction sep xs rule: join.induct)
  case (3 sep y z zs)
  show ?case
  proof (cases "x = y")
    case True
    then show ?thesis by simp
  next
    case False
    with 3 have "sublist x (join sep (z # zs))" by simp
    also have "sublist (join sep (z # zs)) ((y @ sep) @ join sep (z # zs))"
      by (rule sublist_append_leftI)
    finally show ?thesis by simp
  qed
qed simp_all

lemma replaceAll_Nil [simp, js_simps]: "replaceAll c r [] = []"
  by (simp add: replaceAll_def)

lemma replaceAll_Cons [simp, js_simps]:
  "replaceAll c r (d # s) = (if d = c then r else [d]) @ replaceAll c r s"
  by (simp add: replaceAll_def)

lemma replaceAll_append [js_simps]:
  "replaceAll c r (s @ t) = replaceAll c r s @ replaceAll c r t"
  by (simp add: replaceAll_def)

lemma set_replaceAll:
  "set (replaceAll c r s) = (set s - {c}) \<union> (if c \<in> set s then set r else {})"
  by (induction s) auto

lemma replaceAll_removes: "c \<notin> set r \<Longrightarrow> c \<notin> set (replaceAll c r s)"
  by (simp add: set_replaceAll)

lemma replaceAll_id: "c \<notin> set s \<Longrightarrow> replaceAll c r s = s"
  by (induction s) auto

lemma replaceAll_idem: "c \<notin> set r \<Longrightarrow> replaceAll c r (replaceAll c r s) = replaceAll c r s"
  by (simp add: replaceAll_id replaceAll_removes)

lemma length_replaceAll:
  "length (replaceAll c r s) + count_list s c = length s + count_list s c * length r"
  by (induction s) simp_all

lemma count_list_append [simp]: "count_list (xs @ ys) c = count_list xs c + count_list ys c"
  by (induction xs) simp_all

lemma count_list_replaceAll:
  "count_list (replaceAll c r s) d =
     (if d = c then count_list s c * count_list r c
      else count_list s d + count_list s c * count_list r d)"
  by (induction s) simp_all

section \<open>Lemmas on position tables\<close>

lemma index_map_Nil [simp, index_simps]: "index_map [] = Map.empty"
  by (simp add: index_map_def)

lemma dom_index_map [simp, index_simps]: "dom (index_map xs) = set xs"
  by (simp add: index_map_def)

lemma index_map_None_iff [index_simps]: "index_map xs k = None \<longleftrightarrow> k \<notin> set xs"
  by (simp add: index_map_def)

lemma index_map_SomeD:
  assumes "index_map xs k = Some i"
  shows "i < length xs \<and> xs ! i = k"
proof -
  from assms have "(k, i) \<in> set (zip xs [0..<length xs])"
    by (auto simp: index_map_def dest: map_of_SomeD)
  then show ?thesis by (auto simp: set_zip)
qed

lemma index_map_mem:
  assumes "k \<in> set xs"
  shows "\<exists>i. index_map xs k = Some i \<and> i < length xs \<and> xs ! i = k"
proof -
  from assms have "index_map xs k \<noteq> None"
    by (simp add: index_map_None_iff)
  then obtain i where i: "index_map xs k = Some i"
    by (cases "index_map xs k") simp_all
  from index_map_SomeD [OF i] i show ?thesis by simp
qed

lemma index_map_nth:
  assumes "distinct xs" and "i < length xs"
  shows "index_map xs (xs ! i) = Some i"
proof -
  from assms(2) have "xs ! i \<in> set xs" by simp
  from index_map_mem [OF this] obtain j
    where j: "index_map xs (xs ! i) = Some j" "j < length xs" "xs ! j = xs ! i"
    by auto
  from assms j(2,3) have "j = i" by (simp add: nth_eq_iff_index_eq)
  with j(1) show ?thesis by simp
qed

lemma index_map_inj:
  assumes "index_map xs a = Some i" and "index_map xs b = Some i"
  shows "a = b"
proof -
  from index_map_SomeD [OF assms(1)] have "xs ! i = a" by simp
  moreover from index_map_SomeD [OF assms(2)] have "xs ! i = b" by simp
  ultimately show ?thesis by simp
qed

lemma set_map_filter: "set (List.map_filter f xs) = {y. \<exists>x \<in> set xs. f x = Some y}"
  by (induction xs) (auto split: option.splits)

lemma set_first_seen [simp, index_simps]: "set (first_seen xs) = set xs"
  by (induction xs rule: first_seen.induct) auto

lemma distinct_first_seen [simp, index_simps]: "distinct (first_seen xs)"
  by (induction xs rule: first_seen.induct) auto

lemma first_seen_distinct_id: "distinct xs \<Longrightarrow> first_seen xs = xs"
proof (induction xs)
  case (Cons x xs)
  then have "filter (\<lambda>y. y \<noteq> x) xs = xs" by (auto intro: filter_True)
  with Cons show ?case by simp
qed simp

lemma first_seen_idem [simp]: "first_seen (first_seen xs) = first_seen xs"
  by (simp add: first_seen_distinct_id)

lemma first_seen_hd: "xs \<noteq> [] \<Longrightarrow> hd (first_seen xs) = hd xs"
  by (cases xs) simp_all

section \<open>Prefixes and suffixes selected by a predicate\<close>

lemma set_tl_subset: "set (tl xs) \<subseteq> set xs"
  by (cases xs) auto

lemma takeWhile_none: "\<forall>c \<in> set xs. \<not> P c \<Longrightarrow> takeWhile P xs = []"
  by (cases xs) simp_all

lemma all_dropWhile_iff: "(\<forall>c \<in> set (dropWhile P s). P c) \<longleftrightarrow> (\<forall>c \<in> set s. P c)"
  by (induction s) simp_all

end
