(* ===== verification/Sarif_Types.thy ===== *)
theory Sarif_Types
  imports Axe_Prelude
begin

text \<open>
  The data the converter reads and writes. The input records follow the decorated axe
  results (\<open>DecoratedAxeResults\<close>, \<open>DecoratedAxeResult\<close>, \<open>Axe.NodeResult\<close>,
  \<open>Axe.CheckResult\<close>); the output records have exactly the properties that the object
  literals of \<open>sarif-converter-21.ts\<close> write. A property that may be \<open>undefined\<close> is an
  \<open>option\<close>. Values that the converter only passes through from its collaborators
  (conversion and tool descriptors, invocations, artifacts, artifact locations, the
  environment data) are type variables. Where a property's name is a HOL constant or
  an Isabelle keyword the field carries a prefix: \<open>check_id\<close>, \<open>rule_id\<close> for \<open>id\<close>,
  \<open>check_message\<close> for the check's \<open>message\<close>, \<open>message_text\<close>, \<open>message_markdown\<close> and
  \<open>snippet_text\<close> for \<open>text\<close> and \<open>markdown\<close>, \<open>link_title\<close> and \<open>link_url\<close> for the
  table's \<open>title\<close> and \<open>url\<close>.
\<close>

section \<open>Input: decorated axe results\<close>

record CheckResult =
  check_id :: string
  check_message :: "string option"

record NodeResult =
  html :: string
  target :: "string list"
  any :: "CheckResult list"
  all :: "CheckResult list"
  none :: "CheckResult list"

record DecoratedAxeResult =
  rule_id :: string
  tags :: "string list"
  nodes :: "NodeResult list"

text \<open>
  The four buckets. The converter guards each with \<open>if (ruleResults)\<close>, so a bucket may
  be absent; further properties of the document (url, timestamp) live in the record's
  extension and are read by the collaborators only.
\<close>

record DecoratedAxeResults =
  violations :: "DecoratedAxeResult list option"
  passes :: "DecoratedAxeResult list option"
  incomplete :: "DecoratedAxeResult list option"
  inapplicable :: "DecoratedAxeResult list option"

record ConverterOptions =
  scanName :: "string option"
  testCaseId :: "string option"
  scanId :: "string option"

text \<open>The members of \<open>CustomSarif.Result.level\<close> that the converter names.\<close>

datatype level = level_error | level_pass | level_open | level_notApplicable

section \<open>Output: the SARIF log\<close>

record Message =
  message_text :: string
  message_markdown :: string

record LogicalLocation =
  fullyQualifiedName :: string
  kind :: string

record ArtifactContent =
  snippet_text :: string

record Region =
  snippet :: ArtifactContent

record 'l PhysicalLocation =
  artifactLocation :: 'l
  region :: Region

record 'l Location =
  physicalLocation :: "'l PhysicalLocation"
  logicalLocations :: "LogicalLocation list"

record 'l Result =
  ruleId :: string
  ruleIndex :: "nat option"
  message :: Message
  locations :: "'l Location list"

text \<open>
  A rule of the tool's driver: its id, its position in the rule list and the positions
  of its guideline tags in the taxonomy.
\<close>

record ReportingDescriptor =
  descriptor_id :: string
  descriptor_index :: nat
  taxa_indices :: "nat list"

text \<open>The static table's entry for a guideline tag, and the taxon made of it.\<close>

record WCAGLinkData =
  link_title :: string
  link_url :: string

record Taxon =
  taxon_id :: string
  taxon_index :: nat
  taxon_title :: string
  taxon_url :: string

record Taxonomy =
  taxa :: "Taxon list"

text \<open>
  The tool component returned by the collaborator has more properties than \<open>rules\<close>;
  they are the record's extension \<open>'t\<close>, which the spread \<open>{...getAxeProperties(), rules}\<close>
  copies.
\<close>

record ToolComponent =
  rules :: "ReportingDescriptor list"

record 't Tool =
  driver :: "'t ToolComponent_scheme"

record ('c, 't, 'i, 'a, 'l) Run =
  conversion :: 'c
  tool :: "'t Tool"
  invocations :: "'i list"
  artifacts :: "'a list"
  results :: "'l Result list"
  taxonomies :: "Taxonomy list"
  properties :: "(string \<rightharpoonup> string) option"

record ('c, 't, 'i, 'a, 'l) Log =
  version :: string
  runs :: "('c, 't, 'i, 'a, 'l) Run list"

section \<open>Derived notions\<close>

text \<open>The rule results of a bucket, none for an absent bucket.\<close>

definition bucket :: "'a list option \<Rightarrow> 'a list" where
  "bucket b = (case b of None \<Rightarrow> [] | Some rs \<Rightarrow> rs)"

text \<open>All checks of a node, in the order in which the converter reads them.\<close>

definition checks_of :: "NodeResult \<Rightarrow> CheckResult list" where
  "checks_of node = all node @ none node @ any node"

section \<open>Concrete data\<close>

text \<open>
  A small scan, used where a theorem is applied to a concrete input: the rule
  \<open>image-alt\<close> fails on one node and passes on another, \<open>blink\<close> is inapplicable. The
  failing node is the one of the specification's message scenario: \<open>c1\<close> without a
  message in \<open>all\<close>, \<open>c2\<close> with the message "Fix me" in \<open>any\<close>.
\<close>

abbreviation example_check_c1 :: CheckResult where
  "example_check_c1 \<equiv> \<lparr>check_id = ''c1'', check_message = None\<rparr>"

abbreviation example_check_c2 :: CheckResult where
  "example_check_c2 \<equiv> \<lparr>check_id = ''c2'', check_message = Some ''Fix me''\<rparr>"

abbreviation example_node_a :: NodeResult where
  "example_node_a \<equiv>
     \<lparr>html = ''<img src=a>'', target = [''#main'', ''img''],
      any = [example_check_c2], all = [example_check_c1], none = []\<rparr>"

abbreviation example_node_b :: NodeResult where
  "example_node_b \<equiv>
     \<lparr>html = ''<img alt=b>'', target = [''img.b''],
      any = [], all = [example_check_c1], none = []\<rparr>"

abbreviation example_results :: DecoratedAxeResults where
  "example_results \<equiv>
     \<lparr>violations = Some [\<lparr>rule_id = ''image-alt'', tags = [''cat.text'', ''wcag111''],
                          nodes = [example_node_a]\<rparr>],
      passes = Some [\<lparr>rule_id = ''image-alt'', tags = [''cat.text'', ''wcag111''],
                      nodes = [example_node_b]\<rparr>],
      incomplete = Some [],
      inapplicable = Some [\<lparr>rule_id = ''blink'', tags = [''wcag222''], nodes = []\<rparr>]\<rparr>"

abbreviation empty_results :: DecoratedAxeResults where
  "empty_results \<equiv>
     \<lparr>violations = Some [], passes = Some [], incomplete = Some [], inapplicable = Some []\<rparr>"

section \<open>Lemmas\<close>

lemma bucket_simps [simp]: "bucket None = []" "bucket (Some rs) = rs"
  by (simp_all add: bucket_def)

lemma level_cases4:
  "l = level_error \<or> l = level_pass \<or> l = level_open \<or> l = level_notApplicable"
  by (cases l) simp_all

end
