(* ===== verification/Message_Synthesizer.thy ===== *)
theory Message_Synthesizer
  imports Sarif_Types
begin

text \<open>
  The message synthesizer of \<open>sarif-converter-21.ts\<close>: \<open>escapeForMarkdown\<close>,
  \<open>convertMessageChecks\<close> with its loop over the check results, and \<open>convertMessage\<close>.
  The two arrays that \<open>convertMessageChecks\<close> pushes to are passed in and returned.
  The second half states what a message is meant to be (\<open>display\<close>, \<open>group_text\<close>,
  \<open>group_markdown\<close>, \<open>message_groups\<close>, \<open>message_spec\<close>) and proves that the code
  computes it, that the markdown never holds a \<open><\<close>, and that the plain text shows
  every check.
\<close>

section \<open>Definitions\<close>

abbreviation newline :: string where
  "newline \<equiv> [CHR 0x0A]"

text \<open>\<open>isNotEmpty\<close> of \<open>string-utils\<close>: a string that is defined and not empty.\<close>

definition isNotEmpty :: "string option \<Rightarrow> bool" where
  "isNotEmpty str = (case str of None \<Rightarrow> False | Some s \<Rightarrow> 0 < length s)"

definition escapeForMarkdown :: "string \<Rightarrow> string" where
  "escapeForMarkdown s = (if s \<noteq> [] then replaceAll (CHR ''<'') ''&lt;'' s else [])"

text \<open>The loop of \<open>convertMessageChecks\<close> over \<open>textLines\<close> and \<open>richTextLines\<close>.\<close>

fun convertMessageChecks_loop ::
  "CheckResult list \<Rightarrow> string list \<times> string list \<Rightarrow> string list \<times> string list" where
  "convertMessageChecks_loop [] (textLines, richTextLines) = (textLines, richTextLines)"
| "convertMessageChecks_loop (checkResult # rest) (textLines, richTextLines) =
     (let message = (if isNotEmpty (check_message checkResult)
                     then the (check_message checkResult)
                     else check_id checkResult)
      in convertMessageChecks_loop rest
           (textLines @ [message @ ''.''],
            richTextLines @ [''- '' @ escapeForMarkdown message]))"

definition convertMessageChecks ::
  "string \<Rightarrow> CheckResult list \<Rightarrow> string list \<Rightarrow> string list \<Rightarrow> string list \<times> string list" where
  "convertMessageChecks heading checkResults textArray markdownArray =
     (if 0 < length checkResults then
        (let (textLines, richTextLines) =
               convertMessageChecks_loop checkResults ([heading], [escapeForMarkdown heading])
         in (textArray @ [join '' '' textLines], markdownArray @ [join newline richTextLines]))
      else (textArray, markdownArray))"

definition convertMessage :: "NodeResult \<Rightarrow> level \<Rightarrow> Message" where
  "convertMessage node lvl =
     (let (textArray, markdownArray) =
        (if lvl = level_error then
           (let allAndNone = all node @ none node;
                (textArray, markdownArray) =
                  convertMessageChecks ''Fix all of the following:'' allAndNone [] []
            in convertMessageChecks ''Fix any of the following:'' (any node)
                 textArray markdownArray)
         else
           (let allNodes = (all node @ none node) @ any node
            in convertMessageChecks ''The following tests passed:'' allNodes [] []))
      in \<lparr>message_text = join '' '' textArray,
          message_markdown = join (newline @ newline) markdownArray\<rparr>)"

section \<open>What a message is meant to be\<close>

text \<open>A check shows its message, or its id when it has none.\<close>

definition display :: "CheckResult \<Rightarrow> string" where
  "display c = (case check_message c of
      None \<Rightarrow> check_id c
    | Some m \<Rightarrow> if m = [] then check_id c else m)"

definition group_text :: "string \<Rightarrow> CheckResult list \<Rightarrow> string" where
  "group_text heading cs = join '' '' (heading # map (\<lambda>c. display c @ ''.'') cs)"

definition group_markdown :: "string \<Rightarrow> CheckResult list \<Rightarrow> string" where
  "group_markdown heading cs =
     join newline (escapeForMarkdown heading # map (\<lambda>c. ''- '' @ escapeForMarkdown (display c)) cs)"

text \<open>The groups of a node under a level: headed lists of checks, empty ones left out.\<close>

definition message_groups :: "NodeResult \<Rightarrow> level \<Rightarrow> (string \<times> CheckResult list) list" where
  "message_groups node lvl =
     filter (\<lambda>(heading, cs). cs \<noteq> [])
       (if lvl = level_error
        then [(''Fix all of the following:'', all node @ none node),
              (''Fix any of the following:'', any node)]
        else [(''The following tests passed:'', all node @ none node @ any node)])"

definition message_spec :: "NodeResult \<Rightarrow> level \<Rightarrow> Message" where
  "message_spec node lvl =
     \<lparr>message_text = join '' '' (map (\<lambda>(h, cs). group_text h cs) (message_groups node lvl)),
      message_markdown =
        join (newline @ newline) (map (\<lambda>(h, cs). group_markdown h cs) (message_groups node lvl))\<rparr>"

section \<open>The built-ins on this component's data\<close>

lemma isNotEmpty_simps [simp]:
  "isNotEmpty None = False" "isNotEmpty (Some s) = (s \<noteq> [])"
  by (simp_all add: isNotEmpty_def)

lemma escapeForMarkdown_replaceAll: "escapeForMarkdown s = replaceAll (CHR ''<'') ''&lt;'' s"
  by (simp add: escapeForMarkdown_def)

lemma escapeForMarkdown_simps [simp]:
  "escapeForMarkdown [] = []"
  "escapeForMarkdown (d # s) = (if d = CHR ''<'' then ''&lt;'' else [d]) @ escapeForMarkdown s"
  by (simp_all add: escapeForMarkdown_replaceAll)

lemma escapeForMarkdown_append:
  "escapeForMarkdown (s @ t) = escapeForMarkdown s @ escapeForMarkdown t"
  by (simp add: escapeForMarkdown_replaceAll replaceAll_append)

lemma escapeForMarkdown_no_lt [simp]: "CHR ''<'' \<notin> set (escapeForMarkdown s)"
  by (simp add: escapeForMarkdown_replaceAll replaceAll_removes)

lemma escapeForMarkdown_id: "CHR ''<'' \<notin> set s \<Longrightarrow> escapeForMarkdown s = s"
  by (simp add: escapeForMarkdown_replaceAll replaceAll_id)

lemma escapeForMarkdown_idem [simp]:
  "escapeForMarkdown (escapeForMarkdown s) = escapeForMarkdown s"
  by (simp add: escapeForMarkdown_id)

lemma set_escapeForMarkdown:
  "set (escapeForMarkdown s) =
     (set s - {CHR ''<''}) \<union> (if CHR ''<'' \<in> set s then set ''&lt;'' else {})"
  by (simp only: escapeForMarkdown_replaceAll set_replaceAll)

section \<open>The loop is a map\<close>

lemma loop_message_display:
  "(if isNotEmpty (check_message c) then the (check_message c) else check_id c) = display c"
  by (cases "check_message c") (simp_all add: display_def)

lemma convertMessageChecks_loop_map:
  "convertMessageChecks_loop cs (textLines, richTextLines) =
     (textLines @ map (\<lambda>c. display c @ ''.'') cs,
      richTextLines @ map (\<lambda>c. ''- '' @ escapeForMarkdown (display c)) cs)"
  by (induction cs arbitrary: textLines richTextLines)
    (simp_all add: loop_message_display)

lemma convertMessageChecks_eq:
  "convertMessageChecks heading cs textArray markdownArray =
     (if cs = [] then (textArray, markdownArray)
      else (textArray @ [group_text heading cs], markdownArray @ [group_markdown heading cs]))"
  by (simp add: convertMessageChecks_def convertMessageChecks_loop_map
      group_text_def group_markdown_def)

lemmas message_defs = convertMessage_def convertMessageChecks_eq message_spec_def
  message_groups_def

section \<open>Facts on groups\<close>

lemma group_text_Cons:
  "group_text heading (c # cs) = heading @ '' '' @ join '' '' (map (\<lambda>c. display c @ ''.'') (c # cs))"
  by (simp add: group_text_def)

lemma group_text_not_Nil [simp]: "cs \<noteq> [] \<Longrightarrow> group_text heading cs \<noteq> []"
  by (cases cs) (simp_all add: group_text_def)

lemma group_markdown_no_lt [simp]: "CHR ''<'' \<notin> set (group_markdown heading cs)"
  unfolding group_markdown_def by (rule join_not_mem) auto

lemma sublist_group_text:
  assumes "c \<in> set cs"
  shows "sublist (display c @ ''.'') (group_text heading cs)"
  unfolding group_text_def using assms by (intro sublist_join) simp

lemma sublist_group_markdown:
  assumes "c \<in> set cs"
  shows "sublist (''- '' @ escapeForMarkdown (display c)) (group_markdown heading cs)"
  unfolding group_markdown_def using assms by (intro sublist_join) simp

lemma prefix_group_text: "prefix heading (group_text heading cs)"
  by (cases cs) (simp_all add: group_text_def)

lemma message_groups_nonempty: "(h, cs) \<in> set (message_groups node lvl) \<Longrightarrow> cs \<noteq> []"
  by (auto simp: message_groups_def split: if_splits)

lemma concat_message_groups:
  "concat (map snd (message_groups node lvl)) = checks_of node"
  by (simp add: message_groups_def checks_of_def)

lemma message_groups_eq_Nil_iff: "message_groups node lvl = [] \<longleftrightarrow> checks_of node = []"
  by (auto simp: message_groups_def checks_of_def)

lemma length_message_groups: "length (message_groups node lvl) \<le> 2"
  by (simp add: message_groups_def)

lemma join_hd_not_Nil: "xs \<noteq> [] \<Longrightarrow> hd xs \<noteq> [] \<Longrightarrow> join sep xs \<noteq> []"
  by (cases xs) (simp_all add: join_Cons)

lemma message_groups_error:
  "message_groups node level_error =
     (if all node @ none node = [] then [] else [(''Fix all of the following:'', all node @ none node)]) @
     (if any node = [] then [] else [(''Fix any of the following:'', any node)])"
  by (simp add: message_groups_def)

lemma message_groups_other:
  "lvl \<noteq> level_error \<Longrightarrow> message_groups node lvl =
     (if checks_of node = [] then []
      else [(''The following tests passed:'', all node @ none node @ any node)])"
  by (simp add: message_groups_def checks_of_def)

section \<open>The code computes the specified message\<close>

lemma convertMessage_unfold:
  "convertMessage node lvl =
     \<lparr>message_text = join '' '' (map (\<lambda>(h, cs). group_text h cs) (message_groups node lvl)),
      message_markdown =
        join (newline @ newline) (map (\<lambda>(h, cs). group_markdown h cs) (message_groups node lvl))\<rparr>"
proof (cases "lvl = level_error")
  case True
  then show ?thesis
    by (simp add: convertMessage_def convertMessageChecks_eq message_groups_error)
next
  case False
  then show ?thesis
    by (simp add: convertMessage_def convertMessageChecks_eq message_groups_other
        checks_of_def)
qed

lemma in_message_groups:
  assumes "c \<in> set (checks_of node)"
  shows "\<exists>h cs. (h, cs) \<in> set (message_groups node lvl) \<and> c \<in> set cs"
proof -
  from assms have "c \<in> set (concat (map snd (message_groups node lvl)))"
    by (simp only: concat_message_groups)
  then show ?thesis by force
qed

text \<open>
  C3. For every node and level, \<open>convertMessage\<close> returns the message of the
  specification: the groups of the level that have at least one check (for the error
  level "Fix all of the following:" over \<open>all\<close> followed by \<open>none\<close>, then "Fix any of
  the following:" over \<open>any\<close>; for every other level "The following tests passed:"
  over \<open>all\<close>, \<open>none\<close>, \<open>any\<close>), each group its heading followed by one line per
  check; plain lines end in a period and are joined by spaces, markdown lines are
  bullets joined by newlines, groups are joined by a space and by an empty line.
\<close>

theorem convertMessage_refines_spec: "convertMessage node lvl = message_spec node lvl"
  by (simp only: convertMessage_unfold message_spec_def)

text \<open>
  C9. The markdown of a message never contains the character \<open><\<close>, whatever the
  messages and ids of the checks contain: no check can open a tag in the rendered text.
\<close>

theorem convertMessage_markdown_no_lt:
  "CHR ''<'' \<notin> set (message_markdown (convertMessage node lvl))"
  unfolding convertMessage_unfold Message.simps
  by (rule join_not_mem) auto

text \<open>
  C34. The plain text of a message shows every check of the node: the check's message
  (its id when the message is absent or empty) followed by a period occurs in the text,
  unescaped.
\<close>

theorem convertMessage_text_shows_check:
  assumes "c \<in> set (checks_of node)"
  shows "sublist (display c @ ''.'') (message_text (convertMessage node lvl))"
proof -
  from in_message_groups [OF assms] obtain h cs
    where g: "(h, cs) \<in> set (message_groups node lvl)" and c: "c \<in> set cs"
    by blast
  have "sublist (display c @ ''.'') (group_text h cs)"
    using c by (rule sublist_group_text)
  also have "sublist (group_text h cs)
      (join '' '' (map (\<lambda>(h, cs). group_text h cs) (message_groups node lvl)))"
    using g by (intro sublist_join) force
  finally show ?thesis by (simp add: convertMessage_unfold)
qed

theorem convertMessage_text_shows_check_witness:
  "sublist ''Fix me.''
     (message_text (convertMessage
        \<lparr>html = ''<a>'', target = [''a''],
         any = [\<lparr>check_id = ''c2'', check_message = Some ''Fix me''\<rparr>],
         all = [\<lparr>check_id = ''c1'', check_message = None\<rparr>], none = []\<rparr> level_error))"
  using convertMessage_text_shows_check
    [of "\<lparr>check_id = ''c2'', check_message = Some ''Fix me''\<rparr>"
        "\<lparr>html = ''<a>'', target = [''a''],
         any = [\<lparr>check_id = ''c2'', check_message = Some ''Fix me''\<rparr>],
         all = [\<lparr>check_id = ''c1'', check_message = None\<rparr>], none = []\<rparr>" level_error]
  by (simp add: checks_of_def display_def)

text \<open>
  C36. \<open>convertMessage\<close> never fails on a node without checks and tells it apart: the
  plain text (and with it the markdown) is the empty string exactly when the node has
  no check in \<open>all\<close>, \<open>none\<close> and \<open>any\<close>.
\<close>

theorem convertMessage_empty_iff:
  "message_text (convertMessage node lvl) = [] \<longleftrightarrow> checks_of node = []"
proof (cases "message_groups node lvl")
  case Nil
  then show ?thesis
    using message_groups_eq_Nil_iff [of node lvl] by (simp add: convertMessage_unfold)
next
  case (Cons g gs)
  obtain h cs where g: "g = (h, cs)" by (cases g)
  with Cons have "cs \<noteq> []" using message_groups_nonempty [of h cs node lvl] by simp
  with Cons g have "join '' '' (map (\<lambda>(h, cs). group_text h cs) (message_groups node lvl)) \<noteq> []"
    by (intro join_hd_not_Nil) simp_all
  moreover from Cons have "checks_of node \<noteq> []"
    using message_groups_eq_Nil_iff [of node lvl] by simp
  ultimately show ?thesis by (simp add: convertMessage_unfold)
qed

text \<open>
  C35. For a failing node with checks in both groups the text is the "Fix all" group over
  \<open>all\<close> followed by \<open>none\<close>, a space, and the "Fix any" group over \<open>any\<close>, in this
  order; the markdown is the two groups separated by an empty line.
\<close>

theorem convertMessage_error_both_groups:
  assumes "all node @ none node \<noteq> []" and "any node \<noteq> []"
  shows "convertMessage node level_error =
    \<lparr>message_text = group_text ''Fix all of the following:'' (all node @ none node) @ '' '' @
        group_text ''Fix any of the following:'' (any node),
      message_markdown =
        group_markdown ''Fix all of the following:'' (all node @ none node) @ newline @ newline @
        group_markdown ''Fix any of the following:'' (any node)\<rparr>"
  using assms by (simp add: convertMessage_unfold message_groups_error)

theorem convertMessage_error_both_groups_witness:
  "convertMessage
     \<lparr>html = ''<a>'', target = [''a''],
      any = [\<lparr>check_id = ''c2'', check_message = Some ''Fix me''\<rparr>],
      all = [\<lparr>check_id = ''c1'', check_message = None\<rparr>], none = []\<rparr> level_error =
   \<lparr>message_text = ''Fix all of the following: c1. Fix any of the following: Fix me.'',
    message_markdown =
      ''Fix all of the following:'' @ newline @ ''- c1'' @ newline @ newline @
      ''Fix any of the following:'' @ newline @ ''- Fix me''\<rparr>"
  using convertMessage_error_both_groups
    [of "\<lparr>html = ''<a>'', target = [''a''],
         any = [\<lparr>check_id = ''c2'', check_message = Some ''Fix me''\<rparr>],
         all = [\<lparr>check_id = ''c1'', check_message = None\<rparr>], none = []\<rparr>"]
  by (simp add: group_text_def group_markdown_def display_def)

text \<open>
  C37. The level matters only through the test \<open>level === error\<close>: passing, incomplete
  and inapplicable nodes all get the message of a passing node, headed "The following
  tests passed:".
\<close>

theorem convertMessage_level_other:
  assumes "lvl \<noteq> level_error"
  shows "convertMessage node lvl = convertMessage node level_pass"
  using assms by (simp add: convertMessage_unfold message_groups_other)

theorem convertMessage_level_other_witness:
  "convertMessage \<lparr>html = [], target = [], any = [], all = [\<lparr>check_id = ''c'', check_message = None\<rparr>], none = []\<rparr> level_open =
   convertMessage \<lparr>html = [], target = [], any = [], all = [\<lparr>check_id = ''c'', check_message = None\<rparr>], none = []\<rparr> level_pass"
  using convertMessage_level_other [of level_open] by simp

text \<open>
  C38. \<open>escapeForMarkdown\<close> replaces \<open><\<close> only. Every \<open>>\<close> of a string stays as it is
  and every \<open><\<close> adds one \<open>&\<close> to those of the string, so \<open><span>\<close> is rendered as
  \<open>&lt;span>\<close>; as \<open>&\<close> is not escaped, a message that already holds \<open>&lt;\<close> is
  rendered like one that holds \<open><\<close>.
\<close>

theorem escapeForMarkdown_only_lt:
  "count_list (escapeForMarkdown s) (CHR ''>'') = count_list s (CHR ''>'') \<and>
   count_list (escapeForMarkdown s) (CHR ''&'') =
     count_list s (CHR ''&'') + count_list s (CHR ''<'') \<and>
   escapeForMarkdown ''<span>'' = ''&lt;span>'' \<and>
   escapeForMarkdown ''&lt;'' = escapeForMarkdown ''<''"
  by (simp add: escapeForMarkdown_replaceAll count_list_replaceAll)

end
