(* ===== verification/Wcag_Taxonomy.thy ===== *)
theory Wcag_Taxonomy
  imports Sarif_Types
begin

text \<open>
  The guideline taxonomy: \<open>WCAGLinkDataIndexer\<close> (\<open>wcag-link-data-indexer\<close>) and
  \<open>getWcagTaxonomy\<close> (\<open>wcag-taxonomy-provider\<close>). Neither is under \<open>src\<close>; they are
  modelled from the specification and from the way \<open>sarif-converter-21.ts\<close> calls them:
  the indexer is constructed from the static table of guideline tags alone, so its
  order and its indices are those of the table's tags.
\<close>

section \<open>Definitions\<close>

record WCAGLinkDataIndexer =
  sortedWcagTags :: "string list"
  wcagTagsToTaxaIndices :: "string \<rightharpoonup> nat"

definition new_WCAGLinkDataIndexer :: "(string \<times> WCAGLinkData) list \<Rightarrow> WCAGLinkDataIndexer" where
  "new_WCAGLinkDataIndexer wcagConfiguration =
     (let sortedTags = sort (remdups (map fst wcagConfiguration))
      in \<lparr>sortedWcagTags = sortedTags, wcagTagsToTaxaIndices = index_map sortedTags\<rparr>)"

definition getSortedWcagTags :: "WCAGLinkDataIndexer \<Rightarrow> string list" where
  "getSortedWcagTags indexer = sortedWcagTags indexer"

definition getWcagTagsToTaxaIndices :: "WCAGLinkDataIndexer \<Rightarrow> (string \<rightharpoonup> nat)" where
  "getWcagTagsToTaxaIndices indexer = wcagTagsToTaxaIndices indexer"

definition taxon_of :: "(string \<times> WCAGLinkData) list \<Rightarrow> nat \<Rightarrow> string \<Rightarrow> Taxon" where
  "taxon_of wcagConfiguration i tag =
     \<lparr>taxon_id = tag, taxon_index = i,
      taxon_title = (case map_of wcagConfiguration tag of None \<Rightarrow> [] | Some d \<Rightarrow> link_title d),
      taxon_url = (case map_of wcagConfiguration tag of None \<Rightarrow> [] | Some d \<Rightarrow> link_url d)\<rparr>"

definition getWcagTaxonomy :: "string list \<Rightarrow> (string \<times> WCAGLinkData) list \<Rightarrow> Taxonomy" where
  "getWcagTaxonomy sortedTags wcagConfiguration =
     \<lparr>taxa = map (\<lambda>(i, tag). taxon_of wcagConfiguration i tag) (enumerate 0 sortedTags)\<rparr>"

text \<open>An indexer is well formed when its tags are strictly sorted and its table is their
  position table.\<close>

definition indexer_wf :: "WCAGLinkDataIndexer \<Rightarrow> bool" where
  "indexer_wf indexer \<longleftrightarrow>
     sorted (sortedWcagTags indexer) \<and> distinct (sortedWcagTags indexer) \<and>
     wcagTagsToTaxaIndices indexer = index_map (sortedWcagTags indexer)"

section \<open>The indexer\<close>

lemma sortedWcagTags_new [simp]:
  "sortedWcagTags (new_WCAGLinkDataIndexer tbl) = sort (remdups (map fst tbl))"
  by (simp add: new_WCAGLinkDataIndexer_def)

lemma wcagTagsToTaxaIndices_new [simp]:
  "wcagTagsToTaxaIndices (new_WCAGLinkDataIndexer tbl) = index_map (sort (remdups (map fst tbl)))"
  by (simp add: new_WCAGLinkDataIndexer_def)

lemma set_sortedWcagTags_new: "set (sortedWcagTags (new_WCAGLinkDataIndexer tbl)) = fst ` set tbl"
  by simp

lemma indexer_wf_new [simp, intro]: "indexer_wf (new_WCAGLinkDataIndexer tbl)"
  by (simp add: indexer_wf_def)

lemma indexer_wf_sorted: "indexer_wf ix \<Longrightarrow> sorted_wrt (<) (getSortedWcagTags ix)"
  by (simp add: indexer_wf_def getSortedWcagTags_def strict_sorted_iff)

text \<open>Tag to index and back: the table and the sorted list are inverse to each other.\<close>

lemma indexer_lookup_nth:
  assumes "indexer_wf ix" and "getWcagTagsToTaxaIndices ix tag = Some i"
  shows "i < length (getSortedWcagTags ix) \<and> getSortedWcagTags ix ! i = tag"
  using assms index_map_SomeD [of "sortedWcagTags ix" tag i]
  by (simp add: indexer_wf_def getSortedWcagTags_def getWcagTagsToTaxaIndices_def)

lemma indexer_nth_lookup:
  assumes "indexer_wf ix" and "i < length (getSortedWcagTags ix)"
  shows "getWcagTagsToTaxaIndices ix (getSortedWcagTags ix ! i) = Some i"
  using assms index_map_nth [of "sortedWcagTags ix" i]
  by (simp add: indexer_wf_def getSortedWcagTags_def getWcagTagsToTaxaIndices_def)

lemma indexer_dom:
  "indexer_wf ix \<Longrightarrow> dom (getWcagTagsToTaxaIndices ix) = set (getSortedWcagTags ix)"
  by (simp add: indexer_wf_def getSortedWcagTags_def getWcagTagsToTaxaIndices_def)

section \<open>The taxonomy\<close>

lemma length_taxa [simp]: "length (taxa (getWcagTaxonomy tgs tbl)) = length tgs"
  by (simp add: getWcagTaxonomy_def)

lemma nth_taxa:
  "i < length tgs \<Longrightarrow> taxa (getWcagTaxonomy tgs tbl) ! i = taxon_of tbl i (tgs ! i)"
  by (simp add: getWcagTaxonomy_def nth_enumerate_eq)

lemma taxon_index_nth [simp]:
  "i < length tgs \<Longrightarrow> taxon_index (taxa (getWcagTaxonomy tgs tbl) ! i) = i"
  by (simp add: nth_taxa taxon_of_def)

lemma taxon_id_nth [simp]:
  "i < length tgs \<Longrightarrow> taxon_id (taxa (getWcagTaxonomy tgs tbl) ! i) = tgs ! i"
  by (simp add: nth_taxa taxon_of_def)

lemma map_taxon_id [simp]: "map taxon_id (taxa (getWcagTaxonomy tgs tbl)) = tgs"
  by (rule nth_equalityI) simp_all

lemma set_taxon_id [simp]: "taxon_id ` set (taxa (getWcagTaxonomy tgs tbl)) = set tgs"
  using map_taxon_id [of tgs tbl] by (metis set_map)

lemma taxon_title_known:
  assumes "i < length tgs" and "map_of tbl (tgs ! i) = Some d"
  shows "taxon_title (taxa (getWcagTaxonomy tgs tbl) ! i) = link_title d
    \<and> taxon_url (taxa (getWcagTaxonomy tgs tbl) ! i) = link_url d"
  using assms by (simp add: nth_taxa taxon_of_def)

end
