(* ===== verification/Converter_Object.thy ===== *)
theory Converter_Object
  imports Wcag_Taxonomy
begin

text \<open>
  The class \<open>SarifConverter21\<close> as a record of its instance properties, its constructor
  and the factory \<open>defaultSarifConverter21\<close>. The bindings that the module imports
  from files outside \<open>src\<close> and that the converter only calls are the fields of the
  record \<open>Imports\<close>, over which every lemma is universally quantified.

  The method \<open>convertRuleResult\<close> reads \<open>this.ruleIdsToRuleIndices\<close>, a property that
  neither the class body nor the constructor defines. The record therefore carries it
  as an optional field, which the constructor leaves \<open>None\<close> (the property is
  \<open>undefined\<close> on every instance the constructor returns).
\<close>

section \<open>Definitions\<close>

record ('r, 'e, 'l, 'c, 't, 'i, 'a) Imports =
  axeTagsToWcagLinkData :: "(string \<times> WCAGLinkData) list"
  getEnvironmentDataFromResults :: "'r DecoratedAxeResults_scheme \<Rightarrow> 'e"
  getArtifactLocation :: "'e \<Rightarrow> 'l"
  getConverterProperties :: "unit \<Rightarrow> 'c"
  getAxeToolProperties21 :: "unit \<Rightarrow> 't ToolComponent_scheme"
  getInvocations21 :: "'e \<Rightarrow> 'i list"
  import_getArtifactProperties :: "'e \<Rightarrow> 'a"
  SarifLogVersion21_version :: string

record ('e, 'c, 't, 'i, 'a) SarifConverter21 =
  tagsToWcagLinkData :: "(string \<times> WCAGLinkData) list"
  wcagLinkDataIndexer :: WCAGLinkDataIndexer
  getConverterToolProperties :: "unit \<Rightarrow> 'c"
  getAxeProperties :: "unit \<Rightarrow> 't ToolComponent_scheme"
  invocationConverter :: "'e \<Rightarrow> 'i list"
  getArtifactProperties :: "'e \<Rightarrow> 'a"
  ruleIdsToRuleIndices :: "(string \<rightharpoonup> nat) option"

text \<open>The constructor with the field initialisers of the class body.\<close>

definition new_SarifConverter21 ::
  "('r, 'e, 'l, 'c, 't, 'i, 'a) Imports \<Rightarrow> (unit \<Rightarrow> 'c) \<Rightarrow> (unit \<Rightarrow> 't ToolComponent_scheme) \<Rightarrow>
   ('e \<Rightarrow> 'i list) \<Rightarrow> ('e \<Rightarrow> 'a) \<Rightarrow> ('e, 'c, 't, 'i, 'a) SarifConverter21" where
  "new_SarifConverter21 M getConverterToolProperties' getAxeProperties' invocationConverter'
       getArtifactProperties' =
     \<lparr>tagsToWcagLinkData = axeTagsToWcagLinkData M,
      wcagLinkDataIndexer = new_WCAGLinkDataIndexer (axeTagsToWcagLinkData M),
      getConverterToolProperties = getConverterToolProperties',
      getAxeProperties = getAxeProperties',
      invocationConverter = invocationConverter',
      getArtifactProperties = getArtifactProperties',
      ruleIdsToRuleIndices = None\<rparr>"

definition defaultSarifConverter21 ::
  "('r, 'e, 'l, 'c, 't, 'i, 'a) Imports \<Rightarrow> ('e, 'c, 't, 'i, 'a) SarifConverter21" where
  "defaultSarifConverter21 M =
     new_SarifConverter21 M (getConverterProperties M) (getAxeToolProperties21 M)
       (getInvocations21 M) (import_getArtifactProperties M)"

text \<open>
  The state a constructed converter is in: its indexer is the one of its table.
  Every method keeps it, since no method assigns a property of \<open>this\<close>.
\<close>

definition converter_wf :: "('e, 'c, 't, 'i, 'a) SarifConverter21 \<Rightarrow> bool" where
  "converter_wf this \<longleftrightarrow>
     wcagLinkDataIndexer this = new_WCAGLinkDataIndexer (tagsToWcagLinkData this)"

section \<open>Concrete data\<close>

text \<open>
  A module scope whose collaborators return unit values, with a table of two guideline
  tags, and the converters over it: the one the factory returns, and that one with a
  table of rule indices put on it.
\<close>

abbreviation example_imports :: "(unit, unit, string, unit, unit, unit, unit) Imports" where
  "example_imports \<equiv>
     \<lparr>axeTagsToWcagLinkData =
        [(''wcag222'', \<lparr>link_title = ''Pause, Stop, Hide'', link_url = ''https://w3.org/wcag222''\<rparr>),
         (''wcag111'', \<lparr>link_title = ''Non-text Content'', link_url = ''https://w3.org/wcag111''\<rparr>)],
      getEnvironmentDataFromResults = (\<lambda>_. ()),
      getArtifactLocation = (\<lambda>_. ''https://example.com/''),
      getConverterProperties = (\<lambda>_. ()),
      getAxeToolProperties21 = (\<lambda>_. \<lparr>rules = []\<rparr>),
      getInvocations21 = (\<lambda>_. [()]),
      import_getArtifactProperties = (\<lambda>_. ()),
      SarifLogVersion21_version = ''2.1.0''\<rparr>"

abbreviation example_converter :: "(unit, unit, unit, unit, unit) SarifConverter21" where
  "example_converter \<equiv> defaultSarifConverter21 example_imports"

abbreviation example_converter_with ::
  "(string \<rightharpoonup> nat) \<Rightarrow> (unit, unit, unit, unit, unit) SarifConverter21" where
  "example_converter_with table \<equiv> example_converter\<lparr>ruleIdsToRuleIndices := Some table\<rparr>"

section \<open>Lemmas\<close>

lemma new_SarifConverter21_simps [simp]:
  "tagsToWcagLinkData (new_SarifConverter21 M c t i a) = axeTagsToWcagLinkData M"
  "wcagLinkDataIndexer (new_SarifConverter21 M c t i a) =
     new_WCAGLinkDataIndexer (axeTagsToWcagLinkData M)"
  "getConverterToolProperties (new_SarifConverter21 M c t i a) = c"
  "getAxeProperties (new_SarifConverter21 M c t i a) = t"
  "invocationConverter (new_SarifConverter21 M c t i a) = i"
  "getArtifactProperties (new_SarifConverter21 M c t i a) = a"
  "ruleIdsToRuleIndices (new_SarifConverter21 M c t i a) = None"
  by (simp_all add: new_SarifConverter21_def)

lemma converter_wf_new [simp, intro]: "converter_wf (new_SarifConverter21 M c t i a)"
  by (simp add: converter_wf_def)

lemma converter_wf_default [simp, intro]: "converter_wf (defaultSarifConverter21 M)"
  by (simp add: defaultSarifConverter21_def)

lemma ruleIdsToRuleIndices_default [simp]:
  "ruleIdsToRuleIndices (defaultSarifConverter21 M) = None"
  by (simp add: defaultSarifConverter21_def)

lemma ruleIdsToRuleIndices_example_with [simp]:
  "ruleIdsToRuleIndices (example_converter_with table) = Some table"
  by simp

lemma converter_wf_update [simp]:
  "converter_wf (this\<lparr>ruleIdsToRuleIndices := t\<rparr>) = converter_wf this"
  by (simp add: converter_wf_def)

lemma converter_wf_indexer: "converter_wf this \<Longrightarrow> indexer_wf (wcagLinkDataIndexer this)"
  by (simp add: converter_wf_def)

end
