(* ===== verification/Result_Projector.thy ===== *)
theory Result_Projector
  imports Message_Synthesizer Converter_Object
begin

text \<open>
  The result projector of \<open>sarif-converter-21.ts\<close>: \<open>convertResults\<close>,
  \<open>convertRuleResults\<close>, \<open>convertRuleResult\<close>, \<open>convertRuleResultsWithoutNodes\<close>,
  \<open>getLogicalLocations\<close>, \<open>formatLogicalLocation\<close> and
  \<open>getPartialFingerprintsFromRule\<close>. The array \<open>resultArray\<close> that the methods push to
  is passed in and returned; a method that can raise returns a \<open>result\<close>. The methods
  that read no property of \<open>this\<close> take no \<open>this\<close>. The abstract specification is
  \<open>project\<close>: one entry per node, in the order of the input.
\<close>

section \<open>Definitions\<close>

definition formatLogicalLocation :: "string \<Rightarrow> LogicalLocation" where
  "formatLogicalLocation name = \<lparr>fullyQualifiedName = name, kind = ''element''\<rparr>"

definition getLogicalLocations :: "NodeResult \<Rightarrow> LogicalLocation list" where
  "getLogicalLocations node =
     (let selector = join '';'' (target node) in [formatLogicalLocation selector])"

definition getPartialFingerprintsFromRule :: "DecoratedAxeResult \<Rightarrow> (string \<times> string) list" where
  "getPartialFingerprintsFromRule ruleResult = [(''ruleId'', rule_id ruleResult)]"

definition convertRuleResult ::
  "('r, 'e, 'l, 'c, 't, 'i, 'a) Imports \<Rightarrow> ('e, 'c, 't, 'i, 'a) SarifConverter21 \<Rightarrow>
   'l Result list \<Rightarrow> DecoratedAxeResult \<Rightarrow> level \<Rightarrow> 'e \<Rightarrow> 'l Result list result" where
  "convertRuleResult M this resultArray ruleResult lvl environmentData =
     forEach (\<lambda>resultArray node.
        case ruleIdsToRuleIndices this of
          None \<Rightarrow> Inl (TypeError ''this.ruleIdsToRuleIndices'')
        | Some table \<Rightarrow>
            Inr (resultArray @
              [\<lparr>ruleId = rule_id ruleResult,
                ruleIndex = table (rule_id ruleResult),
                message = convertMessage node lvl,
                locations =
                  [\<lparr>physicalLocation =
                      \<lparr>artifactLocation = getArtifactLocation M environmentData,
                       region = \<lparr>snippet = \<lparr>snippet_text = html node\<rparr>\<rparr>\<rparr>,
                    logicalLocations = getLogicalLocations node\<rparr>]\<rparr>]))
       (nodes ruleResult) resultArray"

definition convertRuleResults ::
  "('r, 'e, 'l, 'c, 't, 'i, 'a) Imports \<Rightarrow> ('e, 'c, 't, 'i, 'a) SarifConverter21 \<Rightarrow>
   'l Result list \<Rightarrow> DecoratedAxeResult list option \<Rightarrow> level \<Rightarrow> 'e \<Rightarrow> 'l Result list result" where
  "convertRuleResults M this resultArray ruleResults lvl environmentData =
     (case ruleResults of
        None \<Rightarrow> Inr resultArray
      | Some rs \<Rightarrow>
          forEach (\<lambda>resultArray ruleResult.
              convertRuleResult M this resultArray ruleResult lvl environmentData)
            rs resultArray)"

definition convertRuleResultsWithoutNodes ::
  "'l Result list \<Rightarrow> DecoratedAxeResult list option \<Rightarrow> level \<Rightarrow> (string \<rightharpoonup> string) \<Rightarrow>
   'l Result list" where
  "convertRuleResultsWithoutNodes resultArray ruleResults lvl props =
     (case ruleResults of
        None \<Rightarrow> resultArray
      | Some rs \<Rightarrow>
          foldl (\<lambda>resultArray ruleResult.
              (let partialFingerprints = getPartialFingerprintsFromRule ruleResult
               in resultArray))
            resultArray rs)"

definition convertResults ::
  "('r, 'e, 'l, 'c, 't, 'i, 'a) Imports \<Rightarrow> ('e, 'c, 't, 'i, 'a) SarifConverter21 \<Rightarrow>
   'r DecoratedAxeResults_scheme \<Rightarrow> (string \<rightharpoonup> string) \<Rightarrow> 'l Result list result" where
  "convertResults M this axeResults props =
     (let resultArray = [];
          environmentData = getEnvironmentDataFromResults M axeResults
      in andThen (convertRuleResults M this resultArray (violations axeResults)
                    level_error environmentData) (\<lambda>resultArray.
         andThen (convertRuleResults M this resultArray (passes axeResults)
                    level_pass environmentData) (\<lambda>resultArray.
         andThen (convertRuleResults M this resultArray (incomplete axeResults)
                    level_open environmentData) (\<lambda>resultArray.
         Inr (convertRuleResultsWithoutNodes resultArray (inapplicable axeResults)
                level_notApplicable props)))))"

section \<open>What the projector is meant to compute\<close>

text \<open>
  The entry that \<open>convertRuleResult\<close> pushes for one node, for a table of rule indices
  and an artifact location.
\<close>

definition result_entry ::
  "(string \<rightharpoonup> nat) \<Rightarrow> 'l \<Rightarrow> level \<Rightarrow> DecoratedAxeResult \<Rightarrow> NodeResult \<Rightarrow> 'l Result" where
  "result_entry table loc lvl ruleResult node =
     \<lparr>ruleId = rule_id ruleResult,
      ruleIndex = table (rule_id ruleResult),
      message = convertMessage node lvl,
      locations =
        [\<lparr>physicalLocation =
            \<lparr>artifactLocation = loc, region = \<lparr>snippet = \<lparr>snippet_text = html node\<rparr>\<rparr>\<rparr>,
          logicalLocations = getLogicalLocations node\<rparr>]\<rparr>"

definition project ::
  "(string \<rightharpoonup> nat) \<Rightarrow> 'l \<Rightarrow> level \<Rightarrow> DecoratedAxeResult list \<Rightarrow> 'l Result list" where
  "project table loc lvl rs = concat (map (\<lambda>r. map (result_entry table loc lvl r) (nodes r)) rs)"

text \<open>Whether a bucket holds a node at all, and the number of its nodes.\<close>

definition has_nodes :: "DecoratedAxeResult list option \<Rightarrow> bool" where
  "has_nodes b \<longleftrightarrow> (\<exists>r \<in> set (bucket b). nodes r \<noteq> [])"

definition node_count :: "DecoratedAxeResult list option \<Rightarrow> nat" where
  "node_count b = sum_list (map (\<lambda>r. length (nodes r)) (bucket b))"

section \<open>Facts on the specification\<close>

lemma project_Nil [simp]: "project table loc lvl [] = []"
  by (simp add: project_def)

lemma project_Cons [simp]:
  "project table loc lvl (r # rs) =
     map (result_entry table loc lvl r) (nodes r) @ project table loc lvl rs"
  by (simp add: project_def)

lemma project_append [simp]:
  "project table loc lvl (rs @ rs') = project table loc lvl rs @ project table loc lvl rs'"
  by (simp add: project_def)

lemma length_project: "length (project table loc lvl rs) = sum_list (map (\<lambda>r. length (nodes r)) rs)"
  by (induction rs) simp_all

lemma set_project:
  "set (project table loc lvl rs) =
     {result_entry table loc lvl r node | r node. r \<in> set rs \<and> node \<in> set (nodes r)}"
  by (auto simp: project_def)

lemma project_eq_Nil_iff: "project table loc lvl rs = [] \<longleftrightarrow> (\<forall>r \<in> set rs. nodes r = [])"
  by (induction rs) simp_all

lemma getLogicalLocations_eq:
  "getLogicalLocations node = [\<lparr>fullyQualifiedName = join '';'' (target node), kind = ''element''\<rparr>]"
  by (simp add: getLogicalLocations_def formatLogicalLocation_def)

lemma result_entry_simps [simp]:
  "ruleId (result_entry table loc lvl r node) = rule_id r"
  "ruleIndex (result_entry table loc lvl r node) = table (rule_id r)"
  "message (result_entry table loc lvl r node) = convertMessage node lvl"
  "locations (result_entry table loc lvl r node) =
     [\<lparr>physicalLocation =
         \<lparr>artifactLocation = loc, region = \<lparr>snippet = \<lparr>snippet_text = html node\<rparr>\<rparr>\<rparr>,
       logicalLocations = [\<lparr>fullyQualifiedName = join '';'' (target node), kind = ''element''\<rparr>]\<rparr>]"
  by (simp_all add: result_entry_def getLogicalLocations_eq)

lemma has_nodes_simps [simp]:
  "has_nodes None = False"
  "has_nodes (Some rs) = (\<exists>r \<in> set rs. nodes r \<noteq> [])"
  by (simp_all add: has_nodes_def)

lemma node_count_simps [simp]:
  "node_count None = 0"
  "node_count (Some rs) = sum_list (map (\<lambda>r. length (nodes r)) rs)"
  by (simp_all add: node_count_def)

lemma sum_list_length_pos_iff:
  "0 < sum_list (map (\<lambda>r. length (f r)) rs) \<longleftrightarrow> (\<exists>r \<in> set rs. f r \<noteq> [])"
  by (induction rs) auto

lemma has_nodes_iff_node_count: "has_nodes b \<longleftrightarrow> 0 < node_count b"
  by (cases b) (simp_all add: sum_list_length_pos_iff)

section \<open>The methods, with and without the table of rule indices\<close>

lemma convertRuleResult_Some:
  assumes "ruleIdsToRuleIndices this = Some table"
  shows "convertRuleResult M this acc r lvl env =
    Inr (acc @ map (result_entry table (getArtifactLocation M env) lvl r) (nodes r))"
  unfolding convertRuleResult_def
  by (rule forEach_push) (simp add: assms result_entry_def)

lemma convertRuleResult_None:
  assumes "ruleIdsToRuleIndices this = None"
  shows "convertRuleResult M this acc r lvl env =
    (if nodes r = [] then Inr acc else Inl (TypeError ''this.ruleIdsToRuleIndices''))"
  by (cases "nodes r") (simp_all add: convertRuleResult_def assms)

lemma convertRuleResults_Some:
  assumes "ruleIdsToRuleIndices this = Some table"
  shows "convertRuleResults M this acc b lvl env =
    Inr (acc @ project table (getArtifactLocation M env) lvl (bucket b))"
proof (cases b)
  case None
  then show ?thesis by (simp add: convertRuleResults_def)
next
  case (Some rs)
  have "forEach (\<lambda>acc r. convertRuleResult M this acc r lvl env) rs acc =
      Inr (acc @ concat (map (\<lambda>r. map (result_entry table (getArtifactLocation M env) lvl r)
        (nodes r)) rs))"
    by (rule forEach_push_many) (simp add: convertRuleResult_Some [OF assms])
  with Some show ?thesis by (simp add: convertRuleResults_def project_def)
qed

lemma convertRuleResults_None:
  assumes "ruleIdsToRuleIndices this = None"
  shows "convertRuleResults M this acc b lvl env =
    (if has_nodes b then Inl (TypeError ''this.ruleIdsToRuleIndices'') else Inr acc)"
proof (cases b)
  case None
  then show ?thesis by (simp add: convertRuleResults_def)
next
  case (Some rs)
  have "forEach (\<lambda>acc r. convertRuleResult M this acc r lvl env) rs acc =
      (if \<exists>r \<in> set rs. nodes r \<noteq> [] then Inl (TypeError ''this.ruleIdsToRuleIndices'')
       else Inr acc)"
    by (rule forEach_guard) (simp add: convertRuleResult_None [OF assms])
  with Some show ?thesis by (simp add: convertRuleResults_def)
qed

lemma foldl_const: "foldl (\<lambda>acc x. acc) acc xs = acc"
  by (induction xs) simp_all

lemma convertRuleResultsWithoutNodes_eq:
  "convertRuleResultsWithoutNodes acc b lvl props = acc"
  by (cases b) (simp_all add: convertRuleResultsWithoutNodes_def foldl_const)

lemma convertResults_Some:
  assumes "ruleIdsToRuleIndices this = Some table"
  shows "convertResults M this res props =
    Inr (project table (getArtifactLocation M (getEnvironmentDataFromResults M res)) level_error
           (bucket (violations res)) @
         project table (getArtifactLocation M (getEnvironmentDataFromResults M res)) level_pass
           (bucket (passes res)) @
         project table (getArtifactLocation M (getEnvironmentDataFromResults M res)) level_open
           (bucket (incomplete res)))"
  by (simp add: convertResults_def convertRuleResults_Some [OF assms]
      convertRuleResultsWithoutNodes_eq)

lemma convertResults_None:
  assumes "ruleIdsToRuleIndices this = None"
  shows "convertResults M this res props =
    (if has_nodes (violations res) \<or> has_nodes (passes res) \<or> has_nodes (incomplete res)
     then Inl (TypeError ''this.ruleIdsToRuleIndices'') else Inr [])"
  by (simp add: convertResults_def convertRuleResults_None [OF assms]
      convertRuleResultsWithoutNodes_eq)

lemma convertResults_ignores_props:
  "convertResults M this res props' = convertResults M this res props"
  by (simp add: convertResults_def convertRuleResultsWithoutNodes_eq)

lemmas projector_simps = convertResults_Some convertResults_None convertRuleResults_Some
  convertRuleResults_None convertRuleResult_Some convertRuleResult_None
  convertRuleResultsWithoutNodes_eq

section \<open>Entries and the nodes they come from\<close>

text \<open>The nodes of the three node-bearing buckets, each with its rule result and level.\<close>

definition projected_nodes ::
  "'r DecoratedAxeResults_scheme \<Rightarrow> (level \<times> DecoratedAxeResult \<times> NodeResult) list" where
  "projected_nodes res =
     concat (map (\<lambda>(lvl, b). concat (map (\<lambda>r. map (\<lambda>node. (lvl, r, node)) (nodes r)) (bucket b)))
       [(level_error, violations res), (level_pass, passes res), (level_open, incomplete res)])"

lemma project_eq_map:
  "project table loc lvl rs =
     map (\<lambda>(lvl, r, node). result_entry table loc lvl r node)
       (concat (map (\<lambda>r. map (\<lambda>node. (lvl, r, node)) (nodes r)) rs))"
  by (induction rs) simp_all

lemma convertResults_Some_map:
  assumes "ruleIdsToRuleIndices this = Some table"
  shows "convertResults M this res props =
    Inr (map (\<lambda>(lvl, r, node).
          result_entry table (getArtifactLocation M (getEnvironmentDataFromResults M res)) lvl r node)
        (projected_nodes res))"
  by (simp add: convertResults_Some [OF assms] projected_nodes_def project_eq_map)

lemma length_projected_nodes:
  "length (projected_nodes res) =
     node_count (violations res) + node_count (passes res) + node_count (incomplete res)"
  by (simp add: projected_nodes_def node_count_def length_concat comp_def)

lemma convertResults_cases:
  obtains (table) table where "ruleIdsToRuleIndices this = Some table"
      "convertResults M this res props =
        Inr (map (\<lambda>(lvl, r, node).
          result_entry table (getArtifactLocation M (getEnvironmentDataFromResults M res)) lvl r node)
        (projected_nodes res))"
    | (empty) "ruleIdsToRuleIndices this = None" "convertResults M this res props = Inr []"
    | (raise) "ruleIdsToRuleIndices this = None"
      "convertResults M this res props = Inl (TypeError ''this.ruleIdsToRuleIndices'')"
proof (cases "ruleIdsToRuleIndices this")
  case None
  show ?thesis
  proof (cases "has_nodes (violations res) \<or> has_nodes (passes res) \<or> has_nodes (incomplete res)")
    case True
    with None show ?thesis by (intro raise) (simp_all add: convertResults_None)
  next
    case False
    with None show ?thesis by (intro empty) (simp_all add: convertResults_None)
  qed
next
  case (Some t)
  then show ?thesis by (intro table [of t]) (simp_all add: convertResults_Some_map)
qed

section \<open>Properties\<close>

text \<open>
  C4. With a table of rule indices on the converter, \<open>convertResults\<close> returns the
  entries of the violations (level error), then those of the passes (level pass), then
  those of the incomplete results (level open); within a bucket the rule results are
  in input order and each contributes one entry per node, in the order of its nodes.
  The inapplicable bucket contributes nothing.
\<close>

theorem convertResults_with_table:
  assumes "ruleIdsToRuleIndices this = Some table"
  shows "convertResults M this res props =
    (let loc = getArtifactLocation M (getEnvironmentDataFromResults M res)
     in Inr (project table loc level_error (bucket (violations res)) @
             project table loc level_pass (bucket (passes res)) @
             project table loc level_open (bucket (incomplete res))))"
  by (simp add: convertResults_Some [OF assms])

theorem convertResults_with_table_witness:
  "map (\<lambda>e. (ruleId e, ruleIndex e, message_text (message e)))
     (projr (convertResults example_imports
        (example_converter_with [''image-alt'' \<mapsto> 0, ''blink'' \<mapsto> 1])
        example_results Map.empty)) =
   [(''image-alt'', Some 0, ''Fix all of the following: c1. Fix any of the following: Fix me.''),
    (''image-alt'', Some 0, ''The following tests passed: c1.'')]"
  by (simp add: convertResults_with_table [of _ "[''image-alt'' \<mapsto> 0, ''blink'' \<mapsto> 1]"]
      convertMessage_unfold message_groups_def group_text_def display_def)

text \<open>
  With a table of rule indices, \<open>convertResults\<close> returns exactly one entry per
  node of the violations, passes and incomplete results, and none for a rule result
  without nodes.
\<close>

theorem convertResults_one_entry_per_node:
  assumes "ruleIdsToRuleIndices this = Some table"
  shows "\<exists>out. convertResults M this res props = Inr out \<and>
    length out = node_count (violations res) + node_count (passes res) + node_count (incomplete res)"
  by (simp add: convertResults_Some_map [OF assms] length_projected_nodes)

theorem convertResults_one_entry_per_node_witness:
  "\<exists>out. convertResults example_imports (example_converter_with Map.empty)
      example_results Map.empty = Inr out \<and> length out = 2"
  using convertResults_one_entry_per_node [of "example_converter_with Map.empty" Map.empty
      example_imports example_results Map.empty]
  by auto

text \<open>
  C12. On a converter whose property \<open>ruleIdsToRuleIndices\<close> is undefined,
  \<open>convertResults\<close> raises a TypeError exactly when some rule result of the
  violations, passes or incomplete results has a node; otherwise it returns the empty
  list.
\<close>

theorem convertResults_without_table:
  assumes "ruleIdsToRuleIndices this = None"
  shows "convertResults M this res props =
    (if has_nodes (violations res) \<or> has_nodes (passes res) \<or> has_nodes (incomplete res)
     then Inl (TypeError ''this.ruleIdsToRuleIndices'') else Inr [])"
  using assms by (rule convertResults_None)

theorem convertResults_without_table_witness:
  "convertResults example_imports example_converter example_results Map.empty =
     Inl (TypeError ''this.ruleIdsToRuleIndices'')"
  by (simp add: convertResults_without_table)

text \<open>
  C23. Every entry that \<open>convertResults\<close> returns comes from a node of the violations,
  passes or incomplete results: it carries the id of the node's rule result, the
  message of the node at the level of its bucket, and exactly one location, whose
  physical part is the artifact location with the node's html as snippet and whose
  logical part is a single location of kind "element", named by the node's target path
  joined with ";".
\<close>

theorem convertResults_entry_shape:
  assumes "convertResults M this res props = Inr out" and "e \<in> set out"
  shows "\<exists>lvl r node. (lvl, r, node) \<in> set (projected_nodes res) \<and>
    ruleId e = rule_id r \<and> message e = convertMessage node lvl \<and>
    locations e =
      [\<lparr>physicalLocation =
          \<lparr>artifactLocation = getArtifactLocation M (getEnvironmentDataFromResults M res),
           region = \<lparr>snippet = \<lparr>snippet_text = html node\<rparr>\<rparr>\<rparr>,
        logicalLocations = [\<lparr>fullyQualifiedName = join '';'' (target node), kind = ''element''\<rparr>]\<rparr>]"
proof (cases rule: convertResults_cases [of this M res props])
  case (table t)
  with assms obtain lvl r node where "(lvl, r, node) \<in> set (projected_nodes res)"
    and "e = result_entry t (getArtifactLocation M (getEnvironmentDataFromResults M res)) lvl r node"
    by auto
  then show ?thesis by auto
next
  case empty
  with assms show ?thesis by simp
next
  case raise
  with assms show ?thesis by simp
qed

theorem convertResults_entry_shape_witness:
  "\<exists>lvl r node. (lvl, r, node) \<in> set (projected_nodes example_results) \<and>
    ruleId (hd (projr (convertResults example_imports (example_converter_with Map.empty)
      example_results Map.empty))) = rule_id r \<and>
    message (hd (projr (convertResults example_imports (example_converter_with Map.empty)
      example_results Map.empty))) = convertMessage node lvl \<and>
    locations (hd (projr (convertResults example_imports (example_converter_with Map.empty)
      example_results Map.empty))) =
      [\<lparr>physicalLocation =
          \<lparr>artifactLocation = ''https://example.com/'',
           region = \<lparr>snippet = \<lparr>snippet_text = html node\<rparr>\<rparr>\<rparr>,
        logicalLocations = [\<lparr>fullyQualifiedName = join '';'' (target node), kind = ''element''\<rparr>]\<rparr>]"
proof -
  obtain out where out: "convertResults example_imports (example_converter_with Map.empty)
      example_results Map.empty = Inr out" and "out \<noteq> []"
    by (simp add: convertResults_Some [of _ Map.empty])
  then have "hd out \<in> set out" by simp
  from convertResults_entry_shape [OF out this] out show ?thesis by simp
qed

text \<open>
  C33. The inapplicable bucket and the run properties reach the result list only
  through the environment data: for any two inapplicable buckets from which the
  collaborator derives the same environment data, and for any properties,
  \<open>convertResults\<close> returns the same (the loop of \<open>convertRuleResultsWithoutNodes\<close>
  builds a fingerprint per rule result and pushes nothing).
\<close>

theorem convertResults_ignores_inapplicable:
  assumes "getEnvironmentDataFromResults M (res\<lparr>inapplicable := b\<rparr>) =
    getEnvironmentDataFromResults M res"
  shows "convertResults M this (res\<lparr>inapplicable := b\<rparr>) props' = convertResults M this res props"
  using assms by (simp add: convertResults_def convertRuleResultsWithoutNodes_eq)

theorem convertResults_ignores_inapplicable_witness:
  "convertResults example_imports (example_converter_with Map.empty)
     (example_results\<lparr>inapplicable := None\<rparr>) [''scanName'' \<mapsto> ''s''] =
   convertResults example_imports (example_converter_with Map.empty) example_results Map.empty"
  by (rule convertResults_ignores_inapplicable) simp

text \<open>
  C28. The logical location keeps the target path: for a node whose path is not empty and
  has no \<open>;\<close> in a selector, splitting the \<open>fullyQualifiedName\<close> of its logical location
  at \<open>;\<close> gives the path back, so that nodes with different paths get different names.
\<close>

theorem getLogicalLocations_roundtrip:
  assumes "target node \<noteq> []" and "\<forall>s \<in> set (target node). CHR '';'' \<notin> set s"
  shows "map (split_on (CHR '';'') \<circ> fullyQualifiedName) (getLogicalLocations node) =
    [target node]"
  using assms by (simp add: getLogicalLocations_def formatLogicalLocation_def split_on_join)

theorem getLogicalLocations_roundtrip_witness:
  "map (split_on (CHR '';'') \<circ> fullyQualifiedName) (getLogicalLocations example_node_a) =
     [[''#main'', ''img'']] \<and>
   map fullyQualifiedName (getLogicalLocations example_node_a) = [''#main;img'']"
  using getLogicalLocations_roundtrip [of example_node_a]
  by (simp add: getLogicalLocations_def formatLogicalLocation_def)

end
