(* ===== verification/Rule_Linker.thy ===== *)
theory Rule_Linker
  imports Wcag_Taxonomy
begin

text \<open>
  The rule-to-taxonomy linker \<open>ResultToRuleConverter\<close> (\<open>result-to-rule-converter\<close>, not
  under \<open>src\<close>), modelled from the specification and from the two calls of
  \<open>convertRun\<close>: the constructor takes the results, the sorted tags and the table from
  tags to taxonomy indices; \<open>getRulePropertiesFromResults\<close> returns the rule
  descriptors. The rules are the distinct rule ids in the order of their first
  appearance over violations, passes, incomplete and inapplicable results; a rule's
  tags are those of its first rule result. \<open>rule_index_table\<close> is the table from rule
  ids to positions that the result projector is meant to read.
\<close>

section \<open>Definitions\<close>

record ResultToRuleConverter =
  rulesDictionary :: "ReportingDescriptor list"

definition all_rule_results :: "'r DecoratedAxeResults_scheme \<Rightarrow> DecoratedAxeResult list" where
  "all_rule_results res =
     bucket (violations res) @ bucket (passes res) @ bucket (incomplete res) @
     bucket (inapplicable res)"

definition rule_ids_of :: "'r DecoratedAxeResults_scheme \<Rightarrow> string list" where
  "rule_ids_of res = first_seen (map rule_id (all_rule_results res))"

definition tags_of_rule :: "'r DecoratedAxeResults_scheme \<Rightarrow> string \<Rightarrow> string list" where
  "tags_of_rule res rid =
     (case find (\<lambda>r. rule_id r = rid) (all_rule_results res) of
        None \<Rightarrow> [] | Some r \<Rightarrow> tags r)"

definition taxa_indices_of :: "string list \<Rightarrow> (string \<rightharpoonup> nat) \<Rightarrow> string list \<Rightarrow> nat list" where
  "taxa_indices_of sortedTags tagsToIndices tgs =
     List.map_filter tagsToIndices (filter (\<lambda>t. t \<in> set sortedTags) tgs)"

definition new_ResultToRuleConverter ::
  "'r DecoratedAxeResults_scheme \<Rightarrow> string list \<Rightarrow> (string \<rightharpoonup> nat) \<Rightarrow> ResultToRuleConverter" where
  "new_ResultToRuleConverter res sortedTags tagsToIndices =
     \<lparr>rulesDictionary =
        map (\<lambda>(i, rid).
            \<lparr>descriptor_id = rid, descriptor_index = i,
             taxa_indices = taxa_indices_of sortedTags tagsToIndices (tags_of_rule res rid)\<rparr>)
          (enumerate 0 (rule_ids_of res))\<rparr>"

definition getRulePropertiesFromResults :: "ResultToRuleConverter \<Rightarrow> ReportingDescriptor list" where
  "getRulePropertiesFromResults conv = rulesDictionary conv"

definition rule_index_table :: "ReportingDescriptor list \<Rightarrow> (string \<rightharpoonup> nat)" where
  "rule_index_table rs = index_map (map descriptor_id rs)"

text \<open>A rule list is well formed when its ids are distinct and each rule carries its
  position.\<close>

definition rules_wf :: "ReportingDescriptor list \<Rightarrow> bool" where
  "rules_wf rs \<longleftrightarrow>
     distinct (map descriptor_id rs) \<and> (\<forall>i < length rs. descriptor_index (rs ! i) = i)"

section \<open>The rule list\<close>

abbreviation rules_of :: "'r DecoratedAxeResults_scheme \<Rightarrow> WCAGLinkDataIndexer \<Rightarrow> ReportingDescriptor list" where
  "rules_of res ix \<equiv>
     getRulePropertiesFromResults
       (new_ResultToRuleConverter res (getSortedWcagTags ix) (getWcagTagsToTaxaIndices ix))"

lemma length_rules [simp]:
  "length (getRulePropertiesFromResults (new_ResultToRuleConverter res tgs tbl)) =
     length (rule_ids_of res)"
  by (simp add: getRulePropertiesFromResults_def new_ResultToRuleConverter_def)

lemma nth_rules:
  assumes "i < length (rule_ids_of res)"
  shows "getRulePropertiesFromResults (new_ResultToRuleConverter res tgs tbl) ! i =
    \<lparr>descriptor_id = rule_ids_of res ! i, descriptor_index = i,
     taxa_indices = taxa_indices_of tgs tbl (tags_of_rule res (rule_ids_of res ! i))\<rparr>"
  using assms
  by (simp add: getRulePropertiesFromResults_def new_ResultToRuleConverter_def nth_enumerate_eq)

lemma map_descriptor_id_rules [simp]:
  "map descriptor_id (getRulePropertiesFromResults (new_ResultToRuleConverter res tgs tbl)) =
     rule_ids_of res"
  by (rule nth_equalityI) (simp_all add: nth_rules)

lemma distinct_rule_ids_of [simp]: "distinct (rule_ids_of res)"
  by (simp add: rule_ids_of_def)

lemma set_rule_ids_of: "set (rule_ids_of res) = rule_id ` set (all_rule_results res)"
  by (simp add: rule_ids_of_def)

lemma rules_wf_new [simp, intro]:
  "rules_wf (getRulePropertiesFromResults (new_ResultToRuleConverter res tgs tbl))"
  by (simp add: rules_wf_def nth_rules)

lemma rule_ids_of_empty:
  "all_rule_results res = [] \<Longrightarrow>
     getRulePropertiesFromResults (new_ResultToRuleConverter res tgs tbl) = []"
  by (simp add: getRulePropertiesFromResults_def new_ResultToRuleConverter_def rule_ids_of_def)

section \<open>The table of rule indices\<close>

lemma rule_index_table_SomeD:
  assumes "rule_index_table rs rid = Some i"
  shows "i < length rs \<and> descriptor_id (rs ! i) = rid"
proof -
  from assms have "index_map (map descriptor_id rs) rid = Some i"
    by (simp add: rule_index_table_def)
  from index_map_SomeD [OF this] show ?thesis by auto
qed

lemma rule_index_table_mem:
  assumes "rid \<in> descriptor_id ` set rs"
  shows "\<exists>i. rule_index_table rs rid = Some i \<and> i < length rs \<and> descriptor_id (rs ! i) = rid"
proof -
  from assms have "rid \<in> set (map descriptor_id rs)" by simp
  from index_map_mem [OF this] show ?thesis by (auto simp: rule_index_table_def)
qed

lemma rule_index_table_nth:
  assumes "rules_wf rs" and "i < length rs"
  shows "rule_index_table rs (descriptor_id (rs ! i)) = Some (descriptor_index (rs ! i))"
  using assms index_map_nth [of "map descriptor_id rs" i]
  by (simp add: rule_index_table_def rules_wf_def)

lemma rule_index_table_covers:
  assumes "r \<in> set (all_rule_results res)"
  shows "\<exists>i. rule_index_table
        (getRulePropertiesFromResults (new_ResultToRuleConverter res tgs tbl)) (rule_id r) = Some i
      \<and> i < length (getRulePropertiesFromResults (new_ResultToRuleConverter res tgs tbl))
      \<and> descriptor_id (getRulePropertiesFromResults (new_ResultToRuleConverter res tgs tbl) ! i)
          = rule_id r"
proof (rule rule_index_table_mem)
  have "rule_id r \<in> set (rule_ids_of res)"
    using assms by (simp add: set_rule_ids_of)
  then have "rule_id r \<in>
      set (map descriptor_id (getRulePropertiesFromResults (new_ResultToRuleConverter res tgs tbl)))"
    by (simp only: map_descriptor_id_rules)
  then show "rule_id r \<in>
      descriptor_id ` set (getRulePropertiesFromResults (new_ResultToRuleConverter res tgs tbl))"
    by (simp only: set_map)
qed

section \<open>Taxonomy indices of a rule\<close>

lemma taxa_indices_of_bound:
  assumes "tbl = index_map tgs" and "i \<in> set (taxa_indices_of tgs tbl ts)"
  shows "i < length tgs \<and> tgs ! i \<in> set ts"
proof -
  from assms(2) obtain t where t: "t \<in> set ts" "tbl t = Some i"
    by (auto simp: taxa_indices_of_def set_map_filter)
  with assms(1) index_map_SomeD [of tgs t i] show ?thesis by simp
qed

lemma taxa_indices_of_complete:
  assumes "tbl = index_map tgs" and "t \<in> set ts" and "t \<in> set tgs"
  shows "\<exists>i \<in> set (taxa_indices_of tgs tbl ts). tgs ! i = t"
proof -
  from index_map_mem [OF assms(3)] obtain i where i: "index_map tgs t = Some i" "tgs ! i = t"
    by blast
  with assms have "i \<in> set (taxa_indices_of tgs tbl ts)"
    by (force simp: taxa_indices_of_def set_map_filter)
  with i show ?thesis by blast
qed

lemma taxa_indices_of_unknown:
  assumes "tbl = index_map tgs" and "set ts \<inter> set tgs = {}"
  shows "taxa_indices_of tgs tbl ts = []"
proof -
  from assms(2) have "filter (\<lambda>t. t \<in> set tgs) ts = []"
    by (auto simp: filter_empty_conv)
  then show ?thesis by (simp add: taxa_indices_of_def)
qed

lemma rules_taxa_indices_bound:
  assumes "indexer_wf ix" and "r \<in> set (rules_of res ix)" and "i \<in> set (taxa_indices r)"
  shows "i < length (getSortedWcagTags ix)"
proof -
  from assms(2) obtain k where k: "k < length (rule_ids_of res)" "r = rules_of res ix ! k"
    by (auto simp: in_set_conv_nth)
  with assms(3) have "i \<in> set (taxa_indices_of (getSortedWcagTags ix)
      (getWcagTagsToTaxaIndices ix) (tags_of_rule res (rule_ids_of res ! k)))"
    by (simp add: nth_rules)
  moreover from assms(1) have "getWcagTagsToTaxaIndices ix = index_map (getSortedWcagTags ix)"
    by (simp add: indexer_wf_def getSortedWcagTags_def getWcagTagsToTaxaIndices_def)
  ultimately show ?thesis using taxa_indices_of_bound by blast
qed

end
