(* ===== verification/Run_Assembler.thy ===== *)
theory Run_Assembler
  imports Result_Projector Rule_Linker
begin

text \<open>
  The run assembler of \<open>sarif-converter-21.ts\<close>: \<open>convertRun\<close> and \<open>convert\<close>. Of
  the expressions in the object literal \<open>run\<close> only the call of \<open>convertResults\<close> can
  raise, the collaborators being functions of the model; its result is bound before the
  literal is written, and an exception of it leaves \<open>convertRun\<close> before the assignment
  of the test case id is reached, as in the source. \<open>assemble\<close> is the run that the
  literal denotes for a given result list.
\<close>

section \<open>Definitions\<close>

definition convertRun ::
  "('r, 'e, 'l, 'c, 't, 'i, 'a) Imports \<Rightarrow> ('e, 'c, 't, 'i, 'a) SarifConverter21 \<Rightarrow>
   'r DecoratedAxeResults_scheme \<Rightarrow> ConverterOptions option \<Rightarrow> ('c, 't, 'i, 'a, 'l) Run result" where
  "convertRun M this axeResults options =
     (let props = (if options \<noteq> None \<and> scanName (the options) \<noteq> None
                   then [''scanName'' \<mapsto> the (scanName (the options))]
                   else Map.empty);
          resultToRuleConverter =
            new_ResultToRuleConverter axeResults
              (getSortedWcagTags (wcagLinkDataIndexer this))
              (getWcagTagsToTaxaIndices (wcagLinkDataIndexer this))
      in andThen (convertResults M this axeResults props) (\<lambda>resultArray.
         let run =
           \<lparr>conversion = getConverterToolProperties this (),
            tool = \<lparr>driver = (getAxeProperties this ())
                      \<lparr>rules := getRulePropertiesFromResults resultToRuleConverter\<rparr>\<rparr>,
            invocations = invocationConverter this (getEnvironmentDataFromResults M axeResults),
            artifacts = [getArtifactProperties this (getEnvironmentDataFromResults M axeResults)],
            results = resultArray,
            taxonomies =
              [getWcagTaxonomy (getSortedWcagTags (wcagLinkDataIndexer this))
                 (tagsToWcagLinkData this)],
            properties = None\<rparr>
         in andThen
           (if options \<noteq> None \<and> testCaseId (the options) \<noteq> None
            then (case properties run of
                    None \<Rightarrow> Inl (TypeError ''run.properties'')
                  | Some p \<Rightarrow>
                      Inr (run\<lparr>properties :=
                        Some (p(''testCaseId'' \<mapsto> the (testCaseId (the options))))\<rparr>))
            else Inr run) (\<lambda>run.
           if options \<noteq> None \<and> scanId (the options) \<noteq> None then Inr run else Inr run)))"

definition convert ::
  "('r, 'e, 'l, 'c, 't, 'i, 'a) Imports \<Rightarrow> ('e, 'c, 't, 'i, 'a) SarifConverter21 \<Rightarrow>
   'r DecoratedAxeResults_scheme \<Rightarrow> ConverterOptions option \<Rightarrow> ('c, 't, 'i, 'a, 'l) Log result" where
  "convert M this axeResults options =
     andThen (convertRun M this axeResults options) (\<lambda>run.
       Inr \<lparr>version = SarifLogVersion21_version M, runs = [run]\<rparr>)"

section \<open>What a run is meant to be\<close>

definition assemble ::
  "('r, 'e, 'l, 'c, 't, 'i, 'a) Imports \<Rightarrow> ('e, 'c, 't, 'i, 'a) SarifConverter21 \<Rightarrow>
   'r DecoratedAxeResults_scheme \<Rightarrow> 'l Result list \<Rightarrow> ('c, 't, 'i, 'a, 'l) Run" where
  "assemble M this res out =
     \<lparr>conversion = getConverterToolProperties this (),
      tool = \<lparr>driver = (getAxeProperties this ())
                \<lparr>rules := rules_of res (wcagLinkDataIndexer this)\<rparr>\<rparr>,
      invocations = invocationConverter this (getEnvironmentDataFromResults M res),
      artifacts = [getArtifactProperties this (getEnvironmentDataFromResults M res)],
      results = out,
      taxonomies =
        [getWcagTaxonomy (getSortedWcagTags (wcagLinkDataIndexer this)) (tagsToWcagLinkData this)],
      properties = None\<rparr>"

text \<open>Whether the options ask for a test case id.\<close>

definition wants_testCaseId :: "ConverterOptions option \<Rightarrow> bool" where
  "wants_testCaseId options \<longleftrightarrow> options \<noteq> None \<and> testCaseId (the options) \<noteq> None"

section \<open>Characterisation\<close>

lemma wants_testCaseId_simps [simp]:
  "wants_testCaseId None = False"
  "wants_testCaseId (Some opts) = (testCaseId opts \<noteq> None)"
  by (simp_all add: wants_testCaseId_def)

lemma convertRun_eq:
  "convertRun M this res options =
     andThen (convertResults M this res props) (\<lambda>out.
       if wants_testCaseId options then Inl (TypeError ''run.properties'')
       else Inr (assemble M this res out))"
proof -
  have "convertResults M this res props' = convertResults M this res props" for props'
    using convertResults_ignores_props [of M this res props' props] .
  then show ?thesis
    by (cases "convertResults M this res props")
      (simp_all add: convertRun_def assemble_def wants_testCaseId_def)
qed

lemma convert_eq:
  "convert M this res options =
     andThen (convertResults M this res props) (\<lambda>out.
       if wants_testCaseId options then Inl (TypeError ''run.properties'')
       else Inr \<lparr>version = SarifLogVersion21_version M, runs = [assemble M this res out]\<rparr>)"
  by (cases "convertResults M this res props") (simp_all add: convert_def convertRun_eq [of _ _ _ _ props])

lemma assemble_simps [simp]:
  "conversion (assemble M this res out) = getConverterToolProperties this ()"
  "rules (driver (tool (assemble M this res out))) = rules_of res (wcagLinkDataIndexer this)"
  "invocations (assemble M this res out) =
     invocationConverter this (getEnvironmentDataFromResults M res)"
  "artifacts (assemble M this res out) =
     [getArtifactProperties this (getEnvironmentDataFromResults M res)]"
  "results (assemble M this res out) = out"
  "taxonomies (assemble M this res out) =
     [getWcagTaxonomy (getSortedWcagTags (wcagLinkDataIndexer this)) (tagsToWcagLinkData this)]"
  "properties (assemble M this res out) = None"
  by (simp_all add: assemble_def)

lemma convert_cases:
  obtains (ok) out where "convertResults M this res Map.empty = Inr out"
      "\<not> wants_testCaseId options"
      "convert M this res options =
        Inr \<lparr>version = SarifLogVersion21_version M, runs = [assemble M this res out]\<rparr>"
    | (raise) e where "convert M this res options = Inl (TypeError e)"
proof (cases "convertResults M this res Map.empty")
  case (Inl err)
  then show ?thesis
    by (cases err) (simp add: raise convert_eq [of _ _ _ _ Map.empty])
next
  case (Inr out)
  then show ?thesis
    by (cases "wants_testCaseId options")
      (simp_all add: ok raise convert_eq [of _ _ _ _ Map.empty])
qed

lemma convert_Some:
  assumes "ruleIdsToRuleIndices this = Some table"
  shows "convert M this res options =
    (if wants_testCaseId options then Inl (TypeError ''run.properties'')
     else Inr \<lparr>version = SarifLogVersion21_version M,
               runs = [assemble M this res
                 (project table (getArtifactLocation M (getEnvironmentDataFromResults M res))
                    level_error (bucket (violations res)) @
                  project table (getArtifactLocation M (getEnvironmentDataFromResults M res))
                    level_pass (bucket (passes res)) @
                  project table (getArtifactLocation M (getEnvironmentDataFromResults M res))
                    level_open (bucket (incomplete res)))]\<rparr>)"
  by (simp add: convert_eq [of _ _ _ _ Map.empty] convertResults_Some [OF assms])

lemma convert_None:
  assumes "ruleIdsToRuleIndices this = None"
  shows "convert M this res options =
    (if has_nodes (violations res) \<or> has_nodes (passes res) \<or> has_nodes (incomplete res)
     then Inl (TypeError ''this.ruleIdsToRuleIndices'')
     else if wants_testCaseId options then Inl (TypeError ''run.properties'')
     else Inr \<lparr>version = SarifLogVersion21_version M, runs = [assemble M this res []]\<rparr>)"
  by (simp add: convert_eq [of _ _ _ _ Map.empty] convertResults_None [OF assms])

lemma convert_Inr_runs:
  assumes "convert M this res options = Inr log"
  obtains out where "convertResults M this res Map.empty = Inr out"
    "runs log = [assemble M this res out]" "version log = SarifLogVersion21_version M"
  using assms by (cases rule: convert_cases [of M this res options]) auto

lemma projected_nodes_all_rule_results:
  assumes "(lvl, r, node) \<in> set (projected_nodes res)"
  shows "r \<in> set (all_rule_results res) \<and> node \<in> set (nodes r)"
  using assms by (auto simp: projected_nodes_def all_rule_results_def)

section \<open>Properties\<close>

text \<open>
  C1. The converter that \<open>defaultSarifConverter21\<close> returns raises a TypeError on
  every document that has a node in its violations, passes or incomplete results
  (\<open>this.ruleIdsToRuleIndices\<close> is undefined when \<open>convertRuleResult\<close> reads it), and on
  every call that supplies a test case id (\<open>run.properties\<close> is undefined when
  \<open>convertRun\<close> assigns to it); on all other inputs it returns a log with the version
  literal and one run without results.
\<close>

theorem convert_default:
  "convert M (defaultSarifConverter21 M) res options =
    (if has_nodes (violations res) \<or> has_nodes (passes res) \<or> has_nodes (incomplete res)
     then Inl (TypeError ''this.ruleIdsToRuleIndices'')
     else if wants_testCaseId options then Inl (TypeError ''run.properties'')
     else Inr \<lparr>version = SarifLogVersion21_version M,
               runs = [assemble M (defaultSarifConverter21 M) res []]\<rparr>)"
  by (rule convert_None) simp

theorem convert_default_witness:
  "convert example_imports example_converter example_results (Some \<lparr>scanName = None,
      testCaseId = None, scanId = None\<rparr>) = Inl (TypeError ''this.ruleIdsToRuleIndices'') \<and>
   convert example_imports example_converter empty_results
     (Some \<lparr>scanName = None, testCaseId = Some ''t1'', scanId = None\<rparr>) =
     Inl (TypeError ''run.properties'') \<and>
   (\<exists>log. convert example_imports example_converter empty_results None = Inr log)"
  by (simp add: convert_default)

text \<open>
  C11. With a table of rule indices on the converter and no test case id in the options,
  \<open>convert\<close> returns a log with the version literal and exactly one run: the
  collaborators' conversion, invocations and artifact, the driver with the rule list
  of the linker, the result entries of violations, passes and incomplete results in
  this order, one taxonomy, and no run properties.
\<close>

theorem convert_with_table:
  assumes "ruleIdsToRuleIndices this = Some table" and "\<not> wants_testCaseId options"
  shows "convert M this res options =
    (let loc = getArtifactLocation M (getEnvironmentDataFromResults M res)
     in Inr \<lparr>version = SarifLogVersion21_version M,
              runs = [assemble M this res
                (project table loc level_error (bucket (violations res)) @
                 project table loc level_pass (bucket (passes res)) @
                 project table loc level_open (bucket (incomplete res)))]\<rparr>)"
  using assms by (simp add: convert_Some)

theorem convert_with_table_witness:
  "map (\<lambda>run. (map descriptor_id (rules (driver (tool run))), map ruleId (results run),
        map (map taxon_id \<circ> taxa) (taxonomies run), properties run))
     (runs (projr (convert example_imports
        (example_converter_with [''image-alt'' \<mapsto> 0, ''blink'' \<mapsto> 1]) example_results None))) =
   [([''image-alt'', ''blink''], [''image-alt'', ''image-alt''], [[''wcag111'', ''wcag222'']], None)]"
  by (simp add: convert_with_table [of _ "[''image-alt'' \<mapsto> 0, ''blink'' \<mapsto> 1]"]
      defaultSarifConverter21_def getSortedWcagTags_def rule_ids_of_def all_rule_results_def
      result_entry_def)

text \<open>
  C21. A call that supplies a test case id never returns a log: \<open>convertRun\<close> assigns
  \<open>run.properties.testCaseId\<close> on a run whose \<open>properties\<close> is undefined, so the call
  ends in a TypeError whatever the converter and the document are.
\<close>

theorem convert_testCaseId_raises:
  assumes "wants_testCaseId options"
  shows "\<exists>e. convert M this res options = Inl (TypeError e)"
  using assms by (cases rule: convert_cases [of M this res options]) auto

theorem convert_testCaseId_raises_witness:
  "\<exists>e. convert example_imports (example_converter_with [''image-alt'' \<mapsto> 0]) example_results
     (Some \<lparr>scanName = None, testCaseId = Some ''t1'', scanId = None\<rparr>) = Inl (TypeError e)"
  by (rule convert_testCaseId_raises) simp

text \<open>
  C22. The options \<open>scanName\<close> and \<open>scanId\<close> have no effect: a call without a test case
  id returns what the call without options returns. The scan name is put into a
  dictionary that only \<open>convertRuleResultsWithoutNodes\<close> receives, which drops it.
\<close>

theorem convert_scanName_no_effect:
  assumes "\<not> wants_testCaseId options"
  shows "convert M this res options = convert M this res None"
  using assms by (simp add: convert_eq [of _ _ _ _ Map.empty])

theorem convert_scanName_no_effect_witness:
  "convert example_imports (example_converter_with [''image-alt'' \<mapsto> 0]) example_results
     (Some \<lparr>scanName = Some ''nightly'', testCaseId = None, scanId = Some ''42''\<rparr>) =
   convert example_imports (example_converter_with [''image-alt'' \<mapsto> 0]) example_results None"
  by (rule convert_scanName_no_effect) simp

end
