(* ===== verification/Array_Utils.thy ===== *)
theory Array_Utils
  imports Result_Projector
begin

text \<open>
  \<open>array-utils.ts\<close>: the test \<open>isEmpty\<close> on an optional array, and what it says about
  the buckets the result projector reads.
\<close>

section \<open>Definitions\<close>

definition isEmpty :: "'a list option \<Rightarrow> bool" where
  "isEmpty arr = (if arr \<noteq> None \<and> 0 < length (the arr) then False else True)"

section \<open>Lemmas\<close>

lemma isEmpty_simps [simp]:
  "isEmpty None = True" "isEmpty (Some xs) = (xs = [])"
  by (simp_all add: isEmpty_def)

lemma isEmpty_bucket: "isEmpty arr \<longleftrightarrow> bucket arr = []"
  by (cases arr) simp_all

lemma isEmpty_no_nodes: "isEmpty b \<Longrightarrow> \<not> has_nodes b"
  by (cases b) simp_all

section \<open>Properties\<close>

text \<open>
  \<open>isEmpty\<close> holds of an array that is undefined or has no element, and of no
  other: it is false exactly for a defined array with a first element.
\<close>

theorem isEmpty_iff: "isEmpty arr \<longleftrightarrow> arr = None \<or> arr = Some []"
  by (cases arr) simp_all

text \<open>
  A bucket that \<open>isEmpty\<close> accepts contributes nothing and cannot make the
  projector fail: \<open>convertRuleResults\<close> returns the result array unchanged, with or
  without a table of rule indices on the converter.
\<close>

theorem convertRuleResults_isEmpty:
  assumes "isEmpty b"
  shows "convertRuleResults M this acc b lvl env = Inr acc"
proof (cases b)
  case None
  then show ?thesis by (simp add: convertRuleResults_def)
next
  case (Some rs)
  with assms show ?thesis by (simp add: convertRuleResults_def)
qed

theorem convertRuleResults_isEmpty_witness:
  "convertRuleResults example_imports example_converter [] (incomplete example_results)
     level_open () = Inr []"
  by (rule convertRuleResults_isEmpty) simp

end
