(* ===== verification/Js_Strings.thy ===== *)
theory Js_Strings
  imports Axe_Prelude
begin

text \<open>
  The string built-ins that the custom rule configurations call on the properties of a
  DOM element: \<open>String.prototype.trim\<close>, \<open>String.prototype.toLowerCase\<close>,
  \<open>parseInt\<close> with radix 10 and \<open>String.prototype.match\<close> with the pattern
  \<open>/H(\d)/\<close>, each after its definition in the ECMAScript specification. A \<open>char\<close> is
  a code unit below 256, so the white space and the letters of the model are those of
  Latin-1. A JavaScript number is \<open>NaN\<close> or an integer here: \<open>parseInt\<close> returns
  nothing else, and the integer is the value of the call as long as it is a safe integer
  (below \<open>2 ^ 53\<close>, that is for every numeral of up to 15 digits). The two zeros of
  JavaScript are one number here: \<open>parseInt\<close> of \<open>-0\<close> is \<open>Num 0\<close>.
\<close>

section \<open>Definitions\<close>

text \<open>White space and line terminators among the code units below 256.\<close>

definition isWhiteSpace :: "char \<Rightarrow> bool" where
  "isWhiteSpace c = (of_char c \<in> {9, 10, 11, 12, 13, 32, 160 :: nat})"

text \<open>\<open>s.trim()\<close>.\<close>

definition trim :: "string \<Rightarrow> string" where
  "trim s = rev (dropWhile isWhiteSpace (rev (dropWhile isWhiteSpace s)))"

text \<open>
  \<open>s.toLowerCase()\<close>: the letters \<open>A\<close> to \<open>Z\<close> and the capital letters of Latin-1
  (\<open>0xC0\<close> to \<open>0xDE\<close> without the multiplication sign \<open>0xD7\<close>) move up by 32.
\<close>

definition isUpperCase :: "char \<Rightarrow> bool" where
  "isUpperCase c = (let n = of_char c :: nat in
     (65 \<le> n \<and> n \<le> 90) \<or> (192 \<le> n \<and> n \<le> 222 \<and> n \<noteq> 215))"

definition lower_char :: "char \<Rightarrow> char" where
  "lower_char c = (if isUpperCase c then char_of (of_char c + 32 :: nat) else c)"

definition toLowerCase :: "string \<Rightarrow> string" where
  "toLowerCase s = map lower_char s"

text \<open>The value of \<open>parseInt\<close>, and of a variable of type \<open>number\<close> that holds it.\<close>

datatype number = NaN | Num int

definition isDigit :: "char \<Rightarrow> bool" where
  "isDigit c = (48 \<le> (of_char c :: nat) \<and> (of_char c :: nat) \<le> 57)"

definition digit_value :: "char \<Rightarrow> nat" where
  "digit_value c = of_char c - 48"

definition digits_value :: "string \<Rightarrow> nat" where
  "digits_value Z = foldl (\<lambda>acc c. 10 * acc + digit_value c) 0 Z"

text \<open>
  \<open>parseInt(inputString, 10)\<close>: leading white space is skipped, one sign is read, the
  longest run of decimal digits that follows is the numeral; without a digit the result
  is \<open>NaN\<close>. What follows the digits is ignored.
\<close>

definition parseInt10 :: "string \<Rightarrow> number" where
  "parseInt10 inputString =
    (let S = dropWhile isWhiteSpace inputString;
         sign = (if S \<noteq> [] \<and> hd S = CHR ''-'' then - 1 else 1);
         S = (if S \<noteq> [] \<and> (hd S = CHR ''+'' \<or> hd S = CHR ''-'') then tl S else S);
         Z = takeWhile isDigit S
     in if Z = [] then NaN else Num (sign * int (digits_value Z)))"

text \<open>
  \<open>s.match(/H(\d)/)\<close>: the leftmost \<open>H\<close> that a decimal digit follows, anywhere in the
  string; the match array holds the matched text and the digit captured by the group,
  and the value is \<open>null\<close> when there is no match.
\<close>

fun match_H_digit :: "string \<Rightarrow> string list option" where
  "match_H_digit (c # d # s) =
     (if c = CHR ''H'' \<and> isDigit d then Some [[c, d], [d]] else match_H_digit (d # s))"
| "match_H_digit _ = None"

text \<open>
  The decimal numeral of a natural number (\<open>Number.prototype.toString\<close> on a
  non-negative integer), the reference against which \<open>parseInt\<close> is read.
\<close>

fun show_nat :: "nat \<Rightarrow> string" where
  "show_nat n = (if n < 10 then [char_of (48 + n)]
     else show_nat (n div 10) @ [char_of (48 + n mod 10)])"

declare show_nat.simps [simp del]

section \<open>White space and \<open>trim\<close>\<close>

lemma isWhiteSpace_simps [js_simps, simp]:
  "isWhiteSpace (CHR '' '')" "isWhiteSpace (CHR 0x09)" "isWhiteSpace (CHR 0x0A)"
  "isWhiteSpace (CHR 0x0D)" "isWhiteSpace (CHR 0xA0)"
  by (simp_all add: isWhiteSpace_def)

lemma trim_Nil [js_simps, simp]: "trim [] = []"
  by (simp add: trim_def)

lemma trim_eq_Nil_iff: "trim s = [] \<longleftrightarrow> (\<forall>c \<in> set s. isWhiteSpace c)"
  by (simp add: trim_def all_dropWhile_iff)

lemma trim_decompose:
  "s = takeWhile isWhiteSpace s @ trim s @
       rev (takeWhile isWhiteSpace (rev (dropWhile isWhiteSpace s)))"
proof -
  let ?d = "dropWhile isWhiteSpace s"
  have "rev ?d = takeWhile isWhiteSpace (rev ?d) @ dropWhile isWhiteSpace (rev ?d)"
    by simp
  then have "?d = trim s @ rev (takeWhile isWhiteSpace (rev ?d))"
    unfolding trim_def by (metis rev_append rev_rev_ident)
  then show ?thesis by (metis takeWhile_dropWhile_id)
qed

lemma hd_trim: "trim s \<noteq> [] \<Longrightarrow> \<not> isWhiteSpace (hd (trim s))"
proof -
  assume ne: "trim s \<noteq> []"
  let ?d = "dropWhile isWhiteSpace s"
  let ?t = "rev (takeWhile isWhiteSpace (rev ?d))"
  have d: "?d = trim s @ ?t" using trim_decompose [of s] by (metis same_append_eq takeWhile_dropWhile_id)
  with ne have "?d \<noteq> []" by (metis Nil_is_append_conv)
  then have "\<not> isWhiteSpace (hd ?d)" by (rule hd_dropWhile)
  with d ne show ?thesis by (metis hd_append2)
qed

lemma last_trim: "trim s \<noteq> [] \<Longrightarrow> \<not> isWhiteSpace (last (trim s))"
proof -
  assume ne: "trim s \<noteq> []"
  then have "dropWhile isWhiteSpace (rev (dropWhile isWhiteSpace s)) \<noteq> []"
    by (simp add: trim_def)
  then have "\<not> isWhiteSpace (hd (dropWhile isWhiteSpace (rev (dropWhile isWhiteSpace s))))"
    by (rule hd_dropWhile)
  with ne show ?thesis by (simp add: trim_def last_rev)
qed

lemma trim_core:
  assumes "m \<noteq> []" "\<not> isWhiteSpace (hd m)" "\<not> isWhiteSpace (last m)"
  shows "trim m = m"
proof -
  from assms have "dropWhile isWhiteSpace m = m" by (cases m) simp_all
  moreover from assms have "dropWhile isWhiteSpace (rev m) = rev m"
    by (cases "rev m") (simp_all add: last_rev [symmetric] hd_rev)
  ultimately show ?thesis by (simp add: trim_def)
qed

lemma trim_append_ws:
  assumes "\<forall>c \<in> set l. isWhiteSpace c" "\<forall>c \<in> set r. isWhiteSpace c"
  shows "trim (l @ m @ r) = trim m"
proof -
  have 1: "dropWhile isWhiteSpace (l @ m @ r) = dropWhile isWhiteSpace (m @ r)"
    using assms(1) by (simp add: dropWhile_append)
  show ?thesis
  proof (cases "\<forall>c \<in> set m. isWhiteSpace c")
    case True
    with assms have "\<forall>c \<in> set (l @ m @ r). isWhiteSpace c" by auto
    then have "trim (l @ m @ r) = []" by (simp only: trim_eq_Nil_iff)
    moreover from True have "trim m = []" by (simp only: trim_eq_Nil_iff)
    ultimately show ?thesis by simp
  next
    case False
    then have 2: "dropWhile isWhiteSpace (m @ r) = dropWhile isWhiteSpace m @ r"
      by (auto simp: dropWhile_append)
    from False have "\<not> (\<forall>c \<in> set (rev (dropWhile isWhiteSpace m)). isWhiteSpace c)"
      by (metis dropWhile_eq_Nil_conv hd_dropWhile hd_in_set set_rev)
    with assms(2) have "dropWhile isWhiteSpace (rev r @ rev (dropWhile isWhiteSpace m)) =
        dropWhile isWhiteSpace (rev (dropWhile isWhiteSpace m))"
      by (simp add: dropWhile_append)
    with 1 2 show ?thesis by (simp add: trim_def)
  qed
qed

lemma trim_idem [js_simps, simp]: "trim (trim s) = trim s"
proof (cases "trim s = []")
  case False
  then show ?thesis by (intro trim_core hd_trim last_trim)
qed simp

lemma sublist_trim: "sublist (trim s) s"
  using trim_decompose [of s] by (metis sublist_appendI)

lemma length_trim: "length (trim s) \<le> length s"
  using sublist_trim by (rule sublist_length_le)

text \<open>
  C26. \<open>trim\<close> is characterised by its decomposition: \<open>m\<close> is the trimmed string of \<open>s\<close>
  exactly when \<open>s\<close> is \<open>m\<close> between two runs of white space and \<open>m\<close> neither starts nor
  ends with white space.
\<close>

theorem trim_characterisation:
  "trim s = m \<longleftrightarrow>
     (\<exists>l r. s = l @ m @ r \<and> (\<forall>c \<in> set l. isWhiteSpace c) \<and> (\<forall>c \<in> set r. isWhiteSpace c) \<and>
        (m \<noteq> [] \<longrightarrow> \<not> isWhiteSpace (hd m) \<and> \<not> isWhiteSpace (last m)))"
proof
  assume m: "trim s = m"
  let ?l = "takeWhile isWhiteSpace s"
  let ?r = "rev (takeWhile isWhiteSpace (rev (dropWhile isWhiteSpace s)))"
  have "s = ?l @ m @ ?r" using trim_decompose [of s] m by simp
  moreover have "\<forall>c \<in> set ?l. isWhiteSpace c" "\<forall>c \<in> set ?r. isWhiteSpace c"
    by (auto dest: set_takeWhileD)
  moreover have "m \<noteq> [] \<longrightarrow> \<not> isWhiteSpace (hd m) \<and> \<not> isWhiteSpace (last m)"
    using hd_trim [of s] last_trim [of s] m by simp
  ultimately show "\<exists>l r. s = l @ m @ r \<and> (\<forall>c \<in> set l. isWhiteSpace c) \<and>
      (\<forall>c \<in> set r. isWhiteSpace c) \<and>
      (m \<noteq> [] \<longrightarrow> \<not> isWhiteSpace (hd m) \<and> \<not> isWhiteSpace (last m))"
    by blast
next
  assume "\<exists>l r. s = l @ m @ r \<and> (\<forall>c \<in> set l. isWhiteSpace c) \<and>
      (\<forall>c \<in> set r. isWhiteSpace c) \<and>
      (m \<noteq> [] \<longrightarrow> \<not> isWhiteSpace (hd m) \<and> \<not> isWhiteSpace (last m))"
  then obtain l r where s: "s = l @ m @ r"
    and ws: "\<forall>c \<in> set l. isWhiteSpace c" "\<forall>c \<in> set r. isWhiteSpace c"
    and m: "m \<noteq> [] \<longrightarrow> \<not> isWhiteSpace (hd m) \<and> \<not> isWhiteSpace (last m)"
    by blast
  from s ws have "trim s = trim m" by (simp only: trim_append_ws)
  also from m have "trim m = m" by (cases "m = []") (simp_all add: trim_core)
  finally show "trim s = m" .
qed

theorem trim_characterisation_witness:
  "trim ''  main  frame  '' = ''main  frame''"
proof -
  have "''  main  frame  '' = ''  '' @ ''main  frame'' @ ''  ''" by simp
  then show ?thesis
    by (subst trim_characterisation) (intro exI conjI, assumption, simp_all add: isWhiteSpace_def)
qed

section \<open>\<open>toLowerCase\<close>\<close>

lemma toLowerCase_simps [js_simps, simp]:
  "toLowerCase [] = []"
  "toLowerCase (c # s) = lower_char c # toLowerCase s"
  "toLowerCase (s @ t) = toLowerCase s @ toLowerCase t"
  by (simp_all add: toLowerCase_def)

lemma length_toLowerCase [simp]: "length (toLowerCase s) = length s"
  by (simp add: toLowerCase_def)

lemma of_char_lower_char:
  "of_char (lower_char c) = (if isUpperCase c then of_char c + 32 else of_char c :: nat)"
  by (auto simp: lower_char_def isUpperCase_def)

lemma not_isUpperCase_lower_char [simp]: "\<not> isUpperCase (lower_char c)"
  by (auto simp: isUpperCase_def [of "lower_char c"] of_char_lower_char)
    (auto simp: isUpperCase_def)

lemma lower_char_fixed: "\<not> isUpperCase c \<Longrightarrow> lower_char c = c"
  by (simp add: lower_char_def)

lemma lower_char_idem [simp]: "lower_char (lower_char c) = lower_char c"
  by (simp add: lower_char_fixed)

lemma toLowerCase_fixed: "\<forall>c \<in> set s. \<not> isUpperCase c \<Longrightarrow> toLowerCase s = s"
  by (induction s) (simp_all add: lower_char_fixed)

lemma toLowerCase_idem [js_simps, simp]: "toLowerCase (toLowerCase s) = toLowerCase s"
  by (simp add: toLowerCase_def)

lemma not_isUpperCase_toLowerCase: "c \<in> set (toLowerCase s) \<Longrightarrow> \<not> isUpperCase c"
  by (auto simp: toLowerCase_def)

text \<open>
  \<open>toLowerCase\<close> keeps the length of a string, leaves no capital letter in it, changes
  no string without capital letters, and is therefore idempotent.
\<close>

theorem toLowerCase_lower:
  "length (toLowerCase s) = length s \<and>
   (\<forall>c \<in> set (toLowerCase s). \<not> isUpperCase c) \<and>
   ((\<forall>c \<in> set s. \<not> isUpperCase c) \<longrightarrow> toLowerCase s = s) \<and>
   toLowerCase (toLowerCase s) = toLowerCase s"
  by (auto simp: toLowerCase_fixed not_isUpperCase_toLowerCase)

theorem toLowerCase_lower_witness:
  "toLowerCase ''IFRAME'' = ''iframe'' \<and> toLowerCase ''iframe'' = ''iframe''"
proof -
  have "toLowerCase ''IFRAME'' = ''iframe''"
    by (simp add: lower_char_def isUpperCase_def char_of_eq_iff)
  moreover from toLowerCase_lower [of "''IFRAME''"]
  have "toLowerCase (toLowerCase ''IFRAME'') = toLowerCase ''IFRAME''" by blast
  ultimately show ?thesis by simp
qed

section \<open>\<open>parseInt\<close>\<close>

lemma isDigit_char_of: "k < 10 \<Longrightarrow> isDigit (char_of (48 + k :: nat))"
  by (simp add: isDigit_def)

lemma digit_value_char_of [simp]: "k < 10 \<Longrightarrow> digit_value (char_of (48 + k)) = k"
  by (simp add: digit_value_def)

lemma not_isDigit_H [simp]: "\<not> isDigit (CHR ''H'')"
  by (simp add: isDigit_def)

lemma isDigit_not_ws: "isDigit c \<Longrightarrow> \<not> isWhiteSpace c"
  by (auto simp: isDigit_def isWhiteSpace_def)

lemma isDigit_not_sign: "isDigit c \<Longrightarrow> c \<noteq> CHR ''+'' \<and> c \<noteq> CHR ''-''"
  by (auto simp: isDigit_def)

lemma digits_value_simps [js_simps, simp]:
  "digits_value [] = 0"
  "digits_value (Z @ [c]) = 10 * digits_value Z + digit_value c"
  by (simp_all add: digits_value_def)

lemma show_nat_not_Nil [simp]: "show_nat n \<noteq> []"
  by (subst show_nat.simps) simp

lemma show_nat_digits: "\<forall>c \<in> set (show_nat n). isDigit c"
  by (induction n rule: show_nat.induct) (subst show_nat.simps, simp add: isDigit_char_of)

lemma digits_value_show_nat [simp]: "digits_value (show_nat n) = n"
proof (induction n rule: show_nat.induct)
  case (1 n)
  show ?case
  proof (cases "n < 10")
    case True
    then show ?thesis
      using digits_value_simps(2) [of "[]"] by (subst show_nat.simps) simp
  next
    case False
    with 1 show ?thesis by (subst show_nat.simps) simp
  qed
qed

lemma show_nat_digit: "k < 10 \<Longrightarrow> show_nat k = [char_of (48 + k)]"
  by (subst show_nat.simps) simp

lemma parseInt10_digits:
  assumes "Z \<noteq> []" "\<forall>c \<in> set Z. isDigit c" "rest = [] \<or> \<not> isDigit (hd rest)"
    and "\<forall>c \<in> set ws. isWhiteSpace c"
  shows "parseInt10 (ws @ Z @ rest) = Num (int (digits_value Z))"
proof -
  from assms(1,2) have hd: "isDigit (hd Z)" by (cases Z) simp_all
  with assms(1,4) have S: "dropWhile isWhiteSpace (ws @ Z @ rest) = Z @ rest"
    by (cases Z) (simp_all add: dropWhile_append isDigit_not_ws)
  from assms(2,3) have Z: "takeWhile isDigit (Z @ rest) = Z"
    by (cases rest) (simp_all add: takeWhile_append)
  from hd assms(1) have "hd (Z @ rest) \<noteq> CHR ''+''" "hd (Z @ rest) \<noteq> CHR ''-''"
    using isDigit_not_sign by auto
  with S Z assms(1) show ?thesis by (simp add: parseInt10_def)
qed

lemma parseInt10_minus:
  assumes "Z \<noteq> []" "\<forall>c \<in> set Z. isDigit c" "rest = [] \<or> \<not> isDigit (hd rest)"
  shows "parseInt10 (CHR ''-'' # Z @ rest) = Num (- int (digits_value Z))"
proof -
  from assms(2,3) have "takeWhile isDigit (Z @ rest) = Z"
    by (cases rest) (simp_all add: takeWhile_append)
  with assms(1) show ?thesis by (simp add: parseInt10_def isWhiteSpace_def)
qed

lemma parseInt10_no_digit: "\<forall>c \<in> set s. \<not> isDigit c \<Longrightarrow> parseInt10 s = NaN"
proof -
  assume a: "\<forall>c \<in> set s. \<not> isDigit c"
  let ?S = "dropWhile isWhiteSpace s"
  have "set ?S \<subseteq> set s" by (rule set_dropWhileD [THEN subsetI])
  moreover have "set (tl ?S) \<subseteq> set ?S" by (rule set_tl_subset)
  ultimately have "\<forall>c \<in> set ?S. \<not> isDigit c" "\<forall>c \<in> set (tl ?S). \<not> isDigit c"
    using a by blast+
  then have "takeWhile isDigit ?S = []" "takeWhile isDigit (tl ?S) = []"
    by (simp_all only: takeWhile_none)
  then show ?thesis by (simp add: parseInt10_def)
qed

lemma parseInt10_Nil [js_simps, simp]: "parseInt10 [] = NaN"
  by (simp add: parseInt10_def)

lemma parseInt10_digit: "isDigit d \<Longrightarrow> parseInt10 [d] = Num (int (digit_value d))"
  using parseInt10_digits [of "[d]" "[]" "[]"] digits_value_simps(2) [of "[]" d] by simp

text \<open>
  C27. Parsing after printing: \<open>parseInt\<close> reads the decimal numeral of every safe
  integer \<open>n\<close> back as \<open>n\<close>, also after white space and before any text that does not
  start with a digit.
\<close>

theorem parseInt10_show_nat:
  assumes "n < 2 ^ 53" and "\<forall>c \<in> set ws. isWhiteSpace c" and "rest = [] \<or> \<not> isDigit (hd rest)"
  shows "parseInt10 (ws @ show_nat n @ rest) = Num (int n)"
  using parseInt10_digits [of "show_nat n" rest ws] assms(2,3) show_nat_digits [of n] by simp

theorem parseInt10_show_nat_witness:
  "parseInt10 '' 42px'' = Num 42"
proof -
  have "show_nat 42 = ''42''" by (simp add: show_nat.simps char_of_eq_iff)
  with parseInt10_show_nat [of 42 "'' ''" "''px''"] show ?thesis
    by (simp add: isWhiteSpace_def isDigit_def)
qed

section \<open>\<open>match\<close>\<close>

lemma match_H_digit_hit [js_simps, simp]:
  "isDigit d \<Longrightarrow> match_H_digit (CHR ''H'' # d # s) = Some [[CHR ''H'', d], [d]]"
  by simp

lemma match_H_digit_SomeD:
  "match_H_digit s = Some m \<Longrightarrow>
     \<exists>pre d post. s = pre @ CHR ''H'' # d # post \<and> isDigit d \<and> m = [[CHR ''H'', d], [d]] \<and>
       match_H_digit (pre @ [CHR ''H'']) = None"
proof (induction s rule: match_H_digit.induct)
  case (1 c d s)
  show ?case
  proof (cases "c = CHR ''H'' \<and> isDigit d")
    case True
    with 1(2) have "c # d # s = [] @ CHR ''H'' # d # s \<and> isDigit d \<and> m = [[CHR ''H'', d], [d]]
        \<and> match_H_digit ([] @ [CHR ''H'']) = None"
      by auto
    then show ?thesis by blast
  next
    case False
    with 1 obtain pre e post where *: "d # s = pre @ CHR ''H'' # e # post" "isDigit e"
      "m = [[CHR ''H'', e], [e]]" "match_H_digit (pre @ [CHR ''H'']) = None"
      by auto
    from *(1) False have "pre \<noteq> [] \<or> \<not> isDigit d \<or> c \<noteq> CHR ''H''" by auto
    with * False have "c # d # s = (c # pre) @ CHR ''H'' # e # post \<and> isDigit e \<and>
        m = [[CHR ''H'', e], [e]] \<and> match_H_digit ((c # pre) @ [CHR ''H'']) = None"
      by (cases pre) auto
    then show ?thesis by blast
  qed
qed simp_all

lemma match_H_digit_append:
  "isDigit d \<Longrightarrow> match_H_digit (pre @ CHR ''H'' # d # post) \<noteq> None"
proof (induction pre)
  case (Cons c pre)
  then show ?case by (cases pre) auto
qed simp

lemma match_H_digit_leftmostI:
  "isDigit d \<Longrightarrow> match_H_digit (pre @ [CHR ''H'']) = None \<Longrightarrow>
   match_H_digit (pre @ CHR ''H'' # d # post) = Some [[CHR ''H'', d], [d]]"
proof (induction pre)
  case (Cons c pre)
  then show ?case by (cases pre) (auto split: if_splits)
qed simp

lemma match_H_digit_Some_iff:
  "match_H_digit s \<noteq> None \<longleftrightarrow> (\<exists>pre d post. s = pre @ CHR ''H'' # d # post \<and> isDigit d)"
  using match_H_digit_SomeD match_H_digit_append by blast

lemma match_H_digit_no_H: "CHR ''H'' \<notin> set s \<Longrightarrow> match_H_digit s = None"
  using match_H_digit_Some_iff [of s] by auto

text \<open>
  C29. \<open>match\<close> with \<open>/H(\d)/\<close> finds the leftmost match: the value is the array of an
  \<open>H\<close> with the digit after it and of this digit exactly when the string has this pair
  at a place before which no \<open>H\<close> is followed by a digit, and it is \<open>null\<close> exactly when
  no \<open>H\<close> of the string is followed by a digit.
\<close>

theorem match_H_digit_leftmost:
  "(match_H_digit s = Some m \<longleftrightarrow>
      (\<exists>pre d post. s = pre @ CHR ''H'' # d # post \<and> isDigit d \<and>
         match_H_digit (pre @ [CHR ''H'']) = None \<and> m = [[CHR ''H'', d], [d]])) \<and>
   (match_H_digit s = None \<longleftrightarrow>
      \<not> (\<exists>pre d post. s = pre @ CHR ''H'' # d # post \<and> isDigit d))"
  using match_H_digit_SomeD [of s m] match_H_digit_leftmostI match_H_digit_Some_iff [of s]
  by blast

theorem match_H_digit_leftmost_witness:
  "match_H_digit ''TH3H4'' = Some [''H3'', ''3''] \<and> match_H_digit ''SECTION'' = None"
proof -
  have "isDigit (CHR ''3'')" "match_H_digit (''T'' @ ''H'') = None"
    by (simp_all add: isDigit_def)
  then have "match_H_digit ''TH3H4'' = Some [''H3'', ''3'']"
    using match_H_digit_leftmost [of "''TH3H4''" "[''H3'', ''3'']"] by (auto intro!: exI [of _ "''T''"])
  moreover have "match_H_digit ''SECTION'' = None"
    using match_H_digit_leftmost [of "''SECTION''"] by (simp add: match_H_digit_no_H)
  ultimately show ?thesis by simp
qed

end
