(* ===== verification/Custom_Rules.thy ===== *)
theory Custom_Rules
  imports Js_Strings
begin

text \<open>
  The two custom rule configurations of \<open>src/custom-rule-configurations\<close>:
  \<open>frame-title.ts\<close> (the check \<open>get-frame-title\<close>) and \<open>heading-rule.ts\<close> (the check
  \<open>collect-headings\<close>). A check's \<open>evaluate\<close> function is called by the scan engine with
  the check context as \<open>this\<close>; its only effect is the call \<open>this.data(d)\<close>. The scan
  engine is not under \<open>src\<close>: the context is the record of the one slot that
  \<open>this.data\<close> writes, passed in and returned beside the boolean result, and the
  theorems are about the two \<open>evaluate\<close> functions, not about the engine that calls
  them. Of a DOM element the model has the properties the two functions read. The
  configuration literals are kept as records; the selection of elements by a rule's
  selector is the engine's and is not modelled.
\<close>

section \<open>The DOM element and the check context\<close>

record HTMLElement =
  title :: string
  tagName :: string
  innerText :: string
  attributes :: "string \<rightharpoonup> string"

text \<open>\<open>node.getAttribute(name)\<close>: the value of the attribute, \<open>null\<close> when there is none.\<close>

definition getAttribute :: "HTMLElement \<Rightarrow> string \<Rightarrow> string option" where
  "getAttribute node name = attributes node name"

record 'd CheckContext =
  check_data :: "'d option"

text \<open>\<open>this.data(d)\<close>.\<close>

definition data :: "'d CheckContext \<Rightarrow> 'd \<Rightarrow> 'd CheckContext" where
  "data this d = this\<lparr>check_data := Some d\<rparr>"

section \<open>Rule configurations\<close>

record ('c, 'n, 'o) ICheckConfiguration =
  check_config_id :: string
  evaluate :: "'c \<Rightarrow> 'n \<Rightarrow> 'o \<Rightarrow> 'c \<times> bool"

record IRuleConfiguration =
  rule_config_id :: string
  selector :: string
  rule_any :: "string list"
  enabled :: bool

record ('c, 'n, 'o) RulesConfiguration =
  checks :: "('c, 'n, 'o) ICheckConfiguration list"
  rule :: IRuleConfiguration

section \<open>\<open>frame-title.ts\<close>\<close>

record AxeCheckResultFrameExtraData =
  frameType :: string
  frameTitle :: string

definition frameTitleId :: string where
  "frameTitleId = ''get-frame-title''"

definition evaluateTitle ::
  "AxeCheckResultFrameExtraData CheckContext \<Rightarrow> HTMLElement \<Rightarrow> 'o \<Rightarrow>
   AxeCheckResultFrameExtraData CheckContext \<times> bool" where
  "evaluateTitle this node options =
    (let frameTitle' = (if title node \<noteq> [] then trim (title node) else []);
         frameResultData = \<lparr>frameType = toLowerCase (tagName node), frameTitle = frameTitle'\<rparr>;
         this = data this frameResultData
     in (this, frameTitle' \<noteq> []))"

definition frameTitleConfiguration ::
  "(AxeCheckResultFrameExtraData CheckContext, HTMLElement, 'o) RulesConfiguration" where
  "frameTitleConfiguration =
    \<lparr>checks = [\<lparr>check_config_id = frameTitleId, evaluate = evaluateTitle\<rparr>],
     rule = \<lparr>rule_config_id = frameTitleId, selector = ''frame, iframe'',
             rule_any = [frameTitleId], enabled = False\<rparr>\<rparr>"

section \<open>\<open>heading-rule.ts\<close>\<close>

text \<open>
  \<open>headingLevel\<close> is declared without a value and assigned on two of three paths, so
  the property may be \<open>undefined\<close>.
\<close>

record AxeCheckResultExtraData =
  headingLevel :: "number option"
  headingText :: string

definition headingCheckId :: string where
  "headingCheckId = ''collect-headings''"

definition evaluateCodedHeadings ::
  "AxeCheckResultExtraData CheckContext \<Rightarrow> HTMLElement \<Rightarrow> 'o \<Rightarrow>
   AxeCheckResultExtraData CheckContext \<times> bool" where
  "evaluateCodedHeadings this node options =
    (let headingText' = innerText node;
         ariaHeadingLevel = getAttribute node ''aria-level'';
         headingLevel' =
           (case ariaHeadingLevel of
              Some level \<Rightarrow> Some (parseInt10 level)
            | None \<Rightarrow>
                (let codedHeadingLevel = match_H_digit (tagName node)
                 in case codedHeadingLevel of
                      Some groups \<Rightarrow> Some (parseInt10 (groups ! 1))
                    | None \<Rightarrow> None));
         headingResultData = \<lparr>headingLevel = headingLevel', headingText = headingText'\<rparr>;
         this = data this headingResultData
     in (this, True))"

definition headingConfiguration ::
  "(AxeCheckResultExtraData CheckContext, HTMLElement, 'o) RulesConfiguration" where
  "headingConfiguration =
    \<lparr>checks = [\<lparr>check_config_id = headingCheckId, evaluate = evaluateCodedHeadings\<rparr>],
     rule = \<lparr>rule_config_id = ''collect-headings'',
             selector = ''h1,h2,h3,h4,h5,h6,[role=heading]'',
             rule_any = [headingCheckId], enabled = False\<rparr>\<rparr>"

section \<open>Concrete elements\<close>

text \<open>Elements used where a theorem is applied to a concrete input.\<close>

abbreviation example_iframe :: HTMLElement where
  "example_iframe \<equiv>
     \<lparr>title = ''  Main  content '', tagName = ''IFRAME'', innerText = [], attributes = Map.empty\<rparr>"

abbreviation example_h2 :: HTMLElement where
  "example_h2 \<equiv>
     \<lparr>title = [], tagName = ''H2'', innerText = ''Results'', attributes = Map.empty\<rparr>"

abbreviation example_div_heading :: HTMLElement where
  "example_div_heading \<equiv>
     \<lparr>title = [], tagName = ''DIV'', innerText = ''Summary'',
      attributes = [''role'' \<mapsto> ''heading'', ''aria-level'' \<mapsto> ''3'']\<rparr>"

section \<open>Lemmas\<close>

lemma data_simps [js_simps, simp]:
  "check_data (data this d) = Some d"
  "CheckContext.more (data this d) = CheckContext.more this"
  by (simp_all add: data_def)

lemma evaluateTitle_eq:
  "evaluateTitle this node options =
     (data this \<lparr>frameType = toLowerCase (tagName node), frameTitle = trim (title node)\<rparr>,
      \<exists>c \<in> set (title node). \<not> isWhiteSpace c)"
  by (simp add: evaluateTitle_def trim_eq_Nil_iff)

lemma evaluateCodedHeadings_aria:
  "attributes node ''aria-level'' = Some a \<Longrightarrow>
   evaluateCodedHeadings this node options =
     (data this \<lparr>headingLevel = Some (parseInt10 a), headingText = innerText node\<rparr>, True)"
  by (simp add: evaluateCodedHeadings_def getAttribute_def)

lemma evaluateCodedHeadings_tag:
  "attributes node ''aria-level'' = None \<Longrightarrow>
   evaluateCodedHeadings this node options =
     (data this \<lparr>headingLevel = map_option (\<lambda>groups. parseInt10 (groups ! 1))
          (match_H_digit (tagName node)), headingText = innerText node\<rparr>, True)"
  by (simp add: evaluateCodedHeadings_def getAttribute_def split: option.split)

lemma digit_value_less: "isDigit d \<Longrightarrow> digit_value d < 10"
  by (auto simp: isDigit_def digit_value_def)

lemma headingLevel_tag_cases:
  assumes "attributes node ''aria-level'' = None"
  obtains (undefined) "match_H_digit (tagName node) = None"
      "evaluateCodedHeadings this node options =
         (data this \<lparr>headingLevel = None, headingText = innerText node\<rparr>, True)"
  | (digit) d where "isDigit d" "\<exists>pre post. tagName node = pre @ CHR ''H'' # d # post"
      "evaluateCodedHeadings this node options =
         (data this \<lparr>headingLevel = Some (Num (int (digit_value d))),
            headingText = innerText node\<rparr>, True)"
proof (cases "match_H_digit (tagName node)")
  case None
  with assms undefined show ?thesis by (simp add: evaluateCodedHeadings_tag)
next
  case (Some groups)
  from match_H_digit_SomeD [OF Some] obtain pre d post where
    "tagName node = pre @ CHR ''H'' # d # post" "isDigit d" "groups = [[CHR ''H'', d], [d]]"
    by blast
  with assms Some digit [of d] show ?thesis
    by (simp add: evaluateCodedHeadings_tag parseInt10_digit) blast
qed

section \<open>The frame title check\<close>

text \<open>
  C25. \<open>evaluateTitle\<close> returns \<open>true\<close> exactly for an element whose title has a character
  that is not white space, whatever the context and the options are.
\<close>

theorem evaluateTitle_result:
  "snd (evaluateTitle this node options) \<longleftrightarrow> (\<exists>c \<in> set (title node). \<not> isWhiteSpace c)"
  by (simp add: evaluateTitle_eq)

theorem evaluateTitle_result_witness:
  "snd (evaluateTitle \<lparr>check_data = None\<rparr> example_iframe ()) \<and>
   \<not> snd (evaluateTitle \<lparr>check_data = None\<rparr> (example_iframe\<lparr>title := ''   ''\<rparr>) ())"
  using evaluateTitle_result [of "\<lparr>check_data = None\<rparr>" example_iframe "()"]
    evaluateTitle_result [of "\<lparr>check_data = None\<rparr>" "example_iframe\<lparr>title := ''   ''\<rparr>" "()"]
  by (simp add: isWhiteSpace_def)

text \<open>
  C19. \<open>evaluateTitle\<close> stores exactly one data record in the check context, replacing
  what was there: the frame type is the tag name in lower case, the frame title is the
  trimmed title, a part of the title that neither starts nor ends with white space.
\<close>

theorem evaluateTitle_data:
  "\<exists>d. check_data (fst (evaluateTitle this node options)) = Some d \<and>
     frameType d = toLowerCase (tagName node) \<and> frameTitle d = trim (title node) \<and>
     sublist (frameTitle d) (title node) \<and>
     (frameTitle d \<noteq> [] \<longrightarrow>
        \<not> isWhiteSpace (hd (frameTitle d)) \<and> \<not> isWhiteSpace (last (frameTitle d)))"
  by (simp add: evaluateTitle_eq sublist_trim hd_trim last_trim)

theorem evaluateTitle_data_witness:
  "check_data (fst (evaluateTitle \<lparr>check_data = None\<rparr> example_iframe ())) =
     Some \<lparr>frameType = ''iframe'', frameTitle = ''Main  content''\<rparr>"
proof -
  have "trim ''  Main  content '' = ''Main  content''"
    by (simp add: trim_def isWhiteSpace_def)
  moreover have "toLowerCase ''IFRAME'' = ''iframe''"
    by (simp add: lower_char_def isUpperCase_def char_of_eq_iff)
  ultimately show ?thesis
    using evaluateTitle_data [of "\<lparr>check_data = None\<rparr>" example_iframe "()"] by auto
qed

section \<open>The heading check\<close>

text \<open>
  \<open>evaluateCodedHeadings\<close> returns \<open>true\<close> for every element and stores one data
  record whose heading text is the element's inner text.
\<close>

theorem evaluateCodedHeadings_total:
  "snd (evaluateCodedHeadings this node options) \<and>
   (\<exists>d. check_data (fst (evaluateCodedHeadings this node options)) = Some d \<and>
      headingText d = innerText node)"
  by (cases "attributes node ''aria-level''")
    (simp_all add: evaluateCodedHeadings_aria evaluateCodedHeadings_tag)

text \<open>
  C20. An \<open>aria-level\<close> attribute decides the heading level alone: the level is
  \<open>parseInt\<close> of the attribute and the tag name is not consulted, so the numeral of a safe
  integer gives this integer.
\<close>

theorem evaluateCodedHeadings_aria_level:
  assumes "attributes node ''aria-level'' = Some a"
  shows "map_option headingLevel (check_data (fst (evaluateCodedHeadings this node options)))
      = Some (Some (parseInt10 a)) \<and>
    evaluateCodedHeadings this (node\<lparr>tagName := t\<rparr>) options =
      evaluateCodedHeadings this node options \<and>
    (\<forall>n < 2 ^ 53. a = show_nat n \<longrightarrow> parseInt10 a = Num (int n))"
proof -
  have "parseInt10 (show_nat n) = Num (int n)" for n
    using parseInt10_digits [of "show_nat n" "[]" "[]"] show_nat_digits [of n] by simp
  with assms show ?thesis by (simp add: evaluateCodedHeadings_aria)
qed

theorem evaluateCodedHeadings_aria_level_witness:
  "map_option headingLevel
     (check_data (fst (evaluateCodedHeadings \<lparr>check_data = None\<rparr> example_div_heading ())))
   = Some (Some (Num 3))"
proof -
  have "parseInt10 ''3'' = Num 3"
    by (simp add: parseInt10_digit isDigit_def digit_value_def)
  moreover from evaluateCodedHeadings_aria_level [of example_div_heading "''3''"
      "\<lparr>check_data = None\<rparr>" "()" "''DIV''"]
  have "map_option headingLevel
      (check_data (fst (evaluateCodedHeadings \<lparr>check_data = None\<rparr> example_div_heading ())))
    = Some (Some (parseInt10 ''3''))"
    by simp
  ultimately show ?thesis by simp
qed

text \<open>
  C32. Without an \<open>aria-level\<close> attribute the elements \<open>H0\<close> to \<open>H9\<close>, and with them the
  headings \<open>H1\<close> to \<open>H6\<close>, get the level that their tag name shows.
\<close>

theorem evaluateCodedHeadings_tag_level:
  assumes "attributes node ''aria-level'' = None" and "k < 10"
    and "tagName node = CHR ''H'' # show_nat k"
  shows "map_option headingLevel (check_data (fst (evaluateCodedHeadings this node options)))
    = Some (Some (Num (int k)))"
  using assms
  by (simp add: evaluateCodedHeadings_tag show_nat_digit isDigit_char_of parseInt10_digit)

theorem evaluateCodedHeadings_tag_level_witness:
  "map_option headingLevel
     (check_data (fst (evaluateCodedHeadings \<lparr>check_data = None\<rparr> example_h2 ())))
   = Some (Some (Num 2))"
proof -
  have "show_nat 2 = ''2''" by (simp add: show_nat.simps char_of_eq_iff)
  with evaluateCodedHeadings_tag_level [of example_h2 2 "\<lparr>check_data = None\<rparr>" "()"]
  show ?thesis by simp
qed

text \<open>
  C24. Without an \<open>aria-level\<close> attribute the heading level is never \<open>NaN\<close>: it is
  \<open>undefined\<close> when no \<open>H\<close> of the tag name is followed by a digit, as for an element
  that is a heading by its role alone, and a number from 0 to 9 otherwise.
\<close>

theorem evaluateCodedHeadings_tag_range:
  assumes "attributes node ''aria-level'' = None"
  shows "\<exists>d. check_data (fst (evaluateCodedHeadings this node options)) = Some d \<and>
    (if \<exists>pre c post. tagName node = pre @ CHR ''H'' # c # post \<and> isDigit c
     then \<exists>k. headingLevel d = Some (Num k) \<and> 0 \<le> k \<and> k \<le> 9
     else headingLevel d = None)"
  using assms
proof (cases rule: headingLevel_tag_cases [of node this options])
  case undefined
  then show ?thesis using match_H_digit_Some_iff [of "tagName node"] by simp
next
  case (digit d)
  then show ?thesis using digit_value_less [of d] by auto
qed

theorem evaluateCodedHeadings_tag_range_witness:
  "map_option headingLevel (check_data (fst (evaluateCodedHeadings \<lparr>check_data = None\<rparr>
     (example_div_heading\<lparr>attributes := [''role'' \<mapsto> ''heading'']\<rparr>) ()))) = Some None"
  using evaluateCodedHeadings_tag_range [of
      "example_div_heading\<lparr>attributes := [''role'' \<mapsto> ''heading'']\<rparr>"
      "\<lparr>check_data = None\<rparr>" "()"]
    match_H_digit_Some_iff [of "''DIV''"]
  by (auto split: if_splits)

text \<open>
  C31. An \<open>aria-level\<close> attribute without a digit makes the heading level \<open>NaN\<close>, also on
  an element \<open>H1\<close> to \<open>H6\<close>: there is no fallback to the tag name.
\<close>

theorem evaluateCodedHeadings_aria_NaN:
  assumes "attributes node ''aria-level'' = Some a" and "\<forall>c \<in> set a. \<not> isDigit c"
  shows "map_option headingLevel (check_data (fst (evaluateCodedHeadings this node options)))
    = Some (Some NaN)"
  using assms by (simp add: evaluateCodedHeadings_aria parseInt10_no_digit)

theorem evaluateCodedHeadings_aria_NaN_witness:
  "map_option headingLevel (check_data (fst (evaluateCodedHeadings \<lparr>check_data = None\<rparr>
     (example_h2\<lparr>attributes := [''aria-level'' \<mapsto> ''two'']\<rparr>) ()))) = Some (Some NaN)"
  using evaluateCodedHeadings_aria_NaN [of
      "example_h2\<lparr>attributes := [''aria-level'' \<mapsto> ''two'']\<rparr>" "''two''"
      "\<lparr>check_data = None\<rparr>" "()"]
  by (simp add: isDigit_def)

end
