(* ===== verification/Entry_Point.thy ===== *)
theory Entry_Point
  imports Converter_Object
begin

text \<open>
  The entry point \<open>axeToSarif\<close> of \<open>index.ts\<close>. It constructs a result decorator and a
  converter from collaborators that are imported from other modules, decorates the raw
  scan results and converts them with empty options. The imported names are the fields
  of the record \<open>Index_Imports\<close>: a constructor is a function that returns the new
  object, a method is a function of its object, and a method that changes its object
  returns the changed object. The two calls that work on the scan results may raise.
  The converter that \<open>index.ts\<close> constructs is \<open>SarifConverter\<close> of \<open>sarif-converter\<close>,
  which is not under \<open>src\<close>; it is not the class \<open>SarifConverter21\<close> of the other
  theories, which no code under \<open>src\<close> constructs. Since every collaborator of the entry
  point is a parameter, the theory holds its definition and no theorem beyond its
  evaluation on concrete collaborators.
\<close>

section \<open>Definitions\<close>

record ('cfg, 'cmt, 'md, 'hug, 'url, 'du, 'rd, 'wc, 'wl, 'sc, 'ax, 'ch, 'log) Index_Imports =
  configuration :: 'cfg
  new_CheckMessageTransformer :: "unit \<Rightarrow> 'cmt"
  new_MessageDecorator :: "'cfg \<Rightarrow> 'cmt \<Rightarrow> 'md"
  new_HelpUrlGetter :: "'cfg \<Rightarrow> 'hug"
  getHelpUrl :: "'hug \<Rightarrow> string \<Rightarrow> 'url"
  new_DocumentUtils :: "unit \<Rightarrow> 'du"
  new_ResultDecorator :: "'du \<Rightarrow> 'md \<Rightarrow> (string \<Rightarrow> 'url) \<Rightarrow> 'rd"
  setWCAGConfiguration :: "'rd \<Rightarrow> 'wc \<Rightarrow> 'rd"
  rulesWCAGConfiguration :: 'wc
  wcagLinkData :: 'wl
  new_SarifConverter :: "'wl \<Rightarrow> 'sc"
  decorateResults :: "'rd \<Rightarrow> 'ax \<Rightarrow> 'ch result"
  SarifConverter_convert :: "'sc \<Rightarrow> 'ch \<Rightarrow> ConverterOptions \<Rightarrow> 'log result"

text \<open>The object literal \<open>{}\<close> passed as options.\<close>

definition emptyOptions :: ConverterOptions where
  "emptyOptions = \<lparr>scanName = None, testCaseId = None, scanId = None\<rparr>"

definition axeToSarif ::
  "('cfg, 'cmt, 'md, 'hug, 'url, 'du, 'rd, 'wc, 'wl, 'sc, 'ax, 'ch, 'log) Index_Imports \<Rightarrow>
   'ax \<Rightarrow> 'log result" where
  "axeToSarif I axeResults =
    (let messageDecorator =
           new_MessageDecorator I (configuration I) (new_CheckMessageTransformer I ());
         chiselHelpUrlGetter = new_HelpUrlGetter I (configuration I);
         resultDecorator =
           new_ResultDecorator I (new_DocumentUtils I ()) messageDecorator
             (\<lambda>ruleId. getHelpUrl I chiselHelpUrlGetter ruleId);
         resultDecorator = setWCAGConfiguration I resultDecorator (rulesWCAGConfiguration I);
         sarifConverter = new_SarifConverter I (wcagLinkData I)
     in andThen (decorateResults I resultDecorator axeResults) (\<lambda>chiselResults.
          SarifConverter_convert I sarifConverter chiselResults emptyOptions))"

text \<open>
  Collaborators for concrete inputs: the decorator's state records whether the guideline
  mapping has been set, and it decorates (by returning the results as they are) only
  then.
\<close>

abbreviation example_index_imports ::
  "(unit, unit, unit, unit, string, unit, bool, unit, (string \<times> WCAGLinkData) list, unit,
    DecoratedAxeResults, DecoratedAxeResults, unit) Index_Imports" where
  "example_index_imports \<equiv>
     \<lparr>configuration = (),
      new_CheckMessageTransformer = (\<lambda>_. ()),
      new_MessageDecorator = (\<lambda>_ _. ()),
      new_HelpUrlGetter = (\<lambda>_. ()),
      getHelpUrl = (\<lambda>_ ruleId. ''https://example.com/rules/'' @ ruleId),
      new_DocumentUtils = (\<lambda>_. ()),
      new_ResultDecorator = (\<lambda>_ _ _. False),
      setWCAGConfiguration = (\<lambda>_ _. True),
      rulesWCAGConfiguration = (),
      wcagLinkData = axeTagsToWcagLinkData example_imports,
      new_SarifConverter = (\<lambda>_. ()),
      decorateResults =
        (\<lambda>configured res. if configured then Inr res else Inl (TypeError ''wcagConfiguration'')),
      SarifConverter_convert = (\<lambda>_ _ _. Inr ())\<rparr>"

section \<open>Lemmas\<close>

lemma emptyOptions_simps [simp]:
  "scanName emptyOptions = None" "testCaseId emptyOptions = None" "scanId emptyOptions = None"
  by (simp_all add: emptyOptions_def)

text \<open>
  On the concrete collaborators the call returns, since the decorator is configured
  before it decorates; with a \<open>setWCAGConfiguration\<close> that leaves the decorator as it is
  the decoration raises and the converter is not reached.
\<close>

lemma axeToSarif_example:
  "axeToSarif example_index_imports example_results = Inr ()"
  "axeToSarif (example_index_imports\<lparr>setWCAGConfiguration := \<lambda>d _. d\<rparr>) example_results =
     Inl (TypeError ''wcagConfiguration'')"
  by (simp_all add: axeToSarif_def)

end
