(* ===== verification/Projector_Machine.thy ===== *)
theory Projector_Machine
  imports Result_Projector
begin

text \<open>
  The execution of \<open>convertResults\<close> step by step. The methods of the result projector
  are three calls of \<open>convertRuleResults\<close> and one of \<open>convertRuleResultsWithoutNodes\<close>,
  each a loop over rule results, and \<open>convertRuleResult\<close> is a loop over nodes inside the
  first. A configuration holds the control points that are still open, innermost first,
  and the array \<open>resultArray\<close> that all of them push to; a step runs one loop header, one
  loop body or one return. The \<open>push\<close> of \<open>convertRuleResult\<close> is the only step that changes
  the array, and the read of \<open>this.ruleIdsToRuleIndices\<close> in it is the only step that can
  raise. The relation \<open>projector_step\<close> has one rule per step; \<open>projector_next\<close> is the
  same step as a function and \<open>projector_run\<close> iterates it with fuel. The theorems relate
  the machine to the functions of \<open>Result_Projector\<close>, bound its runs and state what
  holds of the array in every configuration that a run passes.
\<close>

section \<open>Configurations\<close>

text \<open>
  An open control point: a call of \<open>convertRuleResults\<close> that is about to test its
  bucket, its loop with the rule results still to visit, the loop of \<open>convertRuleResult\<close>
  with the nodes still to visit, and the same two for \<open>convertRuleResultsWithoutNodes\<close>.
\<close>

datatype work =
    call_convertRuleResults "DecoratedAxeResult list option" level
  | loop_ruleResults "DecoratedAxeResult list" level
  | loop_nodes DecoratedAxeResult "NodeResult list" level
  | call_convertRuleResultsWithoutNodes "DecoratedAxeResult list option"
  | loop_withoutNodes "DecoratedAxeResult list"

datatype 'l config =
    Running "work list" "'l Result list"
  | Returned "'l Result list"
  | Raised error

text \<open>The body of \<open>convertResults\<close> before its first call, with the empty array.\<close>

definition init_config :: "'r DecoratedAxeResults_scheme \<Rightarrow> 'l config" where
  "init_config axeResults =
     Running [call_convertRuleResults (violations axeResults) level_error,
              call_convertRuleResults (passes axeResults) level_pass,
              call_convertRuleResults (incomplete axeResults) level_open,
              call_convertRuleResultsWithoutNodes (inapplicable axeResults)] []"

definition is_final :: "'l config \<Rightarrow> bool" where
  "is_final c = (case c of Running k resultArray \<Rightarrow> False | _ \<Rightarrow> True)"

definition array_of :: "'l config \<Rightarrow> 'l Result list" where
  "array_of c = (case c of Running k resultArray \<Rightarrow> resultArray
                 | Returned resultArray \<Rightarrow> resultArray | Raised e \<Rightarrow> [])"

text \<open>What a call of \<open>convertResults\<close> that ends in a result or an exception ends in.\<close>

definition outcome :: "'l Result list result \<Rightarrow> 'l config" where
  "outcome r = (case r of Inl e \<Rightarrow> Raised e | Inr resultArray \<Rightarrow> Returned resultArray)"

section \<open>Steps\<close>

inductive projector_step ::
  "('r, 'e, 'l, 'c, 't, 'i, 'a) Imports \<Rightarrow> ('e, 'c, 't, 'i, 'a) SarifConverter21 \<Rightarrow> 'e \<Rightarrow>
   'l config \<Rightarrow> 'l config \<Rightarrow> bool"
  for M this environmentData where
  bucket_undefined:
    "projector_step M this environmentData
       (Running (call_convertRuleResults None lvl # k) resultArray) (Running k resultArray)"
| bucket_defined:
    "projector_step M this environmentData
       (Running (call_convertRuleResults (Some rs) lvl # k) resultArray)
       (Running (loop_ruleResults rs lvl # k) resultArray)"
| next_ruleResult:
    "projector_step M this environmentData
       (Running (loop_ruleResults (ruleResult # rs) lvl # k) resultArray)
       (Running (loop_nodes ruleResult (nodes ruleResult) lvl # loop_ruleResults rs lvl # k)
          resultArray)"
| ruleResults_done:
    "projector_step M this environmentData
       (Running (loop_ruleResults [] lvl # k) resultArray) (Running k resultArray)"
| push:
    "ruleIdsToRuleIndices this = Some table \<Longrightarrow>
     projector_step M this environmentData
       (Running (loop_nodes ruleResult (node # ns) lvl # k) resultArray)
       (Running (loop_nodes ruleResult ns lvl # k)
          (resultArray @
             [result_entry table (getArtifactLocation M environmentData) lvl ruleResult node]))"
| raise:
    "ruleIdsToRuleIndices this = None \<Longrightarrow>
     projector_step M this environmentData
       (Running (loop_nodes ruleResult (node # ns) lvl # k) resultArray)
       (Raised (TypeError ''this.ruleIdsToRuleIndices''))"
| nodes_done:
    "projector_step M this environmentData
       (Running (loop_nodes ruleResult [] lvl # k) resultArray) (Running k resultArray)"
| without_undefined:
    "projector_step M this environmentData
       (Running (call_convertRuleResultsWithoutNodes None # k) resultArray)
       (Running k resultArray)"
| without_defined:
    "projector_step M this environmentData
       (Running (call_convertRuleResultsWithoutNodes (Some rs) # k) resultArray)
       (Running (loop_withoutNodes rs # k) resultArray)"
| without_next:
    "projector_step M this environmentData
       (Running (loop_withoutNodes (ruleResult # rs) # k) resultArray)
       (Running (loop_withoutNodes rs # k) resultArray)"
| without_done:
    "projector_step M this environmentData
       (Running (loop_withoutNodes [] # k) resultArray) (Running k resultArray)"
| return:
    "projector_step M this environmentData (Running [] resultArray) (Returned resultArray)"

code_pred projector_step .

text \<open>The step as a function: \<open>None\<close> for a configuration that has ended.\<close>

fun projector_next ::
  "('r, 'e, 'l, 'c, 't, 'i, 'a) Imports \<Rightarrow> ('e, 'c, 't, 'i, 'a) SarifConverter21 \<Rightarrow> 'e \<Rightarrow>
   'l config \<Rightarrow> 'l config option" where
  "projector_next M this env (Running [] arr) = Some (Returned arr)"
| "projector_next M this env (Running (call_convertRuleResults None lvl # k) arr) =
     Some (Running k arr)"
| "projector_next M this env (Running (call_convertRuleResults (Some rs) lvl # k) arr) =
     Some (Running (loop_ruleResults rs lvl # k) arr)"
| "projector_next M this env (Running (loop_ruleResults (r # rs) lvl # k) arr) =
     Some (Running (loop_nodes r (nodes r) lvl # loop_ruleResults rs lvl # k) arr)"
| "projector_next M this env (Running (loop_ruleResults [] lvl # k) arr) = Some (Running k arr)"
| "projector_next M this env (Running (loop_nodes r (node # ns) lvl # k) arr) =
     (case ruleIdsToRuleIndices this of
        None \<Rightarrow> Some (Raised (TypeError ''this.ruleIdsToRuleIndices''))
      | Some table \<Rightarrow>
          Some (Running (loop_nodes r ns lvl # k)
            (arr @ [result_entry table (getArtifactLocation M env) lvl r node])))"
| "projector_next M this env (Running (loop_nodes r [] lvl # k) arr) = Some (Running k arr)"
| "projector_next M this env (Running (call_convertRuleResultsWithoutNodes None # k) arr) =
     Some (Running k arr)"
| "projector_next M this env (Running (call_convertRuleResultsWithoutNodes (Some rs) # k) arr) =
     Some (Running (loop_withoutNodes rs # k) arr)"
| "projector_next M this env (Running (loop_withoutNodes (r # rs) # k) arr) =
     Some (Running (loop_withoutNodes rs # k) arr)"
| "projector_next M this env (Running (loop_withoutNodes [] # k) arr) = Some (Running k arr)"
| "projector_next M this env (Returned arr) = None"
| "projector_next M this env (Raised e) = None"

text \<open>At most \<open>fuel\<close> steps from a configuration.\<close>

fun projector_run ::
  "('r, 'e, 'l, 'c, 't, 'i, 'a) Imports \<Rightarrow> ('e, 'c, 't, 'i, 'a) SarifConverter21 \<Rightarrow> 'e \<Rightarrow>
   nat \<Rightarrow> 'l config \<Rightarrow> 'l config" where
  "projector_run M this env 0 c = c"
| "projector_run M this env (Suc fuel) c =
     (case projector_next M this env c of
        None \<Rightarrow> c
      | Some c' \<Rightarrow> projector_run M this env fuel c')"

section \<open>The size of a configuration\<close>

text \<open>
  The number of steps that a control point still takes when no step raises: one for a
  loop header that finds its list empty or a bucket undefined, two and its nodes for
  each rule result of a node-bearing bucket.
\<close>

definition rules_size :: "DecoratedAxeResult list \<Rightarrow> nat" where
  "rules_size rs = sum_list (map (\<lambda>r. 2 + length (nodes r)) rs)"

fun work_size :: "work \<Rightarrow> nat" where
  "work_size (call_convertRuleResults b lvl) =
     (case b of None \<Rightarrow> 1 | Some rs \<Rightarrow> 2 + rules_size rs)"
| "work_size (loop_ruleResults rs lvl) = 1 + rules_size rs"
| "work_size (loop_nodes r ns lvl) = 1 + length ns"
| "work_size (call_convertRuleResultsWithoutNodes b) =
     (case b of None \<Rightarrow> 1 | Some rs \<Rightarrow> 2 + length rs)"
| "work_size (loop_withoutNodes rs) = 1 + length rs"

fun config_size :: "'l config \<Rightarrow> nat" where
  "config_size (Running k arr) = 1 + sum_list (map work_size k)"
| "config_size (Returned arr) = 0"
| "config_size (Raised e) = 0"

section \<open>The meaning of a configuration\<close>

text \<open>
  What the functions of \<open>Result_Projector\<close> return for the rest of the work of a control
  point, and for a configuration.
\<close>

fun exec_work ::
  "('r, 'e, 'l, 'c, 't, 'i, 'a) Imports \<Rightarrow> ('e, 'c, 't, 'i, 'a) SarifConverter21 \<Rightarrow> 'e \<Rightarrow>
   'l Result list \<Rightarrow> work \<Rightarrow> 'l Result list result" where
  "exec_work M this env arr (call_convertRuleResults b lvl) =
     convertRuleResults M this arr b lvl env"
| "exec_work M this env arr (loop_ruleResults rs lvl) =
     convertRuleResults M this arr (Some rs) lvl env"
| "exec_work M this env arr (loop_nodes r ns lvl) =
     convertRuleResult M this arr (r\<lparr>nodes := ns\<rparr>) lvl env"
| "exec_work M this env arr (call_convertRuleResultsWithoutNodes b) =
     Inr (convertRuleResultsWithoutNodes arr b level_notApplicable Map.empty)"
| "exec_work M this env arr (loop_withoutNodes rs) =
     Inr (convertRuleResultsWithoutNodes arr (Some rs) level_notApplicable Map.empty)"

fun denote ::
  "('r, 'e, 'l, 'c, 't, 'i, 'a) Imports \<Rightarrow> ('e, 'c, 't, 'i, 'a) SarifConverter21 \<Rightarrow> 'e \<Rightarrow>
   'l config \<Rightarrow> 'l Result list result" where
  "denote M this env (Running k arr) = forEach (exec_work M this env) k arr"
| "denote M this env (Returned arr) = Inr arr"
| "denote M this env (Raised e) = Inl e"

section \<open>Rule inversion and the step function\<close>

inductive_cases Returned_stepE [elim!]: "projector_step M this env (Returned arr) c"
inductive_cases Raised_stepE [elim!]: "projector_step M this env (Raised e) c"
inductive_cases Running_Nil_stepE [elim!]: "projector_step M this env (Running [] arr) c"
inductive_cases Running_stepE: "projector_step M this env (Running (w # k) arr) c"

lemma is_final_simps [simp]:
  "is_final (Running k arr) = False" "is_final (Returned arr) = True" "is_final (Raised e) = True"
  by (simp_all add: is_final_def)

lemma array_of_simps [simp]:
  "array_of (Running k arr) = arr" "array_of (Returned arr) = arr" "array_of (Raised e) = []"
  by (simp_all add: array_of_def)

lemma outcome_simps [simp]:
  "outcome (Inl e) = Raised e" "outcome (Inr arr) = Returned arr"
  by (simp_all add: outcome_def)

lemma projector_step_next:
  "projector_step M this env c c' \<Longrightarrow> projector_next M this env c = Some c'"
  by (induction rule: projector_step.induct) simp_all

lemma projector_next_step:
  "projector_next M this env c = Some c' \<Longrightarrow> projector_step M this env c c'"
  by (induction M this env c rule: projector_next.induct)
    (auto intro: projector_step.intros split: option.splits)

lemma projector_step_iff: "projector_step M this env c c' \<longleftrightarrow> projector_next M this env c = Some c'"
  by (blast intro: projector_step_next projector_next_step)

lemma projector_step_deterministic:
  "projector_step M this env c c1 \<Longrightarrow> projector_step M this env c c2 \<Longrightarrow> c1 = c2"
  by (simp add: projector_step_iff)

lemma projector_next_None_iff: "projector_next M this env c = None \<longleftrightarrow> is_final c"
  by (induction M this env c rule: projector_next.induct) (simp_all split: option.splits)

lemma projector_step_progress: "\<not> is_final c \<Longrightarrow> \<exists>c'. projector_step M this env c c'"
  using projector_next_None_iff [of M this env c] by (auto simp: projector_step_iff)

lemma is_final_no_step: "is_final c \<Longrightarrow> \<not> projector_step M this env c c'"
  by (simp add: projector_step_iff projector_next_None_iff [THEN iffD2])

section \<open>Termination\<close>

lemma projector_step_size:
  "projector_step M this env c c' \<Longrightarrow> config_size c' < config_size c"
  by (induction rule: projector_step.induct) (simp_all add: rules_size_def)

lemma projector_step_size_exact:
  "projector_step M this env c c' \<Longrightarrow> \<not> is_final c' \<or> c' = Returned (array_of c) \<Longrightarrow>
   config_size c = Suc (config_size c')"
  by (induction rule: projector_step.induct) (simp_all add: rules_size_def)

lemma wf_projector_step: "wf {(c', c). projector_step M this env c c'}"
  by (rule wf_subset [OF wf_measure [of config_size]]) (auto dest: projector_step_size)

lemma projector_steps_size:
  "(projector_step M this env ^^ n) c c' \<Longrightarrow> n + config_size c' \<le> config_size c"
proof (induction n arbitrary: c')
  case (Suc n)
  then obtain d where "(projector_step M this env ^^ n) c d" "projector_step M this env d c'"
    by auto
  with Suc.IH [of d] projector_step_size [of M this env d c'] show ?case by simp
qed simp

lemma projector_run_next:
  "projector_next M this env c = Some c' \<Longrightarrow>
   projector_run M this env (Suc fuel) c = projector_run M this env fuel c'"
  by simp

lemma projector_run_final [simp]: "is_final c \<Longrightarrow> projector_run M this env fuel c = c"
  by (cases fuel) (simp_all add: projector_next_None_iff [THEN iffD2])

lemma projector_run_steps:
  "(projector_step M this env)\<^sup>*\<^sup>* c (projector_run M this env fuel c)"
proof (induction fuel arbitrary: c)
  case (Suc fuel)
  show ?case
  proof (cases "projector_next M this env c")
    case (Some c')
    then have "projector_step M this env c c'" by (rule projector_next_step)
    with Suc [of c'] Some show ?thesis by (simp add: converse_rtranclp_into_rtranclp)
  qed simp
qed simp

lemma projector_run_enough:
  "config_size c \<le> fuel \<Longrightarrow> is_final (projector_run M this env fuel c)"
proof (induction fuel arbitrary: c)
  case 0
  then show ?case by (cases c) simp_all
next
  case (Suc fuel)
  show ?case
  proof (cases "projector_next M this env c")
    case None
    then have "is_final c" by (simp only: projector_next_None_iff)
    then show ?thesis by (simp only: projector_run_final)
  next
    case (Some c')
    then have "config_size c' < config_size c"
      by (intro projector_step_size projector_next_step)
    with Suc.prems have "config_size c' \<le> fuel" by simp
    with Some Suc.IH [of c'] show ?thesis by simp
  qed
qed

section \<open>Steps keep the meaning\<close>

lemma exec_loop_nodes_Nil [simp]: "exec_work M this env arr (loop_nodes r [] lvl) = Inr arr"
  by (simp add: convertRuleResult_def)

lemma exec_loop_nodes_all [simp]:
  "exec_work M this env arr (loop_nodes r (nodes r) lvl) = convertRuleResult M this arr r lvl env"
  by simp

declare exec_work.simps(3) [simp del]

lemma exec_loop_nodes_Cons:
  "exec_work M this env arr (loop_nodes r (node # ns) lvl) =
     (case ruleIdsToRuleIndices this of
        None \<Rightarrow> Inl (TypeError ''this.ruleIdsToRuleIndices'')
      | Some table \<Rightarrow>
          exec_work M this env
            (arr @ [result_entry table (getArtifactLocation M env) lvl r node])
            (loop_nodes r ns lvl))"
  by (simp add: exec_work.simps(3) convertRuleResult_def result_entry_def split: option.splits)

lemma projector_step_denote:
  "projector_step M this env c c' \<Longrightarrow> denote M this env c' = denote M this env c"
proof (induction rule: projector_step.induct)
  case (next_ruleResult ruleResult rs lvl k resultArray)
  show ?case
    by (cases "convertRuleResult M this resultArray ruleResult lvl env")
      (simp_all add: convertRuleResults_def)
next
  case (push table ruleResult node ns lvl k resultArray)
  then show ?case by (simp add: exec_loop_nodes_Cons)
next
  case (raise ruleResult node ns lvl k resultArray)
  then show ?case by (simp add: exec_loop_nodes_Cons)
qed (simp_all add: convertRuleResults_def convertRuleResultsWithoutNodes_eq)

lemma projector_steps_denote:
  "(projector_step M this env)\<^sup>*\<^sup>* c c' \<Longrightarrow> denote M this env c' = denote M this env c"
  by (induction rule: rtranclp_induct) (simp_all add: projector_step_denote)

lemma is_final_denote: "is_final c \<Longrightarrow> outcome (denote M this env c) = c"
  by (cases c) simp_all

lemma denote_init_config:
  "denote M this (getEnvironmentDataFromResults M res) (init_config res) =
     convertResults M this res props"
  by (simp add: init_config_def convertResults_def convertRuleResultsWithoutNodes_eq
      andThen_def split: sum.splits)

lemma projector_steps_final:
  assumes "(projector_step M this env)\<^sup>*\<^sup>* c c'" and "is_final c'"
  shows "c' = outcome (denote M this env c)"
  using projector_steps_denote [OF assms(1)] is_final_denote [OF assms(2), of M this env]
  by simp

lemma projector_run_outcome:
  assumes "config_size c \<le> fuel"
  shows "projector_run M this env fuel c = outcome (denote M this env c)"
  using projector_run_steps projector_run_enough [OF assms] by (rule projector_steps_final)

lemma is_final_steps: "(projector_step M this env)\<^sup>*\<^sup>* c c' \<Longrightarrow> is_final c \<Longrightarrow> c' = c"
  by (induction rule: rtranclp_induct) (auto dest: is_final_no_step)

section \<open>The array in a run\<close>

lemma projector_step_prefix:
  "projector_step M this env c c' \<Longrightarrow> (\<forall>e. c' \<noteq> Raised e) \<Longrightarrow>
   prefix (array_of c) (array_of c')"
  by (induction rule: projector_step.induct) simp_all

lemma denote_not_Inl_step:
  assumes "projector_step M this env c c'" and "denote M this env c = Inr out"
  shows "\<forall>e. c' \<noteq> Raised e"
  using projector_step_denote [OF assms(1)] assms(2) by auto

lemma projector_steps_prefix:
  assumes "(projector_step M this env)\<^sup>*\<^sup>* c c'" and "denote M this env c = Inr out"
  shows "prefix (array_of c) (array_of c')"
  using assms
proof (induction rule: rtranclp_induct)
  case (step d c')
  from step.hyps(1) step.prems have "denote M this env d = Inr out"
    by (simp add: projector_steps_denote)
  with step.hyps(2) have "prefix (array_of d) (array_of c')"
    by (intro projector_step_prefix denote_not_Inl_step)
  with step.IH [OF step.prems] show ?case by (rule prefix_order.trans)
qed simp

lemma projector_step_no_table:
  "projector_step M this env c c' \<Longrightarrow> ruleIdsToRuleIndices this = None \<Longrightarrow>
   array_of c = [] \<Longrightarrow> array_of c' = []"
  by (induction rule: projector_step.induct) simp_all

lemma projector_steps_no_table:
  "(projector_step M this env)\<^sup>*\<^sup>* c c' \<Longrightarrow> ruleIdsToRuleIndices this = None \<Longrightarrow>
   array_of c = [] \<Longrightarrow> array_of c' = []"
  by (induction rule: rtranclp_induct) (simp_all add: projector_step_no_table)

lemma projector_steps_to_outcome:
  "(projector_step M this env)\<^sup>*\<^sup>* c (outcome (denote M this env c))"
  using projector_run_steps [of M this env c "config_size c"]
  by (simp add: projector_run_outcome)

lemma rules_size_eq:
  "rules_size rs = 2 * length rs + sum_list (map (\<lambda>r. length (nodes r)) rs)"
  by (induction rs) (simp_all add: rules_size_def)

lemma config_size_init_config:
  "config_size (init_config res) \<le>
     9 + 2 * (length (bucket (violations res)) + length (bucket (passes res)) +
              length (bucket (incomplete res))) +
     length (bucket (inapplicable res)) + length (projected_nodes res)"
proof -
  have "work_size (call_convertRuleResults b lvl) \<le> 2 + 2 * length (bucket b) + node_count b"
    for b lvl
    by (cases b) (simp_all add: rules_size_eq)
  from this [of "violations res" level_error] this [of "passes res" level_pass]
    this [of "incomplete res" level_open]
  show ?thesis
    by (cases "inapplicable res") (simp_all add: init_config_def length_projected_nodes)
qed

section \<open>Properties\<close>

text \<open>
  C7. The machine computes \<open>convertResults\<close>. A run from the initial configuration ends
  in exactly one configuration: the result array that \<open>convertResults\<close> returns, or the
  exception that it raises; \<open>projector_run\<close> reaches it with every fuel that is at least
  the size of the initial configuration.
\<close>

theorem projector_machine_convertResults:
  fixes M :: "('r, 'e, 'l, 'c, 't, 'i, 'a) Imports" and c :: "'l config"
  shows "((projector_step M this (getEnvironmentDataFromResults M res))\<^sup>*\<^sup>* (init_config res) c
        \<and> is_final c
      \<longleftrightarrow> c = outcome (convertResults M this res props)) \<and>
    (config_size (init_config res :: 'l config) \<le> fuel \<longrightarrow>
       projector_run M this (getEnvironmentDataFromResults M res) fuel (init_config res) =
         outcome (convertResults M this res props))"
proof -
  let ?env = "getEnvironmentDataFromResults M res"
  have d: "denote M this ?env (init_config res) = convertResults M this res props"
    by (rule denote_init_config)
  have "is_final (outcome (convertResults M this res props))"
    by (cases "convertResults M this res props") simp_all
  with d projector_steps_to_outcome [of M this ?env "init_config res"]
    projector_steps_final [of M this ?env "init_config res" c]
  have "(projector_step M this ?env)\<^sup>*\<^sup>* (init_config res) c \<and> is_final c
      \<longleftrightarrow> c = outcome (convertResults M this res props)"
    by auto
  with d show ?thesis by (simp add: projector_run_outcome)
qed

theorem projector_machine_convertResults_witness:
  "(projector_step example_imports example_converter ())\<^sup>*\<^sup>* (init_config example_results)
     (Raised (TypeError ''this.ruleIdsToRuleIndices'')) \<and>
   map ruleId (array_of (projector_run example_imports
     (example_converter_with [''image-alt'' \<mapsto> 0, ''blink'' \<mapsto> 1]) () 40
     (init_config example_results))) = [''image-alt'', ''image-alt'']"
proof -
  have "(projector_step example_imports example_converter ())\<^sup>*\<^sup>* (init_config example_results)
      (Raised (TypeError ''this.ruleIdsToRuleIndices''))"
    using projector_machine_convertResults [where M = example_imports
        and c = "Raised (TypeError ''this.ruleIdsToRuleIndices'')" and this = example_converter
        and res = example_results and props = Map.empty]
    by (simp add: convertResults_None)
  moreover have "config_size (init_config example_results :: string config) \<le> 40"
    by (simp add: init_config_def rules_size_def)
  then have "projector_run example_imports
      (example_converter_with [''image-alt'' \<mapsto> 0, ''blink'' \<mapsto> 1]) () 40
      (init_config example_results) =
    outcome (convertResults example_imports
      (example_converter_with [''image-alt'' \<mapsto> 0, ''blink'' \<mapsto> 1]) example_results Map.empty)"
    using projector_machine_convertResults [where M = example_imports
        and this = "example_converter_with [''image-alt'' \<mapsto> 0, ''blink'' \<mapsto> 1]"
        and res = example_results and props = Map.empty and fuel = 40]
    by simp
  ultimately show ?thesis
    by (simp add: convertResults_Some [of _ "[''image-alt'' \<mapsto> 0, ''blink'' \<mapsto> 1]"])
qed

text \<open>
  C13. Every run of the machine ends. A step makes the configuration smaller, so the step
  relation is well founded and a run of \<open>n\<close> steps from a configuration of size \<open>m\<close> has
  \<open>n \<le> m\<close>; \<open>projector_run\<close> with the size of a configuration as fuel ends in a final
  configuration; a configuration that is not final has a step, and only one. The size of
  the initial configuration is linear in the numbers of rule results and nodes of the
  document.
\<close>

theorem projector_machine_terminates:
  "wf {(c', c). projector_step M this env c c'} \<and>
   ((projector_step M this env ^^ n) c c' \<longrightarrow> n + config_size c' \<le> config_size c) \<and>
   is_final (projector_run M this env (config_size c) c) \<and>
   (\<not> is_final c \<longrightarrow> (\<exists>!d. projector_step M this env c d)) \<and>
   config_size (init_config res :: 'l config) \<le>
     9 + 2 * (length (bucket (violations res)) + length (bucket (passes res)) +
              length (bucket (incomplete res))) +
     length (bucket (inapplicable res)) + length (projected_nodes res)"
proof (intro conjI impI)
  show "wf {(c', c). projector_step M this env c c'}" by (rule wf_projector_step)
  show "n + config_size c' \<le> config_size c" if "(projector_step M this env ^^ n) c c'"
    using that by (rule projector_steps_size)
  show "is_final (projector_run M this env (config_size c) c)"
    by (rule projector_run_enough) simp
  show "\<exists>!d. projector_step M this env c d" if "\<not> is_final c"
    using projector_step_progress [OF that] by (auto dest: projector_step_deterministic)
  show "config_size (init_config res :: 'l config) \<le>
     9 + 2 * (length (bucket (violations res)) + length (bucket (passes res)) +
              length (bucket (incomplete res))) +
     length (bucket (inapplicable res)) + length (projected_nodes res)"
    by (rule config_size_init_config)
qed

theorem projector_machine_terminates_witness:
  "is_final (projector_run example_imports example_converter () 16
     (init_config example_results) :: string config) \<and>
   config_size (init_config example_results :: string config) = 16"
proof -
  have "config_size (init_config example_results :: string config) = 16"
    by (simp add: init_config_def rules_size_def)
  moreover have "is_final (projector_run example_imports example_converter ()
      (config_size (init_config example_results :: string config)) (init_config example_results))"
    using projector_machine_terminates [where M = example_imports and env = "()"
        and c = "init_config example_results"]
    by blast
  ultimately show ?thesis by simp
qed

text \<open>
  C15. Entries are only added at the end of the array. In every configuration that a run
  from the initial configuration passes, the array is a prefix of the list that
  \<open>convertResults\<close> returns, when it returns one; on a converter without a table of rule
  indices the array stays empty.
\<close>

theorem projector_array_prefix:
  fixes M :: "('r, 'e, 'l, 'c, 't, 'i, 'a) Imports" and c :: "'l config"
  assumes "(projector_step M this (getEnvironmentDataFromResults M res))\<^sup>*\<^sup>* (init_config res) c"
  shows "(convertResults M this res props = Inr out \<longrightarrow> prefix (array_of c) out) \<and>
    (ruleIdsToRuleIndices this = None \<longrightarrow> array_of c = [])"
proof -
  let ?env = "getEnvironmentDataFromResults M res"
  have "prefix (array_of c) out" if out: "convertResults M this res props = Inr out"
  proof -
    from assms out have "denote M this ?env c = Inr out"
      by (simp add: projector_steps_denote denote_init_config [of M this res props])
    with projector_steps_to_outcome [of M this ?env c]
    show ?thesis using projector_steps_prefix [of M this ?env c "Returned out" out] by simp
  qed
  moreover have "array_of c = []" if "ruleIdsToRuleIndices this = None"
    using assms that by (rule projector_steps_no_table) (simp add: init_config_def)
  ultimately show ?thesis by blast
qed

theorem projector_array_prefix_witness:
  "map ruleId (array_of (projector_run example_imports
     (example_converter_with [''image-alt'' \<mapsto> 0]) () 5 (init_config example_results)
       :: string config)) = [''image-alt''] \<and>
   array_of (projector_run example_imports example_converter () 4
     (init_config example_results) :: string config) = []"
proof -
  let ?env = "getEnvironmentDataFromResults example_imports example_results"
  have "(projector_step example_imports example_converter ?env)\<^sup>*\<^sup>* (init_config example_results)
      (projector_run example_imports example_converter ?env 4 (init_config example_results)
        :: string config)"
    by (rule projector_run_steps)
  from projector_array_prefix [OF this]
  have "array_of (projector_run example_imports example_converter ?env 4
      (init_config example_results) :: string config) = []"
    by simp
  then show ?thesis by (simp add: init_config_def eval_nat_numeral)
qed

text \<open>
  C16. Every node is reported. On a converter with a table of rule indices, from every
  configuration that a run passes the run goes on to a configuration from which the
  entry of any given node of the violations, passes or incomplete results is in the
  array and stays there.
\<close>

theorem projector_reports_every_node:
  fixes M :: "('r, 'e, 'l, 'c, 't, 'i, 'a) Imports" and c :: "'l config"
  assumes "ruleIdsToRuleIndices this = Some table"
    and "(lvl, r, node) \<in> set (projected_nodes res)"
    and "(projector_step M this (getEnvironmentDataFromResults M res))\<^sup>*\<^sup>* (init_config res) c"
  shows "\<exists>c'. (projector_step M this (getEnvironmentDataFromResults M res))\<^sup>*\<^sup>* c c' \<and>
    (\<forall>c''. (projector_step M this (getEnvironmentDataFromResults M res))\<^sup>*\<^sup>* c' c'' \<longrightarrow>
       result_entry table (getArtifactLocation M (getEnvironmentDataFromResults M res))
         lvl r node \<in> set (array_of c''))"
proof -
  let ?env = "getEnvironmentDataFromResults M res"
  let ?out = "map (\<lambda>(lvl, r, node). result_entry table (getArtifactLocation M ?env) lvl r node)
    (projected_nodes res)"
  from assms(1,3) have "denote M this ?env c = Inr ?out"
    by (simp add: projector_steps_denote denote_init_config [of _ _ _ Map.empty]
        convertResults_Some_map)
  with projector_steps_to_outcome [of M this ?env c]
  have run: "(projector_step M this ?env)\<^sup>*\<^sup>* c (Returned ?out)" by simp
  have "c'' = Returned ?out" if "(projector_step M this ?env)\<^sup>*\<^sup>* (Returned ?out) c''"
    for c'' using that by (rule is_final_steps) simp
  moreover from assms(2) have "result_entry table (getArtifactLocation M ?env) lvl r node
      \<in> set ?out"
    by force
  ultimately have "\<forall>c''. (projector_step M this ?env)\<^sup>*\<^sup>* (Returned ?out) c'' \<longrightarrow>
      result_entry table (getArtifactLocation M ?env) lvl r node \<in> set (array_of c'')"
    by (metis array_of_simps(2))
  with run show ?thesis by blast
qed

theorem projector_reports_every_node_witness:
  "\<exists>c'. (projector_step example_imports (example_converter_with [''image-alt'' \<mapsto> 0]) ())\<^sup>*\<^sup>*
       (init_config example_results) c' \<and>
     result_entry [''image-alt'' \<mapsto> 0] ''https://example.com/'' level_error
       \<lparr>rule_id = ''image-alt'', tags = [''cat.text'', ''wcag111''], nodes = [example_node_a]\<rparr>
       example_node_a \<in> set (array_of c')"
proof -
  have tbl: "ruleIdsToRuleIndices (example_converter_with [''image-alt'' \<mapsto> 0]) =
      Some [''image-alt'' \<mapsto> 0]"
    by simp
  have mem: "(level_error, \<lparr>rule_id = ''image-alt'', tags = [''cat.text'', ''wcag111''],
      nodes = [example_node_a]\<rparr>, example_node_a) \<in> set (projected_nodes example_results)"
    by (simp add: projected_nodes_def)
  from projector_reports_every_node [where M = example_imports, OF tbl mem rtranclp.rtrancl_refl]
  show ?thesis by auto
qed

end
