(* ===== verification/Log_Conformance.thy ===== *)
theory Log_Conformance
  imports Run_Assembler Projector_Machine
begin

text \<open>
  What a consumer may rely on in a returned log, as predicates on the output records:
  the cross references of the specification's data model (a result refers to a rule of
  its run by index and id, a rule refers to taxa of the run's taxonomy by index, rules
  and taxa carry their own positions) and the shape of the parts that
  \<open>sarif-converter-21.ts\<close> writes (one run, one artifact, one taxonomy, at least one
  location per result and one logical location per location). The predicates are
  functions to \<open>bool\<close> over the lists of the log, so they evaluate on a concrete log. The
  theorems show that every log that \<open>convert\<close> returns conforms, and that every step of
  the projector machine keeps the entries of the array conforming. That invariant needs
  to know where the rule results of the open control points come from, which
  \<open>config_inv\<close> adds.
\<close>

section \<open>Definitions\<close>

definition location_conforms :: "'l Location \<Rightarrow> bool" where
  "location_conforms l \<longleftrightarrow>
     logicalLocations l \<noteq> [] \<and> list_all (\<lambda>ll. kind ll = ''element'') (logicalLocations l)"

definition result_conforms :: "ReportingDescriptor list \<Rightarrow> 'l Result \<Rightarrow> bool" where
  "result_conforms rs e \<longleftrightarrow>
     (case ruleIndex e of
        None \<Rightarrow> False
      | Some i \<Rightarrow> i < length rs \<and> descriptor_id (rs ! i) = ruleId e) \<and>
     locations e \<noteq> [] \<and> list_all location_conforms (locations e)"

definition taxonomy_conforms :: "Taxonomy \<Rightarrow> bool" where
  "taxonomy_conforms tx \<longleftrightarrow>
     map taxon_index (taxa tx) = [0..<length (taxa tx)] \<and> distinct (map taxon_id (taxa tx))"

definition rule_conforms :: "Taxonomy list \<Rightarrow> ReportingDescriptor \<Rightarrow> bool" where
  "rule_conforms txs r \<longleftrightarrow>
     list_all (\<lambda>tx. list_all (\<lambda>i. i < length (taxa tx)) (taxa_indices r)) txs"

definition run_conforms :: "('c, 't, 'i, 'a, 'l) Run \<Rightarrow> bool" where
  "run_conforms run \<longleftrightarrow>
     rules_wf (rules (driver (tool run))) \<and>
     list_all (rule_conforms (taxonomies run)) (rules (driver (tool run))) \<and>
     list_all (result_conforms (rules (driver (tool run)))) (results run) \<and>
     length (taxonomies run) = 1 \<and> list_all taxonomy_conforms (taxonomies run) \<and>
     length (artifacts run) = 1"

definition log_conforms :: "string \<Rightarrow> ('c, 't, 'i, 'a, 'l) Log \<Rightarrow> bool" where
  "log_conforms v log \<longleftrightarrow>
     version log = v \<and> length (runs log) = 1 \<and> list_all run_conforms (runs log)"

text \<open>
  An open control point works on rule results of the set \<open>R\<close>; in a configuration all
  open control points do, and all entries of the array conform to the rule list.
\<close>

fun work_within :: "DecoratedAxeResult set \<Rightarrow> work \<Rightarrow> bool" where
  "work_within R (call_convertRuleResults b lvl) \<longleftrightarrow> set (bucket b) \<subseteq> R"
| "work_within R (loop_ruleResults rs lvl) \<longleftrightarrow> set rs \<subseteq> R"
| "work_within R (loop_nodes r ns lvl) \<longleftrightarrow> r \<in> R"
| "work_within R (call_convertRuleResultsWithoutNodes b) \<longleftrightarrow> True"
| "work_within R (loop_withoutNodes rs) \<longleftrightarrow> True"

fun config_inv :: "DecoratedAxeResult set \<Rightarrow> ReportingDescriptor list \<Rightarrow> 'l config \<Rightarrow> bool" where
  "config_inv R rs (Running k arr) \<longleftrightarrow>
     list_all (work_within R) k \<and> list_all (result_conforms rs) arr"
| "config_inv R rs (Returned arr) \<longleftrightarrow> list_all (result_conforms rs) arr"
| "config_inv R rs (Raised e) \<longleftrightarrow> True"

section \<open>Conformance of the parts\<close>

lemma location_conforms_entry [simp]:
  "list_all location_conforms (locations (result_entry table loc lvl r node))"
  by (simp add: location_conforms_def)

lemma result_conforms_entry:
  assumes "r \<in> set (all_rule_results res)"
  shows "result_conforms (getRulePropertiesFromResults (new_ResultToRuleConverter res tgs tbl))
    (result_entry (rule_index_table
       (getRulePropertiesFromResults (new_ResultToRuleConverter res tgs tbl))) loc lvl r node)"
  using rule_index_table_covers [OF assms, of tgs tbl]
  by (auto simp: result_conforms_def location_conforms_def)

lemma taxonomy_conforms_getWcagTaxonomy:
  "distinct tgs \<Longrightarrow> taxonomy_conforms (getWcagTaxonomy tgs tbl)"
  by (simp add: taxonomy_conforms_def) (rule nth_equalityI, simp_all)

lemma rule_conforms_rules:
  assumes "indexer_wf ix" and "r \<in> set (rules_of res ix)"
  shows "rule_conforms [getWcagTaxonomy (getSortedWcagTags ix) tbl] r"
  using rules_taxa_indices_bound [OF assms] by (simp add: rule_conforms_def list_all_iff)

lemma run_conforms_assemble:
  assumes "indexer_wf (wcagLinkDataIndexer this)"
    and "list_all (result_conforms (rules_of res (wcagLinkDataIndexer this))) out"
  shows "run_conforms (assemble M this res out)"
proof -
  from assms(1) have "distinct (getSortedWcagTags (wcagLinkDataIndexer this))"
    by (simp add: indexer_wf_def getSortedWcagTags_def)
  with assms(2) rule_conforms_rules [OF assms(1)] show ?thesis
    by (auto simp: run_conforms_def taxonomy_conforms_getWcagTaxonomy list_all_iff)
qed

text \<open>Pushing a conforming entry keeps a run conforming, as does any change of its
  properties.\<close>

lemma run_conforms_push:
  "run_conforms run \<Longrightarrow> result_conforms (rules (driver (tool run))) e \<Longrightarrow>
   run_conforms (run\<lparr>results := results run @ [e]\<rparr>)"
  by (simp add: run_conforms_def)

lemma run_conforms_properties:
  "run_conforms (run\<lparr>properties := p\<rparr>) = run_conforms run"
  by (simp add: run_conforms_def)

lemma result_conforms_projected:
  assumes "(lvl, r, node) \<in> set (projected_nodes res)"
  shows "result_conforms (rules_of res ix)
    (result_entry (rule_index_table (rules_of res ix)) loc lvl r node)"
  using assms by (intro result_conforms_entry) (simp add: projected_nodes_all_rule_results)

section \<open>The invariant of the projector machine\<close>

lemma config_inv_init:
  "config_inv (set (all_rule_results res)) rs (init_config res)"
  by (auto simp: init_config_def all_rule_results_def)

lemma config_inv_array:
  "config_inv R rs c \<Longrightarrow> list_all (result_conforms rs) (array_of c)"
  by (cases c) simp_all

lemma projector_step_config_inv:
  assumes "projector_step M this env c c'"
    and "config_inv (set (all_rule_results res)) (rules_of res ix) c"
    and "ruleIdsToRuleIndices this = None \<or>
      ruleIdsToRuleIndices this = Some (rule_index_table (rules_of res ix))"
  shows "config_inv (set (all_rule_results res)) (rules_of res ix) c'"
  using assms
proof (induction rule: projector_step.induct)
  case (push table ruleResult node ns lvl k resultArray)
  then show ?case by (auto simp: result_conforms_entry)
qed auto

lemma projector_steps_config_inv:
  assumes "(projector_step M this env)\<^sup>*\<^sup>* c c'"
    and "config_inv (set (all_rule_results res)) (rules_of res ix) c"
    and "ruleIdsToRuleIndices this = None \<or>
      ruleIdsToRuleIndices this = Some (rule_index_table (rules_of res ix))"
  shows "config_inv (set (all_rule_results res)) (rules_of res ix) c'"
  using assms by (induction rule: rtranclp_induct) (auto intro: projector_step_config_inv)

section \<open>Properties\<close>

text \<open>
  C8. Every returned log conforms. When the converter's indexer is the one of its table
  of guideline tags and its table of rule indices is undefined or the position table of
  the rule list of the same document, a log that \<open>convert\<close> returns has the version
  literal and one conforming run: rules and taxa carry their positions, every result
  refers to its rule by index and id and has a location with a logical location of kind
  \<open>element\<close>, and every taxonomy index of a rule is a position of the run's taxonomy.
\<close>

theorem convert_log_conforms:
  assumes "converter_wf this"
    and "ruleIdsToRuleIndices this = None \<or> ruleIdsToRuleIndices this =
      Some (rule_index_table (rules_of res (wcagLinkDataIndexer this)))"
    and "convert M this res options = Inr log"
  shows "log_conforms (SarifLogVersion21_version M) log"
proof -
  let ?rules = "rules_of res (wcagLinkDataIndexer this)"
  from assms(3) obtain out where out: "convertResults M this res Map.empty = Inr out"
    and log: "runs log = [assemble M this res out]" "version log = SarifLogVersion21_version M"
    by (rule convert_Inr_runs)
  have "list_all (result_conforms ?rules) out"
  proof (cases "ruleIdsToRuleIndices this")
    case None
    with out show ?thesis by (simp add: convertResults_None split: if_splits)
  next
    case (Some table)
    with assms(2) have "table = rule_index_table ?rules" by simp
    with out Some show ?thesis
      by (auto simp: convertResults_Some_map list_all_iff result_conforms_projected)
  qed
  with converter_wf_indexer [OF assms(1)] have "run_conforms (assemble M this res out)"
    by (rule run_conforms_assemble)
  with log show ?thesis by (simp add: log_conforms_def)
qed

theorem convert_log_conforms_witness:
  "log_conforms ''2.1.0'' (projr (convert example_imports
      (example_converter_with (rule_index_table
         (rules_of example_results (wcagLinkDataIndexer example_converter))))
      example_results None))"
proof -
  let ?conv = "example_converter_with (rule_index_table
      (rules_of example_results (wcagLinkDataIndexer example_converter)))"
  obtain log where log: "convert example_imports ?conv example_results None = Inr log"
    by (simp add: convert_Some [of _ "rule_index_table
        (rules_of example_results (wcagLinkDataIndexer example_converter))"])
  have "converter_wf ?conv" by simp
  from convert_log_conforms [OF this _ log] log show ?thesis by simp
qed

text \<open>
  C14. Every step keeps the array conforming. On a converter whose table of rule indices
  is undefined or the position table of the document's rule list, in every
  configuration that a run from the initial configuration passes each entry of the array
  refers to a rule of that list by index and id and has a location with a logical
  location, and every open control point works on a rule result of the document.
\<close>

theorem projector_keeps_conformance:
  fixes M :: "('r, 'e, 'l, 'c, 't, 'i, 'a) Imports" and c :: "'l config"
  assumes "ruleIdsToRuleIndices this = None \<or>
      ruleIdsToRuleIndices this = Some (rule_index_table (rules_of res ix))"
    and "(projector_step M this env)\<^sup>*\<^sup>* (init_config res) c"
  shows "config_inv (set (all_rule_results res)) (rules_of res ix) c \<and>
    list_all (result_conforms (rules_of res ix)) (array_of c)"
proof -
  from assms(2) config_inv_init assms(1)
  have "config_inv (set (all_rule_results res)) (rules_of res ix) c"
    by (rule projector_steps_config_inv)
  then show ?thesis by (simp add: config_inv_array)
qed

theorem projector_keeps_conformance_witness:
  "list_all (result_conforms (rules_of example_results (wcagLinkDataIndexer example_converter)))
     (array_of (projector_run example_imports
        (example_converter_with (rule_index_table
           (rules_of example_results (wcagLinkDataIndexer example_converter))))
        () 8 (init_config example_results) :: string config))"
proof -
  let ?conv = "example_converter_with (rule_index_table
      (rules_of example_results (wcagLinkDataIndexer example_converter)))"
  have "ruleIdsToRuleIndices ?conv = None \<or> ruleIdsToRuleIndices ?conv =
      Some (rule_index_table (rules_of example_results (wcagLinkDataIndexer example_converter)))"
    by simp
  moreover have "(projector_step example_imports ?conv ())\<^sup>*\<^sup>* (init_config example_results)
      (projector_run example_imports ?conv () 8 (init_config example_results) :: string config)"
    by (rule projector_run_steps)
  ultimately show ?thesis by (rule projector_keeps_conformance [THEN conjunct2])
qed

end
