(* ===== verification/Conversion_Contract.thy ===== *)
theory Conversion_Contract
  imports Run_Assembler
begin

text \<open>
  The contract of the conversion as the specification states it, beside the code. The
  specification's indexer (section 4.1) orders the guideline tags that are observed in
  the document and known to the static table; the indexer of \<open>sarif-converter-21.ts\<close> is
  constructed once from the static table alone. The specified run (sections 4.5 and 6)
  carries the rule indices of the linker in its results and the supplied options as
  run properties. This theory defines the specified log, the restriction of a log to
  a list of tags (the abstraction from the converter's output to the specified one),
  and proves how the two are related: the restricted output of \<open>convert\<close> is the
  specified log whenever the converter's table of rule indices agrees with the linker
  and no run property is asked for, no reference of a rule to a taxon is lost by the
  restriction, and \<open>convert\<close> returns the specified log itself exactly when, in
  addition, every tag of the static table is observed in the document.

  Where the specification leaves a choice the definitions take the one closest to the
  code: a run without supplied options has no \<open>properties\<close> member, a document without
  tags has one taxonomy without taxa, and the \<open>conversion\<close> member is kept.
\<close>

section \<open>Definitions\<close>

subsection \<open>The specified indexer\<close>

text \<open>The guideline tags of all rule results, over the four buckets.\<close>

definition observed_tags :: "'r DecoratedAxeResults_scheme \<Rightarrow> string list" where
  "observed_tags res = concat (map tags (all_rule_results res))"

definition contract_sorted_tags ::
  "(string \<times> WCAGLinkData) list \<Rightarrow> 'r DecoratedAxeResults_scheme \<Rightarrow> string list" where
  "contract_sorted_tags wcagConfiguration res =
     sort (remdups (filter (\<lambda>t. t \<in> set (map fst wcagConfiguration)) (observed_tags res)))"

definition contract_indexer ::
  "(string \<times> WCAGLinkData) list \<Rightarrow> 'r DecoratedAxeResults_scheme \<Rightarrow> WCAGLinkDataIndexer" where
  "contract_indexer wcagConfiguration res =
     (let sortedTags = contract_sorted_tags wcagConfiguration res
      in \<lparr>sortedWcagTags = sortedTags, wcagTagsToTaxaIndices = index_map sortedTags\<rparr>)"

text \<open>The converter with the specified indexer in the place of its own.\<close>

definition with_contract_indexer ::
  "('e, 'c, 't, 'i, 'a) SarifConverter21 \<Rightarrow> 'r DecoratedAxeResults_scheme \<Rightarrow>
   ('e, 'c, 't, 'i, 'a) SarifConverter21" where
  "with_contract_indexer this res =
     this\<lparr>wcagLinkDataIndexer := contract_indexer (tagsToWcagLinkData this) res\<rparr>"

subsection \<open>The specified run\<close>

text \<open>
  Run properties: the supplied ones of \<open>scanName\<close> and \<open>testCaseId\<close>; no member when
  neither is supplied.
\<close>

definition contract_properties :: "ConverterOptions option \<Rightarrow> (string \<rightharpoonup> string) option" where
  "contract_properties options =
     (case options of
        None \<Rightarrow> None
      | Some opts \<Rightarrow>
          if scanName opts = None \<and> testCaseId opts = None then None
          else Some
            ((case scanName opts of None \<Rightarrow> Map.empty | Some n \<Rightarrow> [''scanName'' \<mapsto> n]) ++
             (case testCaseId opts of None \<Rightarrow> Map.empty | Some t \<Rightarrow> [''testCaseId'' \<mapsto> t])))"

definition contract_run ::
  "('r, 'e, 'l, 'c, 't, 'i, 'a) Imports \<Rightarrow> ('e, 'c, 't, 'i, 'a) SarifConverter21 \<Rightarrow>
   'r DecoratedAxeResults_scheme \<Rightarrow> ConverterOptions option \<Rightarrow> ('c, 't, 'i, 'a, 'l) Run" where
  "contract_run M this res options =
     (let indexer = contract_indexer (tagsToWcagLinkData this) res;
          ruleList = rules_of res indexer;
          table = rule_index_table ruleList;
          loc = getArtifactLocation M (getEnvironmentDataFromResults M res)
      in \<lparr>conversion = getConverterToolProperties this (),
          tool = \<lparr>driver = (getAxeProperties this ())\<lparr>rules := ruleList\<rparr>\<rparr>,
          invocations = invocationConverter this (getEnvironmentDataFromResults M res),
          artifacts = [getArtifactProperties this (getEnvironmentDataFromResults M res)],
          results =
            project table loc level_error (bucket (violations res)) @
            project table loc level_pass (bucket (passes res)) @
            project table loc level_open (bucket (incomplete res)),
          taxonomies = [getWcagTaxonomy (getSortedWcagTags indexer) (tagsToWcagLinkData this)],
          properties = contract_properties options\<rparr>)"

definition contract_convert ::
  "('r, 'e, 'l, 'c, 't, 'i, 'a) Imports \<Rightarrow> ('e, 'c, 't, 'i, 'a) SarifConverter21 \<Rightarrow>
   'r DecoratedAxeResults_scheme \<Rightarrow> ConverterOptions option \<Rightarrow> ('c, 't, 'i, 'a, 'l) Log" where
  "contract_convert M this res options =
     \<lparr>version = SarifLogVersion21_version M, runs = [contract_run M this res options]\<rparr>"

text \<open>
  What the result projector needs of \<open>this.ruleIdsToRuleIndices\<close> to write the
  specified entries: without a table there must be no node to convert; a table must
  give every converted rule result the position of its rule in the rule list.
\<close>

definition table_agrees :: "'r DecoratedAxeResults_scheme \<Rightarrow> (string \<rightharpoonup> nat) option \<Rightarrow> bool" where
  "table_agrees res t =
     (case t of
        None \<Rightarrow> projected_nodes res = []
      | Some table \<Rightarrow>
          list_all (\<lambda>(lvl, r, node). table (rule_id r) = index_map (rule_ids_of res) (rule_id r))
            (projected_nodes res))"

subsection \<open>Restriction of a log to a list of tags\<close>

text \<open>
  The taxa whose tags are kept, renumbered; a rule's reference to a taxon follows the
  taxon's tag to its new position and is dropped when the tag is not kept.
\<close>

definition reindex :: "Taxonomy \<Rightarrow> string list \<Rightarrow> nat \<Rightarrow> nat option" where
  "reindex T keep i =
     (if i < length (taxa T) then index_map keep (taxon_id (taxa T ! i)) else None)"

definition restrict_rule ::
  "Taxonomy \<Rightarrow> string list \<Rightarrow> ReportingDescriptor \<Rightarrow> ReportingDescriptor" where
  "restrict_rule T keep r =
     r\<lparr>taxa_indices := List.map_filter (reindex T keep) (taxa_indices r)\<rparr>"

definition restrict_taxonomy :: "string list \<Rightarrow> Taxonomy \<Rightarrow> Taxonomy" where
  "restrict_taxonomy keep T =
     \<lparr>taxa = map (\<lambda>(i, x). x\<lparr>taxon_index := i\<rparr>)
        (enumerate 0 (filter (\<lambda>x. taxon_id x \<in> set keep) (taxa T)))\<rparr>"

definition restrict_run ::
  "string list \<Rightarrow> ('c, 't, 'i, 'a, 'l) Run \<Rightarrow> ('c, 't, 'i, 'a, 'l) Run" where
  "restrict_run keep run =
     (case taxonomies run of
        [] \<Rightarrow> run
      | T # Ts \<Rightarrow>
          run\<lparr>tool := \<lparr>driver = (driver (tool run))
                 \<lparr>rules := map (restrict_rule T keep) (rules (driver (tool run)))\<rparr>\<rparr>,
              taxonomies := map (restrict_taxonomy keep) (T # Ts)\<rparr>)"

definition restrict_log ::
  "string list \<Rightarrow> ('c, 't, 'i, 'a, 'l) Log \<Rightarrow> ('c, 't, 'i, 'a, 'l) Log" where
  "restrict_log keep log = log\<lparr>runs := map (restrict_run keep) (runs log)\<rparr>"

section \<open>The specified indexer\<close>

lemma set_contract_sorted_tags:
  "set (contract_sorted_tags tbl res) = set (observed_tags res) \<inter> fst ` set tbl"
  by (auto simp: contract_sorted_tags_def)

lemma sorted_contract_sorted_tags [simp]:
  "sorted (contract_sorted_tags tbl res)" "distinct (contract_sorted_tags tbl res)"
  by (simp_all add: contract_sorted_tags_def)

lemma indexer_wf_contract [simp, intro]: "indexer_wf (contract_indexer tbl res)"
  by (simp add: indexer_wf_def contract_indexer_def)

lemma contract_sorted_tags_subset:
  "set (contract_sorted_tags tbl res) \<subseteq> set (sort (remdups (map fst tbl)))"
  by (auto simp: set_contract_sorted_tags)

text \<open>The specified tags are the converter's tags that are observed, in the same order.\<close>

lemma contract_sorted_tags_filter:
  "filter (\<lambda>t. t \<in> set (contract_sorted_tags tbl res)) (sort (remdups (map fst tbl))) =
     contract_sorted_tags tbl res"
proof (rule sorted_distinct_set_unique)
  show "sorted (filter (\<lambda>t. t \<in> set (contract_sorted_tags tbl res)) (sort (remdups (map fst tbl))))"
    by (simp add: sorted_wrt_filter)
qed (auto simp: set_contract_sorted_tags)

lemma contract_sorted_tags_subseq:
  "subseq (contract_sorted_tags tbl res) (sort (remdups (map fst tbl)))"
  using subseq_filter_left [of "\<lambda>t. t \<in> set (contract_sorted_tags tbl res)"
      "sort (remdups (map fst tbl))"]
  by (simp only: contract_sorted_tags_filter)

lemma contract_sorted_tags_eq_iff:
  "contract_sorted_tags tbl res = sort (remdups (map fst tbl)) \<longleftrightarrow>
     fst ` set tbl \<subseteq> set (observed_tags res)"
proof
  assume "contract_sorted_tags tbl res = sort (remdups (map fst tbl))"
  then have "set (contract_sorted_tags tbl res) = fst ` set tbl" by simp
  then show "fst ` set tbl \<subseteq> set (observed_tags res)"
    by (auto simp: set_contract_sorted_tags)
next
  assume "fst ` set tbl \<subseteq> set (observed_tags res)"
  then have "set (contract_sorted_tags tbl res) = set (sort (remdups (map fst tbl)))"
    by (auto simp: set_contract_sorted_tags)
  then show "contract_sorted_tags tbl res = sort (remdups (map fst tbl))"
    by (intro sorted_distinct_set_unique) simp_all
qed

lemma with_contract_indexer_id:
  assumes "converter_wf this"
    and "fst ` set (tagsToWcagLinkData this) \<subseteq> set (observed_tags res)"
  shows "with_contract_indexer this res = this"
  using assms contract_sorted_tags_eq_iff [of "tagsToWcagLinkData this" res]
  by (simp add: with_contract_indexer_def converter_wf_def contract_indexer_def
      new_WCAGLinkDataIndexer_def)

lemma tags_of_rule_observed: "set (tags_of_rule res rid) \<subseteq> set (observed_tags res)"
proof (cases "find (\<lambda>r. rule_id r = rid) (all_rule_results res)")
  case None
  then show ?thesis by (simp add: tags_of_rule_def)
next
  case (Some r)
  then have "r \<in> set (all_rule_results res)"
    by (auto simp: find_Some_iff)
  with Some show ?thesis
    by (auto simp: tags_of_rule_def observed_tags_def)
qed

section \<open>Restriction of the converter's output\<close>

lemma reindex_getWcagTaxonomy:
  "reindex (getWcagTaxonomy tgs tbl) keep i =
     (if i < length tgs then index_map keep (tgs ! i) else None)"
  by (simp add: reindex_def)

lemma restrict_taxa_indices:
  assumes "set keep \<subseteq> set tgs"
  shows "List.map_filter (reindex (getWcagTaxonomy tgs tbl) keep)
      (taxa_indices_of tgs (index_map tgs) ts) =
    taxa_indices_of keep (index_map keep) ts"
proof (induction ts)
  case Nil
  show ?case by (simp add: taxa_indices_of_def map_filter_simps)
next
  case (Cons t ts)
  show ?case
  proof (cases "t \<in> set tgs")
    case True
    from index_map_mem [OF this] obtain i
      where i: "index_map tgs t = Some i" "i < length tgs" "tgs ! i = t" by blast
    show ?thesis
    proof (cases "t \<in> set keep")
      case in_keep: True
      from index_map_mem [OF this] obtain j where "index_map keep t = Some j" by blast
      with True in_keep i Cons show ?thesis
        by (simp add: taxa_indices_of_def map_filter_simps reindex_getWcagTaxonomy)
    next
      case not_in_keep: False
      then have "index_map keep t = None" by (simp add: index_map_None_iff)
      with True not_in_keep i Cons show ?thesis
        by (simp add: taxa_indices_of_def map_filter_simps reindex_getWcagTaxonomy)
    qed
  next
    case False
    with assms have "t \<notin> set keep" by blast
    with False Cons show ?thesis
      by (simp add: taxa_indices_of_def map_filter_simps)
  qed
qed

lemma restrict_rules:
  assumes "set keep \<subseteq> set tgs"
  shows "map (restrict_rule (getWcagTaxonomy tgs tbl) keep)
      (getRulePropertiesFromResults (new_ResultToRuleConverter res tgs (index_map tgs))) =
    getRulePropertiesFromResults (new_ResultToRuleConverter res keep (index_map keep))"
  by (rule nth_equalityI)
    (simp_all add: nth_rules restrict_rule_def restrict_taxa_indices [OF assms])

lemma restrict_taxa:
  "map (\<lambda>(i, x). x\<lparr>taxon_index := i\<rparr>)
     (enumerate n (filter (\<lambda>x. taxon_id x \<in> S)
        (map (\<lambda>(i, tag). taxon_of tbl i tag) (enumerate m tgs)))) =
   map (\<lambda>(i, tag). taxon_of tbl i tag) (enumerate n (filter (\<lambda>t. t \<in> S) tgs))"
  by (induction tgs arbitrary: n m) (simp_all add: taxon_of_def)

lemma restrict_taxonomy_getWcagTaxonomy:
  "restrict_taxonomy keep (getWcagTaxonomy tgs tbl) =
     getWcagTaxonomy (filter (\<lambda>t. t \<in> set keep) tgs) tbl"
  by (simp add: restrict_taxonomy_def getWcagTaxonomy_def restrict_taxa)

lemma convertResults_indexer [simp]:
  "convertResults M (this\<lparr>wcagLinkDataIndexer := ix\<rparr>) res props = convertResults M this res props"
  by (cases "ruleIdsToRuleIndices this") (simp_all add: convertResults_None convertResults_Some)

lemma restrict_run_assemble:
  assumes "converter_wf this"
  shows "restrict_run (contract_sorted_tags (tagsToWcagLinkData this) res) (assemble M this res out) =
    assemble M (with_contract_indexer this res) res out"
  using assms
  by (simp add: restrict_run_def assemble_def with_contract_indexer_def converter_wf_def
      getSortedWcagTags_def getWcagTagsToTaxaIndices_def contract_indexer_def
      restrict_rules [OF contract_sorted_tags_subset] restrict_taxonomy_getWcagTaxonomy
      contract_sorted_tags_filter)

text \<open>
  Restriction commutes with the conversion: restricting the converter's log to the
  specified tags gives the log of the converter that carries the specified indexer;
  an exception is the same for both.
\<close>

lemma convert_with_contract_indexer:
  assumes "converter_wf this"
  shows "convert M (with_contract_indexer this res) res options =
    map_sum id (restrict_log (contract_sorted_tags (tagsToWcagLinkData this) res))
      (convert M this res options)"
proof (cases "convertResults M this res Map.empty")
  case (Inl e)
  then show ?thesis
    by (simp add: convert_eq [of _ _ _ _ Map.empty] with_contract_indexer_def)
next
  case (Inr out)
  then show ?thesis
    using restrict_run_assemble [OF assms, of res M out]
    by (simp add: convert_eq [of _ _ _ _ Map.empty] with_contract_indexer_def restrict_log_def)
qed

lemma rule_reference_kept:
  assumes "converter_wf this"
    and "r \<in> set (rules_of res (wcagLinkDataIndexer this))"
    and "i \<in> set (taxa_indices r)"
  shows "\<exists>j. reindex (getWcagTaxonomy (getSortedWcagTags (wcagLinkDataIndexer this))
          (tagsToWcagLinkData this)) (contract_sorted_tags (tagsToWcagLinkData this) res) i = Some j
      \<and> j < length (contract_sorted_tags (tagsToWcagLinkData this) res)
      \<and> contract_sorted_tags (tagsToWcagLinkData this) res ! j =
          getSortedWcagTags (wcagLinkDataIndexer this) ! i"
proof -
  let ?tgs = "getSortedWcagTags (wcagLinkDataIndexer this)"
  let ?keep = "contract_sorted_tags (tagsToWcagLinkData this) res"
  from assms(1) have tgs: "?tgs = sort (remdups (map fst (tagsToWcagLinkData this)))"
      "getWcagTagsToTaxaIndices (wcagLinkDataIndexer this) = index_map ?tgs"
    by (simp_all add: converter_wf_def getSortedWcagTags_def getWcagTagsToTaxaIndices_def)
  from assms(2) obtain k where k: "k < length (rule_ids_of res)"
      "r = rules_of res (wcagLinkDataIndexer this) ! k"
    by (auto simp: in_set_conv_nth)
  with assms(3) have "i \<in> set (taxa_indices_of ?tgs (index_map ?tgs)
      (tags_of_rule res (rule_ids_of res ! k)))"
    by (simp add: nth_rules tgs(2))
  from taxa_indices_of_bound [OF refl this]
  have i: "i < length ?tgs" "?tgs ! i \<in> set (tags_of_rule res (rule_ids_of res ! k))"
    by simp_all
  with tags_of_rule_observed have "?tgs ! i \<in> set (observed_tags res)" by blast
  moreover from i(1) have "?tgs ! i \<in> set ?tgs" by simp
  ultimately have "?tgs ! i \<in> set ?keep"
    by (simp add: set_contract_sorted_tags tgs(1))
  from index_map_mem [OF this] i(1) show ?thesis
    by (auto simp: reindex_getWcagTaxonomy)
qed

section \<open>The specified run\<close>

lemma rule_index_table_rules [simp]:
  "rule_index_table (getRulePropertiesFromResults (new_ResultToRuleConverter res tgs tbl)) =
     index_map (rule_ids_of res)"
  by (simp add: rule_index_table_def)

lemma contract_run_eq:
  "contract_run M this res options =
     (assemble M (with_contract_indexer this res) res
        (map (\<lambda>(lvl, r, node). result_entry (index_map (rule_ids_of res))
            (getArtifactLocation M (getEnvironmentDataFromResults M res)) lvl r node)
          (projected_nodes res)))
     \<lparr>properties := contract_properties options\<rparr>"
  by (simp add: contract_run_def assemble_def with_contract_indexer_def projected_nodes_def
      project_eq_map)

lemma contract_properties_None_iff:
  "contract_properties options = None \<longleftrightarrow>
     \<not> wants_testCaseId options \<and> (options = None \<or> scanName (the options) = None)"
  by (cases options) (auto simp: contract_properties_def)

lemma assemble_properties_None [simp]:
  "(assemble M this res out)\<lparr>properties := None\<rparr> = assemble M this res out"
  by (simp add: assemble_def)

lemma projected_nodes_Nil_iff:
  "projected_nodes res = [] \<longleftrightarrow>
     \<not> (has_nodes (violations res) \<or> has_nodes (passes res) \<or> has_nodes (incomplete res))"
proof -
  have "projected_nodes res = [] \<longleftrightarrow> length (projected_nodes res) = 0"
    by simp
  also have "\<dots> \<longleftrightarrow>
      node_count (violations res) + node_count (passes res) + node_count (incomplete res) = 0"
    by (simp only: length_projected_nodes)
  finally show ?thesis
    by (simp add: has_nodes_iff_node_count)
qed

lemma map_result_entry_eq_iff:
  "map (\<lambda>(lvl, r, node). result_entry t loc lvl r node) xs =
   map (\<lambda>(lvl, r, node). result_entry t' loc lvl r node) xs \<longleftrightarrow>
     list_all (\<lambda>(lvl, r, node). t (rule_id r) = t' (rule_id r)) xs"
proof (induction xs)
  case Nil
  show ?case by simp
next
  case (Cons x xs)
  obtain lvl r node where x: "x = (lvl, r, node)" by (cases x)
  have "result_entry t loc lvl r node = result_entry t' loc lvl r node \<longleftrightarrow>
      t (rule_id r) = t' (rule_id r)"
    by (auto simp: result_entry_def)
  with Cons x show ?case by simp
qed

text \<open>The projector writes the specified entries exactly when the table agrees.\<close>

lemma convertResults_contract_iff:
  "convertResults M this res props =
     Inr (map (\<lambda>(lvl, r, node). result_entry (index_map (rule_ids_of res))
            (getArtifactLocation M (getEnvironmentDataFromResults M res)) lvl r node)
          (projected_nodes res)) \<longleftrightarrow>
   table_agrees res (ruleIdsToRuleIndices this)"
proof (cases "ruleIdsToRuleIndices this")
  case None
  then show ?thesis
    by (auto simp: convertResults_None table_agrees_def projected_nodes_Nil_iff)
next
  case (Some table)
  then show ?thesis
    by (simp add: convertResults_Some_map table_agrees_def map_result_entry_eq_iff
        del: map_eq_conv)
qed

lemma convert_contract_indexer:
  assumes "table_agrees res (ruleIdsToRuleIndices this)" and "contract_properties options = None"
  shows "convert M (with_contract_indexer this res) res options =
    Inr (contract_convert M this res options)"
proof -
  from assms(1) have "convertResults M (with_contract_indexer this res) res Map.empty =
      Inr (map (\<lambda>(lvl, r, node). result_entry (index_map (rule_ids_of res))
            (getArtifactLocation M (getEnvironmentDataFromResults M res)) lvl r node)
          (projected_nodes res))"
    by (simp add: with_contract_indexer_def convertResults_contract_iff)
  moreover from assms(2) have "\<not> wants_testCaseId options"
    by (simp add: contract_properties_None_iff)
  ultimately show ?thesis
    by (simp add: convert_eq [of _ _ _ _ Map.empty] contract_convert_def contract_run_eq assms(2))
qed

section \<open>Properties\<close>

text \<open>
  C6. The converter refines the specified conversion up to the taxonomy. For a
  converter whose indexer is the one of its table, whose table of rule indices agrees
  with the rule list of the document, and for options that supply neither a scan name
  nor a test case id, the log that \<open>convert\<close> returns, restricted to the guideline tags
  observed in the document, is the specified log: same rules, results, invocations and
  artifacts, the taxonomy of the observed tags, and every rule's taxonomy indices
  renumbered to it.
\<close>

theorem convert_refines_contract:
  assumes "converter_wf this" and "table_agrees res (ruleIdsToRuleIndices this)"
    and "contract_properties options = None"
  shows "map_sum id (restrict_log (contract_sorted_tags (tagsToWcagLinkData this) res))
      (convert M this res options) =
    Inr (contract_convert M this res options)"
  using convert_with_contract_indexer [OF assms(1), of M res options]
    convert_contract_indexer [OF assms(2,3), of M]
  by simp

theorem convert_refines_contract_witness:
  "map_sum id (restrict_log [''wcag222''])
     (convert example_imports example_converter
        (example_results\<lparr>violations := None, passes := None\<rparr>) None) =
   Inr (contract_convert example_imports example_converter
        (example_results\<lparr>violations := None, passes := None\<rparr>) None) \<and>
   map (\<lambda>run. (map taxa_indices (rules (driver (tool run))),
        map (map taxon_id \<circ> taxa) (taxonomies run)))
     (runs (contract_convert example_imports example_converter
        (example_results\<lparr>violations := None, passes := None\<rparr>) None)) =
   [([[0]], [[''wcag222'']])] \<and>
   map (\<lambda>run. (map taxa_indices (rules (driver (tool run))),
        map (map taxon_id \<circ> taxa) (taxonomies run)))
     (runs (projr (convert example_imports example_converter
        (example_results\<lparr>violations := None, passes := None\<rparr>) None))) =
   [([[1]], [[''wcag111'', ''wcag222'']])]"
proof -
  let ?res = "example_results\<lparr>violations := None, passes := None\<rparr>"
  have tags: "contract_sorted_tags (tagsToWcagLinkData example_converter) ?res = [''wcag222'']"
    by (simp add: contract_sorted_tags_def observed_tags_def all_rule_results_def
        defaultSarifConverter21_def)
  have agrees: "table_agrees ?res (ruleIdsToRuleIndices example_converter)"
    by (simp add: table_agrees_def projected_nodes_def)
  have none: "contract_properties None = None"
    by (simp add: contract_properties_def)
  from convert_refines_contract [where this = example_converter and M = example_imports
      and res = ?res and options = None, OF converter_wf_default agrees none]
  have 1: "map_sum id (restrict_log [''wcag222''])
      (convert example_imports example_converter ?res None) =
    Inr (contract_convert example_imports example_converter ?res None)"
    by (simp only: tags)
  have 2: "map (\<lambda>run. (map taxa_indices (rules (driver (tool run))),
        map (map taxon_id \<circ> taxa) (taxonomies run)))
     (runs (contract_convert example_imports example_converter ?res None)) =
   [([[0]], [[''wcag222'']])]"
    by (simp add: contract_convert_def contract_run_def contract_indexer_def
        contract_sorted_tags_def observed_tags_def defaultSarifConverter21_def
        getSortedWcagTags_def getWcagTagsToTaxaIndices_def rule_ids_of_def all_rule_results_def
        getRulePropertiesFromResults_def new_ResultToRuleConverter_def tags_of_rule_def
        taxa_indices_of_def index_map_def map_filter_simps)
  have 3: "map (\<lambda>run. (map taxa_indices (rules (driver (tool run))),
        map (map taxon_id \<circ> taxa) (taxonomies run)))
     (runs (projr (convert example_imports example_converter ?res None))) =
   [([[1]], [[''wcag111'', ''wcag222'']])]"
    by (simp add: convert_None defaultSarifConverter21_def
        getSortedWcagTags_def getWcagTagsToTaxaIndices_def rule_ids_of_def all_rule_results_def
        getRulePropertiesFromResults_def new_ResultToRuleConverter_def tags_of_rule_def
        taxa_indices_of_def index_map_def map_filter_simps)
  from 1 2 3 show ?thesis by (intro conjI)
qed

text \<open>
  C5. When the converter meets the specification. For a converter whose indexer is the
  one of its table, \<open>convert\<close> returns the specified log exactly when three conditions
  hold: the table of rule indices agrees with the rule list (without a table, the
  document has no node in violations, passes and incomplete results), the options
  supply neither a scan name nor a test case id, and every guideline tag of the static
  table is observed in the document. In every other case the call raises or returns a
  log that differs from the specified one.
\<close>

theorem convert_meets_contract_iff:
  assumes "converter_wf this"
  shows "convert M this res options = Inr (contract_convert M this res options) \<longleftrightarrow>
    table_agrees res (ruleIdsToRuleIndices this) \<and> contract_properties options = None \<and>
    fst ` set (tagsToWcagLinkData this) \<subseteq> set (observed_tags res)"
proof (intro iffI conjI)
  assume eq: "convert M this res options = Inr (contract_convert M this res options)"
  then obtain out where out: "convertResults M this res Map.empty = Inr out"
      "runs (contract_convert M this res options) = [assemble M this res out]"
    by (rule convert_Inr_runs)
  from out(2) have run: "contract_run M this res options = assemble M this res out"
    by (simp add: contract_convert_def)
  from run have "results (contract_run M this res options) = out"
    by simp
  with out(1) show "table_agrees res (ruleIdsToRuleIndices this)"
    by (simp add: contract_run_eq flip: convertResults_contract_iff [of M this res Map.empty])
  from run have "properties (contract_run M this res options) = None"
    by simp
  then show "contract_properties options = None"
    by (simp add: contract_run_eq)
  from run have "map (map taxon_id \<circ> taxa) (taxonomies (contract_run M this res options)) =
      map (map taxon_id \<circ> taxa) (taxonomies (assemble M this res out))"
    by (simp only:)
  with assms have "contract_sorted_tags (tagsToWcagLinkData this) res =
      sort (remdups (map fst (tagsToWcagLinkData this)))"
    by (simp add: contract_run_eq with_contract_indexer_def contract_indexer_def
        getSortedWcagTags_def converter_wf_def)
  then show "fst ` set (tagsToWcagLinkData this) \<subseteq> set (observed_tags res)"
    by (simp only: contract_sorted_tags_eq_iff)
next
  assume "table_agrees res (ruleIdsToRuleIndices this) \<and> contract_properties options = None \<and>
    fst ` set (tagsToWcagLinkData this) \<subseteq> set (observed_tags res)"
  then have a: "table_agrees res (ruleIdsToRuleIndices this)" "contract_properties options = None"
      "fst ` set (tagsToWcagLinkData this) \<subseteq> set (observed_tags res)"
    by simp_all
  from convert_contract_indexer [OF a(1,2), of M] with_contract_indexer_id [OF assms a(3)]
  show "convert M this res options = Inr (contract_convert M this res options)"
    by simp
qed

theorem convert_meets_contract_iff_witness:
  "convert example_imports (example_converter_with [''image-alt'' \<mapsto> 0, ''blink'' \<mapsto> 1])
      example_results None =
     Inr (contract_convert example_imports
       (example_converter_with [''image-alt'' \<mapsto> 0, ''blink'' \<mapsto> 1]) example_results None) \<and>
   convert example_imports example_converter empty_results None \<noteq>
     Inr (contract_convert example_imports example_converter empty_results None)"
proof -
  let ?conv = "example_converter_with [''image-alt'' \<mapsto> 0, ''blink'' \<mapsto> 1]"
  have "table_agrees example_results (ruleIdsToRuleIndices ?conv) \<and>
      contract_properties None = None \<and>
      fst ` set (tagsToWcagLinkData ?conv) \<subseteq> set (observed_tags example_results)"
    by (simp add: table_agrees_def projected_nodes_def rule_ids_of_def all_rule_results_def
        observed_tags_def contract_properties_def index_map_def defaultSarifConverter21_def)
  with convert_meets_contract_iff [where this = ?conv and M = example_imports
      and res = example_results and options = None]
  have 1: "convert example_imports ?conv example_results None =
      Inr (contract_convert example_imports ?conv example_results None)"
    by simp
  have "\<not> fst ` set (tagsToWcagLinkData example_converter) \<subseteq> set (observed_tags empty_results)"
    by (simp add: observed_tags_def all_rule_results_def defaultSarifConverter21_def)
  with convert_meets_contract_iff [where this = example_converter and M = example_imports
      and res = empty_results and options = None]
  have 2: "convert example_imports example_converter empty_results None \<noteq>
      Inr (contract_convert example_imports example_converter empty_results None)"
    by simp
  from 1 2 show ?thesis by (rule conjI)
qed

text \<open>
  C17. The restriction loses no reference. In every log that a converter with the
  indexer of its table returns, each taxonomy index of a rule is carried by the
  restriction to a position of the restricted taxonomy, and the taxon there is the
  taxon the rule referred to (same tag, title and url) with its new index: the tags of
  a rule are observed, so the converter's larger taxonomy only adds taxa that no rule
  of the run refers to.
\<close>

theorem contract_keeps_references:
  assumes "converter_wf this" and "convert M this res options = Inr log"
    and "run \<in> set (runs log)" and "r \<in> set (rules (driver (tool run)))"
    and "i \<in> set (taxa_indices r)"
  shows "\<exists>T T' j. taxonomies run = [T] \<and>
      taxonomies (restrict_run (contract_sorted_tags (tagsToWcagLinkData this) res) run) = [T'] \<and>
      reindex T (contract_sorted_tags (tagsToWcagLinkData this) res) i = Some j \<and>
      j < length (taxa T') \<and> taxa T' ! j = (taxa T ! i)\<lparr>taxon_index := j\<rparr>"
proof -
  let ?tgs = "getSortedWcagTags (wcagLinkDataIndexer this)"
  let ?keep = "contract_sorted_tags (tagsToWcagLinkData this) res"
  from assms(2) obtain out where "runs log = [assemble M this res out]"
    by (rule convert_Inr_runs)
  with assms(3) have run: "run = assemble M this res out" by simp
  with assms(4) have "r \<in> set (rules_of res (wcagLinkDataIndexer this))" by simp
  from rule_reference_kept [OF assms(1) this assms(5)] obtain j
    where j: "reindex (getWcagTaxonomy ?tgs (tagsToWcagLinkData this)) ?keep i = Some j"
      "j < length ?keep" "?keep ! j = ?tgs ! i"
    by blast
  from j(1) have i: "i < length ?tgs"
    by (simp add: reindex_getWcagTaxonomy split: if_splits)
  from restrict_run_assemble [OF assms(1), of res M out]
  have "taxonomies (restrict_run ?keep run) = [getWcagTaxonomy ?keep (tagsToWcagLinkData this)]"
    by (simp add: run with_contract_indexer_def contract_indexer_def getSortedWcagTags_def)
  with i j show ?thesis
    by (simp add: run nth_taxa taxon_of_def)
qed

theorem contract_keeps_references_witness:
  "\<exists>T T' j.
     taxonomies (assemble example_imports example_converter
       (example_results\<lparr>violations := None, passes := None\<rparr>) []) = [T] \<and>
     taxonomies (restrict_run
       (contract_sorted_tags (tagsToWcagLinkData example_converter)
          (example_results\<lparr>violations := None, passes := None\<rparr>))
       (assemble example_imports example_converter
          (example_results\<lparr>violations := None, passes := None\<rparr>) [])) = [T'] \<and>
     reindex T (contract_sorted_tags (tagsToWcagLinkData example_converter)
          (example_results\<lparr>violations := None, passes := None\<rparr>)) 1 = Some j \<and>
     j < length (taxa T') \<and> taxa T' ! j = (taxa T ! 1)\<lparr>taxon_index := j\<rparr>"
proof -
  let ?res = "example_results\<lparr>violations := None, passes := None\<rparr>"
  let ?run = "assemble example_imports example_converter ?res []"
  have log: "convert example_imports example_converter ?res None =
      Inr \<lparr>version = ''2.1.0'', runs = [?run]\<rparr>"
    by (simp add: convert_None)
  have r: "\<lparr>descriptor_id = ''blink'', descriptor_index = 0, taxa_indices = [1]\<rparr>
      \<in> set (rules (driver (tool ?run)))"
    by (simp add: defaultSarifConverter21_def getSortedWcagTags_def getWcagTagsToTaxaIndices_def
        rule_ids_of_def all_rule_results_def getRulePropertiesFromResults_def
        new_ResultToRuleConverter_def tags_of_rule_def taxa_indices_of_def index_map_def
        map_filter_simps)
  have run: "?run \<in> set (runs \<lparr>version = ''2.1.0'', runs = [?run]\<rparr>)"
    by simp
  have "1 \<in> set (taxa_indices \<lparr>descriptor_id = ''blink'', descriptor_index = 0,
      taxa_indices = [1]\<rparr>)"
    by simp
  from contract_keeps_references [OF converter_wf_default log run r this]
  show ?thesis .
qed

section \<open>The order of the rule list\<close>

text \<open>
  The specification names two orders for the rules of a run: the first appearance of
  the rule ids over the buckets (section 4.2), which the linker of the model follows,
  and the sorted set of the rule ids (section 3). The two readings give the same rule
  list, and with it the same rule indices, exactly for a document whose rule ids first
  appear in sorted order; the scan of the examples is not one, and exchanging two of
  its buckets changes the index of a rule although the set of rule ids stays the same.
\<close>

theorem rule_order_readings_agree_iff:
  "rule_ids_of res = sort (remdups (map rule_id (all_rule_results res))) \<longleftrightarrow>
     sorted (rule_ids_of res)"
proof
  assume "rule_ids_of res = sort (remdups (map rule_id (all_rule_results res)))"
  then show "sorted (rule_ids_of res)" by simp
next
  assume "sorted (rule_ids_of res)"
  then show "rule_ids_of res = sort (remdups (map rule_id (all_rule_results res)))"
    by (intro sorted_distinct_set_unique) (simp_all add: set_rule_ids_of)
qed

theorem rule_order_readings_differ:
  "rule_ids_of example_results \<noteq>
     sort (remdups (map rule_id (all_rule_results example_results))) \<and>
   set (rule_ids_of example_results) =
     set (rule_ids_of (example_results\<lparr>violations := inapplicable example_results,
       inapplicable := violations example_results\<rparr>)) \<and>
   index_map (rule_ids_of example_results) ''blink'' \<noteq>
     index_map (rule_ids_of (example_results\<lparr>violations := inapplicable example_results,
       inapplicable := violations example_results\<rparr>)) ''blink''"
  by (auto simp: rule_ids_of_def all_rule_results_def index_map_def)

end
