(* ===== verification/Spec2Isabelle.thy ===== *)
theory Spec2Isabelle
  imports Run_Assembler Array_Utils Custom_Rules Entry_Point Log_Conformance Conversion_Contract
begin

text \<open>
  A verification development for the axe-to-SARIF converter of \<open>axe-sarif-converter\<close>
  (\<open>src/src\<close>).

  \<^bold>\<open>The program.\<close> \<open>sarif-converter-21.ts\<close> turns the decorated results of an axe
  accessibility scan into a SARIF log with one run. The class \<open>SarifConverter21\<close> is
  constructed from four collaborators (converter properties, tool properties,
  invocations, artifact properties) and initialises a \<open>WCAGLinkDataIndexer\<close> from the
  static table of guideline tags. \<open>convert\<close> wraps \<open>convertRun\<close>, which builds the
  rule list with a \<open>ResultToRuleConverter\<close>, calls \<open>convertResults\<close> for the result
  entries and \<open>getWcagTaxonomy\<close> for the taxonomy. \<open>convertResults\<close> runs
  \<open>convertRuleResults\<close> over the violations, passes and incomplete results and
  \<open>convertRuleResultsWithoutNodes\<close> over the inapplicable ones; \<open>convertRuleResult\<close>
  pushes one entry per node, with the message of \<open>convertMessage\<close>, which in turn
  calls \<open>convertMessageChecks\<close> and \<open>escapeForMarkdown\<close>. \<open>array-utils.ts\<close> holds
  \<open>isEmpty\<close>. \<open>index.ts\<close> holds the entry point \<open>axeToSarif\<close>, which constructs a
  result decorator and a converter from imported collaborators, decorates the raw
  results and converts them with empty options. The two files of
  \<open>custom-rule-configurations\<close> define the checks \<open>get-frame-title\<close>
  (\<open>evaluateTitle\<close>) and \<open>collect-headings\<close> (\<open>evaluateCodedHeadings\<close>), which the
  scan engine evaluates on DOM elements, with their rule configurations.

  \<^bold>\<open>The theories.\<close>
  \<^item> \<open>Axe_Prelude\<close>: exceptions as values (\<open>error\<close>, \<open>'a result\<close>, \<open>andThen\<close>), the
    \<open>for \<dots> of\<close> loop over a mutated accumulator (\<open>forEach\<close>), the built-ins
    \<open>join\<close> and \<open>replaceAll\<close>, the reader \<open>split_on\<close> of a joined string, position
    tables (\<open>index_map\<close>, \<open>first_seen\<close>), and the lemmas on them that the component
    proofs share (collections \<open>js_simps\<close>, \<open>loop_simps\<close>, \<open>index_simps\<close>).
  \<^item> \<open>Sarif_Types\<close>: the records of the input (\<open>CheckResult\<close>, \<open>NodeResult\<close>,
    \<open>DecoratedAxeResult\<close>, \<open>DecoratedAxeResults\<close>, \<open>ConverterOptions\<close>) and of the
    output (\<open>Message\<close> to \<open>Log\<close>), with the properties the converter reads and
    writes. An absent bucket or option is \<open>None\<close>.
  \<^item> \<open>Message_Synthesizer\<close>: \<open>convertMessage\<close>, \<open>convertMessageChecks\<close>, its loop,
    \<open>escapeForMarkdown\<close>; the abstract message \<open>message_spec\<close>; the refinement
    theorem, the absence of \<open><\<close> in the markdown, and the readings of the text.
  \<^item> \<open>Wcag_Taxonomy\<close> and \<open>Rule_Linker\<close>: the indexer, the taxonomy and the
    rule-to-taxonomy linker, whose sources are not under \<open>src\<close>; they are modelled from
    the specification and from their calls in \<open>convertRun\<close>, with their invariants
    \<open>indexer_wf\<close> and \<open>rules_wf\<close>.
  \<^item> \<open>Converter_Object\<close>: the class as the record \<open>SarifConverter21\<close> of its instance
    properties, the constructor \<open>new_SarifConverter21\<close>, the factory
    \<open>defaultSarifConverter21\<close>, and the record \<open>Imports\<close> of the module's imported
    bindings. Every theorem holds for all collaborators.
  \<^item> \<open>Result_Projector\<close>: \<open>convertResults\<close>, \<open>convertRuleResults\<close>,
    \<open>convertRuleResult\<close>, \<open>convertRuleResultsWithoutNodes\<close> and the location
    helpers, \<open>resultArray\<close> passed in and returned; the abstract projection
    \<open>project\<close>; each method characterised with and without a table of rule indices;
    the target path read back from the logical location.
  \<^item> \<open>Projector_Machine\<close>: the same methods executed step by step. A configuration
    (\<open>config\<close>) is the stack of open control points (\<open>work\<close>: a call or a loop with
    what it still has to visit) and \<open>resultArray\<close>, or the end of the call (\<open>Returned\<close>,
    \<open>Raised\<close>); \<open>projector_step\<close> is the step relation with one rule per loop header,
    loop body and return, \<open>projector_next\<close> the same step as a function,
    \<open>projector_run\<close> its iteration with fuel. The theorems show that the machine ends
    in what \<open>convertResults\<close> returns or raises, that every run ends (the relation is
    well founded and a run has at most \<open>config_size\<close> steps), that the array only grows
    at its end, and that every node is reported.
  \<^item> \<open>Run_Assembler\<close>: \<open>convertRun\<close> and \<open>convert\<close>; the run \<open>assemble\<close> that the
    object literal denotes; the behaviour of the default converter and the effect of
    each option.
  \<^item> \<open>Log_Conformance\<close>: the cross references and the shape of a returned log as
    predicates (\<open>result_conforms\<close>, \<open>rule_conforms\<close>, \<open>taxonomy_conforms\<close>,
    \<open>run_conforms\<close>, \<open>log_conforms\<close>); every log that \<open>convert\<close> returns conforms, and
    every step of the projector machine keeps the array conforming (the invariant
    \<open>config_inv\<close>, by induction over the steps).
  \<^item> \<open>Conversion_Contract\<close>: what the specification asks of the conversion, as
    definitions beside the code: the indexer over the guideline tags observed in the
    document (\<open>contract_indexer\<close>), the specified run and log (\<open>contract_run\<close>,
    \<open>contract_convert\<close>), and the restriction of a log to a list of tags
    (\<open>restrict_log\<close>), which is the abstraction from the converter's output to the
    specified one. The theorems show that the restricted output of \<open>convert\<close> is the
    specified log when the table of rule indices agrees with the rule list and no run
    property is asked for, that the restriction loses no reference of a rule to a
    taxon, and that \<open>convert\<close> returns the specified log exactly when, in addition,
    every tag of the static table is observed.
  \<^item> \<open>Array_Utils\<close>: \<open>isEmpty\<close>.
  \<^item> \<open>Js_Strings\<close>: the string built-ins that the custom rules call, \<open>trim\<close>,
    \<open>toLowerCase\<close>, \<open>parseInt10\<close> (\<open>parseInt\<close> with radix 10) and \<open>match_H_digit\<close>
    (\<open>match\<close> with \<open>/H(\d)/\<close>), after the ECMAScript definitions; the decomposition
    that characterises \<open>trim\<close>, and \<open>parseInt\<close> as the inverse of printing a numeral.
  \<^item> \<open>Custom_Rules\<close>: \<open>frame-title.ts\<close> and \<open>heading-rule.ts\<close>. The element is the
    record \<open>HTMLElement\<close> of the properties read; the check context \<open>this\<close> is the
    record \<open>CheckContext\<close>, on which \<open>this.data(d)\<close> stores \<open>d\<close>; \<open>evaluateTitle\<close> and
    \<open>evaluateCodedHeadings\<close> take the context and return it with their result. The
    configurations are the records \<open>frameTitleConfiguration\<close> and
    \<open>headingConfiguration\<close>. The theorems give the result and the stored data of
    each check on every path; they are about the two \<open>evaluate\<close> functions, not about
    the engine that calls them.
  \<^item> \<open>Entry_Point\<close>: \<open>axeToSarif\<close> over the record \<open>Index_Imports\<close> of the bindings
    that \<open>index.ts\<close> imports, and its evaluation on concrete collaborators. The
    converter that \<open>index.ts\<close> constructs is the one of \<open>sarif-converter.ts\<close>, which is
    not under \<open>src\<close>; nothing connects \<open>axeToSarif\<close> to \<open>SarifConverter21\<close>, and since
    every collaborator is a parameter the theory states no property of the entry point.
  \<^item> This theory: index integrity, taxonomy coverage, the taxonomy of a run and the
    empty document, which span the projector, the linker, the taxonomy and the
    assembler; and the conformance of the specified log.

  \<^bold>\<open>State and errors.\<close> The converter keeps no state between calls. Within a call
  the arrays that the methods push to are passed in and returned. A method that can
  raise returns \<open>error + 'a\<close> (\<open>Inl\<close> the exception). Two expressions of the source read
  or write a property of \<open>undefined\<close>: \<open>this.ruleIdsToRuleIndices[ruleResult.id]\<close> in
  \<open>convertRuleResult\<close>, since no code defines that property, and
  \<open>run.properties!.testCaseId = \<dots>\<close> in \<open>convertRun\<close>, since the run literal has no
  \<open>properties\<close>. The model gives the converter record the optional field
  \<open>ruleIdsToRuleIndices\<close>, which the constructor leaves \<open>None\<close>, and the run record
  the optional field \<open>properties\<close>, which the literal leaves \<open>None\<close>. Theorems about
  the converter as shipped instantiate the field with \<open>None\<close>; theorems about the
  intended behaviour assume a table on the converter.

  \<^bold>\<open>Bounds.\<close> The functions of the model use no fuel: every loop of the sources runs
  over a finite array and is a structural recursion. The run of the projector machine
  takes fuel; \<open>config_size\<close> of a configuration is enough of it, which for the initial
  configuration is at most nine, twice the number of rule results in violations, passes
  and incomplete, the number of inapplicable rule results and the number of nodes. Strings are lists of \<open>char\<close>, one per code unit; indices
  are natural numbers. A \<open>char\<close> has eight bits, so the strings of the model are those
  over the code units below 256. The converter only copies, joins and compares code
  units and replaces \<open><\<close>, which does not depend on this bound; \<open>trim\<close> and
  \<open>toLowerCase\<close> are modelled on the white space and the letters of Latin-1. The value
  of \<open>parseInt\<close> is an unbounded integer, which is the number that JavaScript returns
  for numerals below \<open>2 ^ 53\<close>; the theorems that read a numeral state this bound.

  \<^bold>\<open>Collaborators.\<close> A collaborator is a function of the model, so it returns a
  value for every argument; the theorems say nothing of a call in which a collaborator
  of the converter raises. \<open>convertRun\<close> binds the result of \<open>convertResults\<close> before it
  writes the run literal, which differs from the order of the source only in such a
  call. The two calls of the entry point that work on the scan results return
  \<open>error + 'a\<close>, so that an exception of the decorator or of the converter is a value
  there.

  \<^bold>\<open>What the theorems rest on.\<close> The theorems that assume a table of rule indices on
  the converter describe a converter that no code under \<open>src\<close> constructs; they are
  contracts of the methods, and the theorems about the converter as shipped are those
  with the field \<open>None\<close>. The rule list and the taxonomy of a run come from the linker
  and the indexer, which are modelled from the specification: the order of the rules
  (first appearance, specification 4.2, where section 3 says sorted) and the tags of a
  rule (those of its first rule result) are readings of the specification, and no
  theorem on the order of the rules is claimed. \<open>assemble\<close> and \<open>result_entry\<close> repeat
  the object literals of \<open>convertRun\<close> and \<open>convertRuleResult\<close>; the theorems stated
  through them fix when and with which entries a run is returned, and the lemmas
  \<open>assemble_simps\<close> and \<open>result_entry_simps\<close> give their members. The string built-ins
  (\<open>trim\<close>, \<open>toLowerCase\<close>, \<open>parseInt\<close>, \<open>match\<close>, \<open>join\<close>, \<open>replace\<close>) and the
  method \<open>this.data\<close> of the check context are not code of the repository: they are
  modelled after ECMAScript and the scan engine's interface, and their entries in the
  map name the lines that call them. The target of a node is a list of strings, as
  in the specification's data model; a target with nested arrays (selectors across
  frames or shadow roots), which \<open>join\<close> would render with commas, is not modelled.

  \<^bold>\<open>Not modelled.\<close> The collaborators outside \<open>src\<close> that the converter only calls
  (environment data, artifact location and properties, tool and converter properties,
  invocations) and those that the entry point constructs and calls (message decorator,
  help url getter, document utilities, result decorator, the converter of
  \<open>sarif-converter.ts\<close>) are parameters: fields of \<open>Imports\<close> and of \<open>Index_Imports\<close>.
  Of the scan engine the model has what the checks use, the context's \<open>data\<close> method;
  the call of a check by the engine and the selection of elements by a rule's selector
  are not modelled.
\<close>

section \<open>Properties that span the components\<close>

text \<open>
  C2. Index integrity. When the converter's table of rule indices is the position table
  of the rule list that the linker builds for the same document, every result entry of
  a returned log refers to a rule of the run: its \<open>ruleIndex\<close> is defined and is the
  position, in the driver's rule list, of the rule whose id is the entry's \<open>ruleId\<close>.
\<close>

theorem rule_index_integrity:
  assumes "ruleIdsToRuleIndices this =
      Some (rule_index_table (rules_of res (wcagLinkDataIndexer this)))"
    and "convert M this res options = Inr log"
  shows "\<exists>run. runs log = [run] \<and>
    (\<forall>e \<in> set (results run). \<exists>i. ruleIndex e = Some i \<and>
       i < length (rules (driver (tool run))) \<and>
       descriptor_id (rules (driver (tool run)) ! i) = ruleId e)"
proof -
  let ?rules = "rules_of res (wcagLinkDataIndexer this)"
  let ?loc = "getArtifactLocation M (getEnvironmentDataFromResults M res)"
  from assms(2) obtain out where out: "convertResults M this res Map.empty = Inr out"
    and run: "runs log = [assemble M this res out]"
    by (rule convert_Inr_runs)
  have "\<exists>i. ruleIndex e = Some i \<and> i < length ?rules \<and> descriptor_id (?rules ! i) = ruleId e"
    if "e \<in> set out" for e
  proof -
    from out that convertResults_Some_map [OF assms(1), of M res Map.empty]
    obtain lvl r node where n: "(lvl, r, node) \<in> set (projected_nodes res)"
      and e: "e = result_entry (rule_index_table ?rules) ?loc lvl r node"
      by auto
    from n have "r \<in> set (all_rule_results res)"
      by (simp add: projected_nodes_all_rule_results)
    from rule_index_table_covers [OF this] e show ?thesis by simp
  qed
  with run show ?thesis by simp
qed

theorem rule_index_integrity_witness:
  "\<exists>run. runs (projr (convert example_imports
      (example_converter_with (rule_index_table
         (rules_of example_results (wcagLinkDataIndexer example_converter))))
      example_results None)) = [run] \<and>
    (\<forall>e \<in> set (results run). \<exists>i. ruleIndex e = Some i \<and>
       i < length (rules (driver (tool run))) \<and>
       descriptor_id (rules (driver (tool run)) ! i) = ruleId e)"
proof -
  let ?conv = "example_converter_with (rule_index_table
      (rules_of example_results (wcagLinkDataIndexer example_converter)))"
  obtain log where log: "convert example_imports ?conv example_results None = Inr log"
    by (simp add: convert_Some [of _ "rule_index_table
        (rules_of example_results (wcagLinkDataIndexer example_converter))"])
  have "ruleIdsToRuleIndices ?conv =
      Some (rule_index_table (rules_of example_results (wcagLinkDataIndexer ?conv)))"
    by simp
  from rule_index_integrity [OF this log] log show ?thesis by simp
qed

text \<open>
  C10. Taxonomy coverage. In every log returned by a converter whose indexer is the one
  of its table of guideline tags, the run has exactly one taxonomy, and every taxonomy
  index of a rule of the driver is a valid position in that taxonomy, at which the
  taxon carries this index.
\<close>

theorem taxonomy_coverage:
  assumes "converter_wf this" and "convert M this res options = Inr log"
  shows "\<exists>run tx. runs log = [run] \<and> taxonomies run = [tx] \<and>
    (\<forall>r \<in> set (rules (driver (tool run))). \<forall>i \<in> set (taxa_indices r).
       i < length (taxa tx) \<and> taxon_index (taxa tx ! i) = i)"
proof -
  from assms(2) obtain out where run: "runs log = [assemble M this res out]"
    by (rule convert_Inr_runs)
  from assms(1) have wf: "indexer_wf (wcagLinkDataIndexer this)"
    by (rule converter_wf_indexer)
  have "i < length (getSortedWcagTags (wcagLinkDataIndexer this))"
    if "r \<in> set (rules_of res (wcagLinkDataIndexer this))" "i \<in> set (taxa_indices r)" for r i
    using wf that by (rule rules_taxa_indices_bound)
  with run show ?thesis by simp
qed

theorem taxonomy_coverage_witness:
  "\<exists>run tx. runs (projr (convert example_imports example_converter
        (example_results\<lparr>violations := None, passes := None\<rparr>) None)) = [run] \<and>
    taxonomies run = [tx] \<and>
    (\<forall>r \<in> set (rules (driver (tool run))). \<forall>i \<in> set (taxa_indices r).
       i < length (taxa tx) \<and> taxon_index (taxa tx ! i) = i)"
proof -
  obtain log where log: "convert example_imports example_converter
      (example_results\<lparr>violations := None, passes := None\<rparr>) None = Inr log"
    by (simp add: convert_None)
  from taxonomy_coverage [OF converter_wf_default log] log show ?thesis by simp
qed

text \<open>
  C30. Empty input. On a document without rule results the converter that
  \<open>defaultSarifConverter21\<close> returns does not fail: it returns a log with one run whose
  rule list and result list are empty. The run's taxonomy is not empty: it always
  holds one taxonomy with a taxon per tag of the static table, in sorted order.
\<close>

theorem convert_empty_input:
  assumes "all_rule_results res = []"
  shows "\<exists>run. convert M (defaultSarifConverter21 M) res None =
      Inr \<lparr>version = SarifLogVersion21_version M, runs = [run]\<rparr> \<and>
    rules (driver (tool run)) = [] \<and> results run = [] \<and>
    map (map taxon_id \<circ> taxa) (taxonomies run) =
      [sort (remdups (map fst (axeTagsToWcagLinkData M)))]"
proof -
  from assms have "\<not> (has_nodes (violations res) \<or> has_nodes (passes res) \<or>
      has_nodes (incomplete res))"
    by (auto simp: all_rule_results_def has_nodes_def)
  then show ?thesis
    using assms
    by (simp add: convert_None rule_ids_of_empty getSortedWcagTags_def
        defaultSarifConverter21_def)
qed

theorem convert_empty_input_witness:
  "\<exists>run. convert example_imports example_converter empty_results None =
      Inr \<lparr>version = ''2.1.0'', runs = [run]\<rparr> \<and>
    rules (driver (tool run)) = [] \<and> results run = [] \<and>
    map (map taxon_id \<circ> taxa) (taxonomies run) = [[''wcag111'', ''wcag222'']]"
  using convert_empty_input [of empty_results example_imports]
  by (simp add: all_rule_results_def)

text \<open>
  C18. The taxonomy of a run. In every log returned by a converter whose indexer is the
  one of its table, the taxa of the run's taxonomy are the tags of the static table,
  strictly sorted and without duplicates, whatever the document holds; the taxon at
  position \<open>i\<close> has index \<open>i\<close> and the title and url that the table gives for its tag.
\<close>

theorem run_taxonomy_sorted:
  assumes "converter_wf this" and "convert M this res options = Inr log"
  shows "\<exists>run tx. runs log = [run] \<and> taxonomies run = [tx] \<and>
    sorted_wrt (<) (map taxon_id (taxa tx)) \<and>
    set (map taxon_id (taxa tx)) = fst ` set (tagsToWcagLinkData this) \<and>
    (\<forall>i < length (taxa tx). taxon_index (taxa tx ! i) = i \<and>
       (\<exists>d. map_of (tagsToWcagLinkData this) (taxon_id (taxa tx ! i)) = Some d \<and>
          taxon_title (taxa tx ! i) = link_title d \<and> taxon_url (taxa tx ! i) = link_url d))"
proof -
  let ?tbl = "tagsToWcagLinkData this"
  let ?tags = "sort (remdups (map fst ?tbl))"
  from assms(2) obtain out where run: "runs log = [assemble M this res out]"
    by (rule convert_Inr_runs)
  from assms(1) have tags: "getSortedWcagTags (wcagLinkDataIndexer this) = ?tags"
    by (simp add: converter_wf_def getSortedWcagTags_def)
  have "\<exists>d. map_of ?tbl (?tags ! i) = Some d" if "i < length ?tags" for i
  proof -
    from that have "?tags ! i \<in> set ?tags" by (rule nth_mem)
    then have "?tags ! i \<in> fst ` set ?tbl" by simp
    then show ?thesis by (metis map_of_eq_None_iff not_Some_eq)
  qed
  then have "\<exists>d. map_of ?tbl (?tags ! i) = Some d \<and>
      taxon_title (taxa (getWcagTaxonomy ?tags ?tbl) ! i) = link_title d \<and>
      taxon_url (taxa (getWcagTaxonomy ?tags ?tbl) ! i) = link_url d"
    if "i < length ?tags" for i
    using that taxon_title_known [of i ?tags ?tbl] by blast
  with run tags show ?thesis by (simp add: strict_sorted_iff)
qed

theorem run_taxonomy_sorted_witness:
  "\<exists>run tx. runs (projr (convert example_imports (example_converter_with Map.empty)
        example_results None)) = [run] \<and> taxonomies run = [tx] \<and>
    map (\<lambda>t. (taxon_id t, taxon_index t, taxon_title t)) (taxa tx) =
      [(''wcag111'', 0, ''Non-text Content''), (''wcag222'', 1, ''Pause, Stop, Hide'')]"
proof -
  obtain log where log: "convert example_imports (example_converter_with Map.empty)
      example_results None = Inr log"
    by (simp add: convert_Some [of _ Map.empty])
  have "converter_wf (example_converter_with Map.empty)" by simp
  from run_taxonomy_sorted [OF this log] obtain run tx where
    "runs log = [run]" "taxonomies run = [tx]" by blast
  with log show ?thesis
    by (auto simp: convert_Some [of _ Map.empty] getSortedWcagTags_def getWcagTaxonomy_def
        taxon_of_def defaultSarifConverter21_def enumerate_eq_zip upt_rec)
qed

section \<open>The specified log\<close>

text \<open>
  The log that the specification asks for conforms for every document and all options:
  its results refer to the rules of the run by index and id, its rules to positions of
  its taxonomy. The error class of the specification's section 7, a result that refers
  to a rule outside the rule list, therefore cannot arise from a document of the input
  type; the specified conversion is total.
\<close>

theorem contract_log_conforms:
  "log_conforms (SarifLogVersion21_version M) (contract_convert M this res options)"
proof -
  let ?conv = "with_contract_indexer this res"
  let ?out = "map (\<lambda>(lvl, r, node). result_entry (index_map (rule_ids_of res))
      (getArtifactLocation M (getEnvironmentDataFromResults M res)) lvl r node)
    (projected_nodes res)"
  have ix: "indexer_wf (wcagLinkDataIndexer ?conv)"
    by (simp add: with_contract_indexer_def)
  have "list_all (result_conforms (rules_of res (wcagLinkDataIndexer ?conv))) ?out"
    using result_conforms_projected [of _ _ _ res "wcagLinkDataIndexer ?conv"]
    by (auto simp: list_all_iff)
  with ix have "run_conforms (assemble M ?conv res ?out)"
    by (rule run_conforms_assemble)
  then show ?thesis
    by (simp add: log_conforms_def contract_convert_def contract_run_eq run_conforms_properties)
qed

end
